theory Spec2Isabelle
  imports Complex_Main "HOL-Library.Word" "HOL-Library.Sublist"
begin

section \<open>JavaScript strings\<close>

text \<open>
  A JavaScript string is a sequence of UTF-16 code units; \<open>length\<close> counts code units, as
  \<^verbatim>\<open>text.length\<close> does. \<open>js\<close> turns an ASCII literal of the source into such a string.
\<close>

type_synonym jsstring = "16 word list"

definition js :: "string \<Rightarrow> jsstring" where
  "js s = map of_char s"

text \<open>
  The code units that \<^verbatim>\<open>String.prototype.trim\<close> removes and that \<^verbatim>\<open>\s\<close> matches in a regular
  expression: WhiteSpace and LineTerminator of ECMAScript.
\<close>

definition is_whitespace :: "16 word \<Rightarrow> bool" where
  "is_whitespace c \<longleftrightarrow>
     c \<in> set [0x0009, 0x000A, 0x000B, 0x000C, 0x000D, 0x0020, 0x00A0, 0x1680,
              0x2000, 0x2001, 0x2002, 0x2003, 0x2004, 0x2005, 0x2006, 0x2007, 0x2008, 0x2009,
              0x200A, 0x2028, 0x2029, 0x202F, 0x205F, 0x3000, 0xFEFF]"

definition trimStart :: "jsstring \<Rightarrow> jsstring" where
  "trimStart s = dropWhile is_whitespace s"

definition trim :: "jsstring \<Rightarrow> jsstring" where
  "trim s = rev (dropWhile is_whitespace (rev (dropWhile is_whitespace s)))"

text \<open>
  \<^verbatim>\<open>s.split(sep)\<close> for a non-empty separator: the pieces between the successive occurrences of
  \<open>sep\<close>, found from left to right without overlap. \<open>piece\<close> is the piece being read.
\<close>

fun split_from :: "jsstring \<Rightarrow> jsstring \<Rightarrow> jsstring \<Rightarrow> jsstring list" where
  "split_from sep piece [] = [piece]"
| "split_from sep piece (c # cs) =
     (if prefix sep (c # cs) then piece # split_from sep [] (drop (length sep - 1) cs)
      else split_from sep (piece @ [c]) cs)"

definition split :: "jsstring \<Rightarrow> jsstring \<Rightarrow> jsstring list" where
  "split s sep = split_from sep [] s"

definition startsWith :: "jsstring \<Rightarrow> jsstring \<Rightarrow> bool" where
  "startsWith s p = prefix p s"

text \<open>Decimal rendering of a number, as a template literal interpolates \<^verbatim>\<open>res.status\<close>.\<close>

fun decimal :: "nat \<Rightarrow> jsstring" where
  "decimal n = (if n < 10 then [of_nat (48 + n)] else decimal (n div 10) @ [of_nat (48 + n mod 10)])"

text \<open>
  \<^verbatim>\<open>Number(s)\<close> for a string of decimal digits, which is all the handlers apply it to
  (the strings "1", "2" and "3").
\<close>

definition Number :: "jsstring \<Rightarrow> nat" where
  "Number s = foldl (\<lambda>n c. 10 * n + (unat c - 48)) 0 s"

section \<open>JSON values and requests\<close>

text \<open>
  A parsed JSON document. An object is its list of properties (distinct keys). A property
  access yields \<open>None\<close> for \<^verbatim>\<open>undefined\<close>.
\<close>

datatype jsval =
    JNull
  | JBool bool
  | JNum real
  | JStr jsstring
  | JArr "jsval list"
  | JObj "(jsstring \<times> jsval) list"

text \<open>
  A thrown value. \<open>Error m\<close> is an error with the message \<open>m\<close>; \<open>Thrown\<close> is a value thrown
  where no handler reads its message (the rejection of a \<^verbatim>\<open>fetch\<close> or of \<^verbatim>\<open>res.json()\<close> that
  is not caught on the spot, a TypeError on a reply without the text path).
\<close>

datatype js_error = Error (message: jsstring) | Thrown

fun truthy :: "jsval option \<Rightarrow> bool" where
  "truthy None = False"
| "truthy (Some JNull) = False"
| "truthy (Some (JBool b)) = b"
| "truthy (Some (JNum x)) = (x \<noteq> 0)"
| "truthy (Some (JStr s)) = (s \<noteq> [])"
| "truthy (Some (JArr xs)) = True"
| "truthy (Some (JObj kvs)) = True"

fun is_string :: "jsval option \<Rightarrow> bool" where
  "is_string (Some (JStr s)) = True"
| "is_string _ = False"

text \<open>The string behind a value that \<open>is_string\<close>; the handlers read it only under that test.\<close>

fun the_string :: "jsval option \<Rightarrow> jsstring" where
  "the_string (Some (JStr s)) = s"
| "the_string _ = []"

text \<open>
  The asynchronous computations of a handler: they may throw, and they issue requests to the
  external API. The state is the list of the requests issued so far, oldest first. Every request
  is a POST with a JSON content type whose body wraps the prompt
  (\<^verbatim>\<open>{contents: [{parts: [{text: prompt}]}]}\<close>), so a request is kept as its URL and its prompt.
\<close>

record fetch_request =
  url :: jsstring
  prompt :: jsstring

text \<open>
  What one \<^verbatim>\<open>fetch\<close> meets: no reply at all, or a reply with its HTTP status and its body. The
  handlers read the reply document through the path \<^verbatim>\<open>candidates[0].content.parts[0].text\<close> only:
  \<open>Text t\<close> when a string is there, \<open>NoText\<close> when the path ends in \<^verbatim>\<open>undefined\<close> or \<^verbatim>\<open>null\<close>,
  \<open>JsonNull\<close> when the document itself is \<^verbatim>\<open>null\<close>, \<open>Unparseable\<close> when the body is not JSON. An \<open>api\<close> gives the outcome of the first, second, ...
  request of one invocation.
\<close>

datatype reply_content = Unparseable | JsonNull | NoText | Text jsstring

datatype fetch_outcome = NetworkFailure | Reply nat reply_content

type_synonym api = "nat \<Rightarrow> fetch_outcome"

type_synonym 'a task = "fetch_request list \<Rightarrow> (js_error + 'a) \<times> fetch_request list"

definition resolve :: "'a \<Rightarrow> 'a task" where
  "resolve x sent = (Inr x, sent)"

definition throw :: "js_error \<Rightarrow> 'a task" where
  "throw e sent = (Inl e, sent)"

definition await :: "'a task \<Rightarrow> ('a \<Rightarrow> 'b task) \<Rightarrow> 'b task" where
  "await m k sent = (case m sent of (Inl e, sent') \<Rightarrow> (Inl e, sent') | (Inr x, sent') \<Rightarrow> k x sent')"

definition fetch :: "api \<Rightarrow> fetch_request \<Rightarrow> fetch_outcome task" where
  "fetch api rq sent = (Inr (api (length sent)), sent @ [rq])"

definition ok :: "nat \<Rightarrow> bool" where
  "ok status \<longleftrightarrow> 200 \<le> status \<and> status \<le> 299"


section \<open>Requests, environment and responses\<close>

text \<open>
  What \<^verbatim>\<open>await request.json()\<close> gives: a rejection (the body is not JSON), by its message, or
  the parsed document.
\<close>

datatype request = Malformed jsstring | Parsed jsval

definition request_json :: "request \<Rightarrow> jsval task" where
  "request_json request = (case request of Malformed m \<Rightarrow> throw (Error m) | Parsed v \<Rightarrow> resolve v)"

record env =
  GEMINI_API_KEY :: "jsstring option"

text \<open>
  A \<^verbatim>\<open>Response\<close>. The body is \<^verbatim>\<open>JSON.stringify(data)\<close>; the record keeps \<open>data\<close>, the document
  that the body text denotes.
\<close>

record response =
  status :: nat
  headers :: "(jsstring \<times> jsstring) list"
  body :: jsval

text \<open>
  \<^verbatim>\<open>body.name\<close> for the property names the handlers read (\<open>text\<close> and \<open>tone\<close>), which no
  array, string, number or boolean has. Reading a property of \<^verbatim>\<open>null\<close> throws a TypeError,
  with the message of V8, the engine of the Pages runtime.
\<close>

fun property :: "jsval \<Rightarrow> string \<Rightarrow> jsval option task" where
  "property (JObj kvs) name = resolve (map_of kvs (js name))"
| "property JNull name =
     throw (Error (js ''Cannot read properties of null (reading '' @ [0x27] @ js name @ [0x27] @ js '')''))"
| "property _ name = resolve None"

definition json :: "jsval \<Rightarrow> nat \<Rightarrow> response" where
  "json data st =
     \<lparr>status = st,
      headers = [(js ''Content-Type'', js ''application/json''),
                 (js ''Access-Control-Allow-Origin'', js ''*'')],
      body = data\<rparr>"

definition allowedTones :: "jsstring list" where
  "allowedTones = [js ''standard'', js ''simple'', js ''professional'', js ''academic'']"

text \<open>\<^verbatim>\<open>allowedTones.includes(tone)\<close>: only a string is the same value as one of the entries.\<close>

definition array_includes :: "jsstring list \<Rightarrow> jsval option \<Rightarrow> bool" where
  "array_includes xs v \<longleftrightarrow> is_string v \<and> the_string v \<in> set xs"

section \<open>The call to the external API, with full error handling\<close>

text \<open>
  \<^verbatim>\<open>callGemini\<close> of the first handler of \<^verbatim>\<open>functions/api/paraphrase.js\<close>, of \<^verbatim>\<open>part_000\<close> and of
  \<^verbatim>\<open>part_001\<close>, which differ in the endpoint only. The \<^verbatim>\<open>console.error\<close> lines are not
  modelled.
\<close>

definition callGemini :: "api \<Rightarrow> jsstring \<Rightarrow> jsstring \<Rightarrow> jsstring task" where
  "callGemini api endpoint p =
     await (fetch api \<lparr>url = endpoint, prompt = p\<rparr>) (\<lambda>res.
       case res of
         NetworkFailure \<Rightarrow> throw (Error (js ''Failed to reach Gemini API (network error)''))
       | Reply st Unparseable \<Rightarrow> throw (Error (js ''Gemini returned invalid JSON''))
       | Reply st content \<Rightarrow>
           if \<not> ok st then
             (if st = 401 \<or> st = 403 then
                throw (Error (js ''Gemini API key is invalid or unauthorized''))
              else if st = 429 then throw (Error (js ''Gemini rate limit exceeded''))
              else throw (Error (js ''Gemini API error ('' @ decimal st @ js '')'')))
           else
             (case content of
                Text t \<Rightarrow>
                  if trim t = [] then throw (Error (js ''Gemini returned empty content''))
                  else resolve (trim t)
              | _ \<Rightarrow> throw (Error (js ''Gemini returned empty content''))))"

text \<open>The parsing of the stage-1 reply and of the stage-2 reply, the same in these handlers.\<close>

definition variations_of :: "jsstring \<Rightarrow> jsstring list" where
  "variations_of variationsRaw =
     filter (\<lambda>v. v \<noteq> []) (map trim (split variationsRaw (js ''|||'')))"

definition index_of :: "jsstring \<Rightarrow> nat" where
  "index_of selectionRaw =
     (let choice = trim selectionRaw in
      if choice \<in> set [js ''1'', js ''2'', js ''3''] then Number choice - 1 else 0)"

section \<open>The first handler of \<^verbatim>\<open>functions/api/paraphrase.js\<close> (five stages)\<close>

definition paraphrase_stage1 :: "jsstring \<Rightarrow> jsstring" where
  \<open>paraphrase_stage1 text =
     js ''\<newline>'' @
     js ''You are a skilled human writer rewriting content to sound completely natural and undetectable.\<newline>'' @
     js ''\<newline>'' @
     js ''Create THREE completely different versions of the text below. For each version:\<newline>'' @
     js ''- Use varied sentence lengths (mix short punchy sentences with longer flowing ones)\<newline>'' @
     js ''- Start sentences differently (avoid repetitive patterns)\<newline>'' @
     js ''- Use natural transitions and connectors humans use ("though", "however", "actually", "in fact")\<newline>'' @
     js ''- Mix sentence structures (simple, compound, complex)\<newline>'' @
     js ''- Use active voice predominantly but occasionally passive where natural\<newline>'' @
     js ''- Include subtle informal touches if appropriate (contractions, natural phrasing)\<newline>'' @
     js ''- Avoid overly formal or robotic patterns\<newline>'' @
     js ''- Change word order and paragraph flow significantly\<newline>'' @
     js ''- Use synonyms that humans would naturally choose, not thesaurus replacements\<newline>'' @
     js ''\<newline>'' @
     js ''Output ONLY the three rewrites separated by |||. No explanations.\<newline>'' @
     js ''\<newline>'' @
     js ''ORIGINAL TEXT:\<newline>'' @
     text @
     js ''\<newline>''\<close>

definition paraphrase_stage2 :: "jsstring list \<Rightarrow> jsstring" where
  \<open>paraphrase_stage2 variations =
     js ''\<newline>'' @
     js ''You're an expert at detecting natural human writing vs AI patterns.\<newline>'' @
     js ''\<newline>'' @
     js ''Which rewrite sounds MOST like authentic human writing?\<newline>'' @
     js ''Consider:\<newline>'' @
     js ''- Natural flow and rhythm\<newline>'' @
     js ''- Varied sentence structure\<newline>'' @
     js ''- Absence of AI patterns (overly formal, repetitive structures)\<newline>'' @
     js ''- Human-like word choices\<newline>'' @
     js ''- Natural transitions\<newline>'' @
     js ''\<newline>'' @
     js ''Reply ONLY with the number 1, 2, or 3.\<newline>'' @
     js ''\<newline>'' @
     js ''1. '' @
     (variations ! 0) @
     js ''\<newline>'' @
     js ''2. '' @
     (variations ! 1) @
     js ''\<newline>'' @
     js ''3. '' @
     (variations ! 2) @
     js ''\<newline>''\<close>

definition paraphrase_stage3 :: "jsstring \<Rightarrow> jsstring" where
  \<open>paraphrase_stage3 selected =
     js ''\<newline>'' @
     js ''You are refining this text to be completely undetectable by AI detection tools.\<newline>'' @
     js ''\<newline>'' @
     js ''Apply these human writing characteristics:\<newline>'' @
     js ''1. Vary sentence rhythm - mix 5-word sentences with 20+ word sentences\<newline>'' @
     js ''2. Use natural human connectors ("and", "but", "though", "while", "since")\<newline>'' @
     js ''3. Break up any repetitive patterns in sentence structure\<newline>'' @
     js ''4. Use contractions naturally where appropriate (don't, it's, we're)\<newline>'' @
     js ''5. Add slight stylistic variation (not every sentence should follow subject-verb-object)\<newline>'' @
     js ''6. Use more specific, concrete language over generic terms\<newline>'' @
     js ''7. Avoid these AI tells:\<newline>'' @
     js ''   - Starting multiple sentences the same way\<newline>'' @
     js ''   - Overuse of formal vocabulary\<newline>'' @
     js ''   - Perfectly balanced sentence lengths\<newline>'' @
     js ''   - Lists with identical grammatical structure\<newline>'' @
     js ''   - Overuse of adverbs (particularly, significantly, notably)\<newline>'' @
     js ''8. Write like you're explaining to a friend, not writing an essay\<newline>'' @
     js ''\<newline>'' @
     js ''Output ONLY the refined text. No explanations.\<newline>'' @
     js ''\<newline>'' @
     js ''TEXT:\<newline>'' @
     selected @
     js ''\<newline>''\<close>

definition paraphrase_stage4 :: "jsstring \<Rightarrow> jsstring \<Rightarrow> jsstring" where
  \<open>paraphrase_stage4 tone selected =
     js ''\<newline>'' @
     js ''Apply a '' @
     tone @
     js '' tone while keeping the text authentically human.\<newline>'' @
     js ''\<newline>'' @
     js ''Final polish checklist:\<newline>'' @
     js ''- Ensure natural, conversational flow\<newline>'' @
     js ''- Remove any remaining robotic patterns\<newline>'' @
     js ''- Vary sentence openings\<newline>'' @
     js ''- Mix sentence complexity (some simple, some complex)\<newline>'' @
     js ''- Use natural human phrasing for the '' @
     tone @
     js '' tone\<newline>'' @
     js ''- Keep it genuine - humans aren't perfect writers\<newline>'' @
     js ''- Avoid AI red flags: overly formal language, repetitive structures, excessive politeness\<newline>'' @
     js ''\<newline>'' @
     js ''If tone is "simple": Use everyday words, short sentences, clear and direct\<newline>'' @
     js ''If tone is "professional": Confident and clear, but still conversational \<newline>'' @
     js ''If tone is "academic": Formal but not robotic, use discipline-appropriate language\<newline>'' @
     js ''If tone is "standard": Natural middle ground, like a good blog post\<newline>'' @
     js ''\<newline>'' @
     js ''Output ONLY the final polished text.\<newline>'' @
     js ''\<newline>'' @
     js ''TEXT:\<newline>'' @
     selected @
     js ''\<newline>''\<close>

definition paraphrase_stage5 :: "jsstring \<Rightarrow> jsstring \<Rightarrow> jsstring" where
  \<open>paraphrase_stage5 tone final =
     js ''\<newline>'' @
     js ''AI detectors measure "perplexity" (word predictability) and "burstiness" (sentence length variation).\<newline>'' @
     js ''Humans have HIGH burstiness (varied sentences) and HIGHER perplexity (less predictable word choices).\<newline>'' @
     js ''\<newline>'' @
     js ''Rewrite this to maximize both:\<newline>'' @
     js ''\<newline>'' @
     js ''PERPLEXITY (make word choices less predictable):\<newline>'' @
     js ''- Replace obvious next-word choices with natural alternatives\<newline>'' @
     js ''- Use less common but appropriate synonyms occasionally\<newline>'' @
     js ''- Vary your vocabulary - don't repeat the same descriptive words\<newline>'' @
     js ''- Choose unexpected but fitting transitions\<newline>'' @
     js ''\<newline>'' @
     js ''BURSTINESS (create dramatic sentence length variation):\<newline>'' @
     js ''- Make some sentences very short. Like this.\<newline>'' @
     js ''- Then create longer, more flowing sentences that weave together multiple ideas with natural connectors and build a complete thought before ending.\<newline>'' @
     js ''- Follow with medium-length sentences for balance.\<newline>'' @
     js ''- Mix it up constantly - avoid any pattern.\<newline>'' @
     js ''\<newline>'' @
     js ''Target: 30-50% variation in sentence length, with at least 2 sentences under 8 words and 2 over 20 words.\<newline>'' @
     js ''\<newline>'' @
     js ''Keep all meaning and the '' @
     tone @
     js '' tone. Output ONLY the final text.\<newline>'' @
     js ''\<newline>'' @
     js ''TEXT:\<newline>'' @
     final @
     js ''\<newline>''\<close>

definition paraphrase_endpoint :: jsstring where
  "paraphrase_endpoint =
     js ''https://generativelanguage.googleapis.com/v1beta/models/gemini-2.5-flash:generateContent?key=''"

definition paraphrase_pipeline :: "api \<Rightarrow> jsstring \<Rightarrow> jsstring \<Rightarrow> jsstring \<Rightarrow> response task" where
  "paraphrase_pipeline api key text tone =
     await (callGemini api (paraphrase_endpoint @ key) (paraphrase_stage1 text)) (\<lambda>variationsRaw.
     let variations = variations_of variationsRaw in
     if length variations < 3 then throw (Error (js ''Gemini failed to generate 3 variations''))
     else
     await (callGemini api (paraphrase_endpoint @ key) (paraphrase_stage2 variations)) (\<lambda>selectionRaw.
     let index = index_of selectionRaw;
         selected = variations ! index in
     await (callGemini api (paraphrase_endpoint @ key) (paraphrase_stage3 selected)) (\<lambda>selected.
     await (callGemini api (paraphrase_endpoint @ key) (paraphrase_stage4 tone selected)) (\<lambda>final.
     await (callGemini api (paraphrase_endpoint @ key) (paraphrase_stage5 tone final)) (\<lambda>final.
     resolve (json (JObj [(js ''result'', JStr final)]) 200))))))"

definition onRequestPost :: "api \<Rightarrow> request \<Rightarrow> env \<Rightarrow> response \<times> fetch_request list" where
  "onRequestPost api request env =
     (case
        (await (request_json request) (\<lambda>body.
         await (property body ''text'') (\<lambda>text.
         await (property body ''tone'') (\<lambda>tone0.
         let tone = (if truthy tone0 then tone0 else Some (JStr (js ''standard''))) in
         if \<not> truthy text \<or> \<not> is_string text \<or> 2000 < length (the_string text) then
           resolve (json (JObj [(js ''error'', JStr (js ''Invalid input text''))]) 400)
         else if \<not> array_includes allowedTones tone then
           resolve (json (JObj [(js ''error'', JStr (js ''Invalid tone''))]) 400)
         else if GEMINI_API_KEY env = None \<or> GEMINI_API_KEY env = Some [] then
           resolve (json (JObj [(js ''error'',
             JStr (js ''GEMINI_API_KEY is missing in environment variables''))]) 500)
         else
           paraphrase_pipeline api (the (GEMINI_API_KEY env)) (the_string text) (the_string tone)))))
        []
      of
        (Inr res, sent) \<Rightarrow> (res, sent)
      | (Inl err, sent) \<Rightarrow>
          (json (JObj [(js ''error'', JStr (js ''Paraphrasing failed'')),
                       (js ''details'', JStr (message err))]) 500, sent))"

section \<open>The handler of \<^verbatim>\<open>part_000\<close> (four stages)\<close>

definition part_000_stage1 :: "jsstring \<Rightarrow> jsstring" where
  \<open>part_000_stage1 text =
     js ''\<newline>'' @
     js ''Rewrite the text below in THREE different ways.\<newline>'' @
     js ''Each rewrite must preserve meaning but change structure and wording deeply.\<newline>'' @
     js ''Output ONLY the three rewrites separated by |||.\<newline>'' @
     js ''\<newline>'' @
     js ''TEXT:\<newline>'' @
     text @
     js ''\<newline>''\<close>

definition part_000_stage2 :: "jsstring list \<Rightarrow> jsstring" where
  \<open>part_000_stage2 variations =
     js ''\<newline>'' @
     js ''Choose the BEST rewrite based on clarity, naturalness, and meaning preservation.\<newline>'' @
     js ''Reply ONLY with the number 1, 2, or 3.\<newline>'' @
     js ''\<newline>'' @
     js ''1. '' @
     (variations ! 0) @
     js ''\<newline>'' @
     js ''2. '' @
     (variations ! 1) @
     js ''\<newline>'' @
     js ''3. '' @
     (variations ! 2) @
     js ''\<newline>''\<close>

definition part_000_stage3 :: "jsstring \<Rightarrow> jsstring" where
  \<open>part_000_stage3 selected =
     js ''\<newline>'' @
     js ''Improve the text to sound fluent, natural, and human-written.\<newline>'' @
     js ''Avoid AI patterns.\<newline>'' @
     js ''Output ONLY the rewritten text.\<newline>'' @
     js ''\<newline>'' @
     js ''TEXT:\<newline>'' @
     selected @
     js ''\<newline>''\<close>

definition part_000_stage4 :: "jsstring \<Rightarrow> jsstring \<Rightarrow> jsstring" where
  \<open>part_000_stage4 tone selected =
     js ''\<newline>'' @
     js ''Rewrite the text in a '' @
     tone @
     js '' tone.\<newline>'' @
     js ''Preserve meaning and clarity.\<newline>'' @
     js ''Output ONLY the final text.\<newline>'' @
     js ''\<newline>'' @
     js ''TEXT:\<newline>'' @
     selected @
     js ''\<newline>''\<close>

definition part_000_endpoint :: jsstring where
  "part_000_endpoint =
     js ''https://generativelanguage.googleapis.com/v1/models/gemini-1.5-flash:generateContent?key=''"

definition part_000_pipeline :: "api \<Rightarrow> jsstring \<Rightarrow> jsstring \<Rightarrow> jsstring \<Rightarrow> response task" where
  "part_000_pipeline api key text tone =
     await (callGemini api (part_000_endpoint @ key) (part_000_stage1 text)) (\<lambda>variationsRaw.
     let variations = variations_of variationsRaw in
     if length variations < 3 then throw (Error (js ''Gemini failed to generate 3 variations''))
     else
     await (callGemini api (part_000_endpoint @ key) (part_000_stage2 variations)) (\<lambda>selectionRaw.
     let index = index_of selectionRaw;
         selected = variations ! index in
     await (callGemini api (part_000_endpoint @ key) (part_000_stage3 selected)) (\<lambda>selected.
     await (callGemini api (part_000_endpoint @ key) (part_000_stage4 tone selected)) (\<lambda>final.
     resolve (json (JObj [(js ''result'', JStr final)]) 200)))))"

definition onRequestPost_part_000 :: "api \<Rightarrow> request \<Rightarrow> env \<Rightarrow> response \<times> fetch_request list" where
  "onRequestPost_part_000 api request env =
     (case
        (await (request_json request) (\<lambda>body.
         await (property body ''text'') (\<lambda>text.
         await (property body ''tone'') (\<lambda>tone0.
         let tone = (if truthy tone0 then tone0 else Some (JStr (js ''standard''))) in
         if \<not> truthy text \<or> \<not> is_string text \<or> 2000 < length (the_string text) then
           resolve (json (JObj [(js ''error'', JStr (js ''Invalid input text''))]) 400)
         else if \<not> array_includes allowedTones tone then
           resolve (json (JObj [(js ''error'', JStr (js ''Invalid tone''))]) 400)
         else if GEMINI_API_KEY env = None \<or> GEMINI_API_KEY env = Some [] then
           resolve (json (JObj [(js ''error'',
             JStr (js ''GEMINI_API_KEY is missing in environment variables''))]) 500)
         else
           part_000_pipeline api (the (GEMINI_API_KEY env)) (the_string text) (the_string tone)))))
        []
      of
        (Inr res, sent) \<Rightarrow> (res, sent)
      | (Inl err, sent) \<Rightarrow>
          (json (JObj [(js ''error'', JStr (js ''Paraphrasing failed'')),
                       (js ''details'', JStr (message err))]) 500, sent))"

section \<open>The handler of \<^verbatim>\<open>part_001\<close> (six stages)\<close>

definition part_001_stage1 :: "jsstring \<Rightarrow> jsstring" where
  \<open>part_001_stage1 text =
     js ''\<newline>'' @
     js ''REWRITE this text to be completely undetectable by AI detectors. Think like a real human writer.\<newline>'' @
     js ''\<newline>'' @
     js ''CREATE THREE VERSIONS using these strict rules:\<newline>'' @
     js ''\<newline>'' @
     js ''1. SENTENCE VARIETY (critical):\<newline>'' @
     js ''   - At least 2 very short sentences (3-7 words)\<newline>'' @
     js ''   - At least 2 long sentences (20+ words)\<newline>'' @
     js ''   - NO patterns - random mix of lengths\<newline>'' @
     js ''   - Start sentences in completely different ways\<newline>'' @
     js ''\<newline>'' @
     js ''2. HUMAN PATTERNS:\<newline>'' @
     js ''   - Use casual connectors: "And", "But", "So" to start sentences sometimes\<newline>'' @
     js ''   - Add natural fillers: "actually", "basically", "really", "just"\<newline>'' @
     js ''   - Use contractions freely: don't, can't, it's, we're, I'm\<newline>'' @
     js ''   - Occasionally use incomplete thoughts that get completed\<newline>'' @
     js ''\<newline>'' @
     js ''3. BREAK AI PATTERNS:\<newline>'' @
     js ''   - NEVER use: "furthermore", "moreover", "additionally", "consequently" \<newline>'' @
     js ''   - AVOID: "significant", "utilize", "demonstrate", "implement"\<newline>'' @
     js ''   - NO bullet-point-like structures\<newline>'' @
     js ''   - NO parallel sentence structures (every sentence should be structurally different)\<newline>'' @
     js ''\<newline>'' @
     js ''4. WORD CHOICES:\<newline>'' @
     js ''   - Use simpler, everyday words\<newline>'' @
     js ''   - Choose unexpected but natural synonyms\<newline>'' @
     js ''   - Vary how you express ideas (don't repeat patterns)\<newline>'' @
     js ''\<newline>'' @
     js ''5. FLOW:\<newline>'' @
     js ''   - Write like you're talking to someone\<newline>'' @
     js ''   - Some ideas flow naturally into the next, some don't\<newline>'' @
     js ''   - Not every transition needs to be perfect\<newline>'' @
     js ''\<newline>'' @
     js ''OUTPUT: Three complete rewrites separated by |||. NO explanations.\<newline>'' @
     js ''\<newline>'' @
     js ''TEXT:\<newline>'' @
     text @
     js ''\<newline>''\<close>

definition part_001_stage2 :: "jsstring list \<Rightarrow> jsstring" where
  \<open>part_001_stage2 variations =
     js ''\<newline>'' @
     js ''You're an expert at detecting natural human writing vs AI patterns.\<newline>'' @
     js ''\<newline>'' @
     js ''Which rewrite sounds MOST like authentic human writing?\<newline>'' @
     js ''Consider:\<newline>'' @
     js ''- Natural flow and rhythm\<newline>'' @
     js ''- Varied sentence structure\<newline>'' @
     js ''- Absence of AI patterns (overly formal, repetitive structures)\<newline>'' @
     js ''- Human-like word choices\<newline>'' @
     js ''- Natural transitions\<newline>'' @
     js ''\<newline>'' @
     js ''Reply ONLY with the number 1, 2, or 3.\<newline>'' @
     js ''\<newline>'' @
     js ''1. '' @
     (variations ! 0) @
     js ''\<newline>'' @
     js ''2. '' @
     (variations ! 1) @
     js ''\<newline>'' @
     js ''3. '' @
     (variations ! 2) @
     js ''\<newline>''\<close>

definition part_001_stage3 :: "jsstring \<Rightarrow> jsstring" where
  \<open>part_001_stage3 selected =
     js ''\<newline>'' @
     js ''AI DETECTORS look for patterns. Your job: DESTROY all patterns.\<newline>'' @
     js ''\<newline>'' @
     js ''APPLY THESE FIXES:\<newline>'' @
     js ''\<newline>'' @
     js ''1. SENTENCE LENGTH CHAOS:\<newline>'' @
     js ''   - Current text probably has similar-length sentences (AI habit)\<newline>'' @
     js ''   - FIX: Make some 4-5 words. Others 25+ words. Random mix.\<newline>'' @
     js ''   - Count the words - force variety\<newline>'' @
     js ''\<newline>'' @
     js ''2. SENTENCE STARTERS:\<newline>'' @
     js ''   - Check: Do sentences start similarly? (The, It, This, etc.)\<newline>'' @
     js ''   - FIX: Start with different parts of speech - verbs, adverbs, conjunctions\<newline>'' @
     js ''   - Use "And", "But", "So" sometimes (humans do this, AI avoids it)\<newline>'' @
     js ''\<newline>'' @
     js ''3. VOCABULARY DOWNGRADE:\<newline>'' @
     js ''   - Replace fancy AI words with normal ones:\<newline>'' @
     js ''   - "utilize" '' @
     [0x2192] @
     js '' "use"\<newline>'' @
     js ''   - "demonstrate" '' @
     [0x2192] @
     js '' "show" \<newline>'' @
     js ''   - "significant" '' @
     [0x2192] @
     js '' "big" or "major"\<newline>'' @
     js ''   - "implement" '' @
     [0x2192] @
     js '' "do" or "put in place"\<newline>'' @
     js ''   - "furthermore" '' @
     [0x2192] @
     js '' "also" or "and"\<newline>'' @
     js ''\<newline>'' @
     js ''4. ADD HUMAN QUIRKS:\<newline>'' @
     js ''   - Use contractions everywhere natural\<newline>'' @
     js ''   - Add emphasis words: "really", "actually", "pretty", "quite"\<newline>'' @
     js ''   - Occasional casual phrasing\<newline>'' @
     js ''   - Not every sentence needs perfect transitions\<newline>'' @
     js ''\<newline>'' @
     js ''5. RHYTHM BREAKING:\<newline>'' @
     js ''   - AI loves: statement, statement, statement\<newline>'' @
     js ''   - Humans use: short punch. Long explanation that flows. Medium followup.\<newline>'' @
     js ''   - Mix it completely randomly\<newline>'' @
     js ''\<newline>'' @
     js ''6. REMOVE:\<newline>'' @
     js ''   - All adverbs ending in -ly if possible\<newline>'' @
     js ''   - Perfect parallel structures  \<newline>'' @
     js ''   - Overly formal tone\<newline>'' @
     js ''   - Academic-sounding phrases\<newline>'' @
     js ''\<newline>'' @
     js ''Write like a human blogs or talks, not like AI writes essays.\<newline>'' @
     js ''\<newline>'' @
     js ''OUTPUT: Refined text only.\<newline>'' @
     js ''\<newline>'' @
     js ''TEXT:\<newline>'' @
     selected @
     js ''\<newline>''\<close>

definition part_001_stage4 :: "jsstring \<Rightarrow> jsstring \<Rightarrow> jsstring" where
  \<open>part_001_stage4 tone selected =
     js ''\<newline>'' @
     js ''Apply a '' @
     tone @
     js '' tone while keeping the text authentically human.\<newline>'' @
     js ''\<newline>'' @
     js ''Final polish checklist:\<newline>'' @
     js ''- Ensure natural, conversational flow\<newline>'' @
     js ''- Remove any remaining robotic patterns\<newline>'' @
     js ''- Vary sentence openings\<newline>'' @
     js ''- Mix sentence complexity (some simple, some complex)\<newline>'' @
     js ''- Use natural human phrasing for the '' @
     tone @
     js '' tone\<newline>'' @
     js ''- Keep it genuine - humans aren't perfect writers\<newline>'' @
     js ''- Avoid AI red flags: overly formal language, repetitive structures, excessive politeness\<newline>'' @
     js ''\<newline>'' @
     js ''If tone is "simple": Use everyday words, short sentences, clear and direct\<newline>'' @
     js ''If tone is "professional": Confident and clear, but still conversational \<newline>'' @
     js ''If tone is "academic": Formal but not robotic, use discipline-appropriate language\<newline>'' @
     js ''If tone is "standard": Natural middle ground, like a good blog post\<newline>'' @
     js ''\<newline>'' @
     js ''Output ONLY the final polished text.\<newline>'' @
     js ''\<newline>'' @
     js ''TEXT:\<newline>'' @
     selected @
     js ''\<newline>''\<close>

definition part_001_stage5 :: "jsstring \<Rightarrow> jsstring \<Rightarrow> jsstring" where
  \<open>part_001_stage5 tone final =
     js ''\<newline>'' @
     js ''FINAL CHECK: Make this text 100% undetectable.\<newline>'' @
     js ''\<newline>'' @
     js ''AI DETECTION KILLER TECHNIQUES:\<newline>'' @
     js ''\<newline>'' @
     js ''1. EXTREME SENTENCE VARIATION:\<newline>'' @
     js ''   - Shortest sentence: 3-5 words MAX\<newline>'' @
     js ''   - Longest sentence: 25-35 words\<newline>'' @
     js ''   - Create UNPREDICTABLE pattern: short, long, medium, short, very long, medium, etc.\<newline>'' @
     js ''   - No two consecutive sentences should be similar length\<newline>'' @
     js ''\<newline>'' @
     js ''2. WORD UNPREDICTABILITY:\<newline>'' @
     js ''   - Where AI would say "important" '' @
     [0x2192] @
     js '' say "key" or "crucial" or "big deal"\<newline>'' @
     js ''   - Where AI would say "however" '' @
     [0x2192] @
     js '' say "but" or "though" or just start new sentence\<newline>'' @
     js ''   - Use everyday words, not formal ones\<newline>'' @
     js ''   - Occasionally use colloquial expressions if appropriate\<newline>'' @
     js ''\<newline>'' @
     js ''3. STRUCTURE CHAOS:\<newline>'' @
     js ''   - Mix simple sentences with complex ones randomly\<newline>'' @
     js ''   - Some sentences with commas and clauses, others without\<newline>'' @
     js ''   - Vary how you connect ideas (sometimes with connectors, sometimes just new sentences)\<newline>'' @
     js ''   - Break expected patterns\<newline>'' @
     js ''\<newline>'' @
     js ''4. HUMAN TOUCHES:\<newline>'' @
     js ''   - Contractions in at least 30% of opportunities\<newline>'' @
     js ''   - Start at least one sentence with "And", "But", or "So"\<newline>'' @
     js ''   - Use personal pronouns naturally (we, you, I if appropriate)\<newline>'' @
     js ''   - Add subtle emphasis: "really", "actually", "definitely"\<newline>'' @
     js ''\<newline>'' @
     js ''5. TONE CHECK ('' @
     tone @
     js ''):\<newline>'' @
     js ''   - Simple: Talk like a friend explaining something\<newline>'' @
     js ''   - Professional: Confident but conversational, not corporate\<newline>'' @
     js ''   - Academic: Scholarly but not robotic or overly formal\<newline>'' @
     js ''   - Standard: Natural blog-post style\<newline>'' @
     js ''\<newline>'' @
     js ''6. FINAL SCAN:\<newline>'' @
     js ''   - Count words in each sentence - are they varied enough?\<newline>'' @
     js ''   - Read aloud - does it sound like a human or AI?\<newline>'' @
     js ''   - Any repeated sentence patterns? BREAK THEM.\<newline>'' @
     js ''\<newline>'' @
     js ''OUTPUT: The final humanized text.\<newline>'' @
     js ''\<newline>'' @
     js ''TEXT:\<newline>'' @
     final @
     js ''\<newline>''\<close>

definition part_001_stage6 :: "jsstring \<Rightarrow> jsstring \<Rightarrow> jsstring" where
  \<open>part_001_stage6 tone final =
     js ''\<newline>'' @
     js ''This is the FINAL PASS. Your ONLY job: make this pass AI detection at 0-20% AI likelihood.\<newline>'' @
     js ''\<newline>'' @
     js ''AI DETECTORS SPECIFICALLY FLAG THESE - ELIMINATE THEM ALL:\<newline>'' @
     js ''\<newline>'' @
     [0x274C] @
     js '' BANNED WORDS (replace with natural alternatives):\<newline>'' @
     js ''- Additionally, Furthermore, Moreover, Consequently '' @
     [0x2192] @
     js '' use "Also", "And", "Plus", "So"\<newline>'' @
     js ''- Utilize, Leverage '' @
     [0x2192] @
     js '' use "use"\<newline>'' @
     js ''- Demonstrates, Showcases '' @
     [0x2192] @
     js '' use "shows"\<newline>'' @
     js ''- Significant, Substantial '' @
     [0x2192] @
     js '' use "big", "major", "important"\<newline>'' @
     js ''- Implement, Execute '' @
     [0x2192] @
     js '' use "do", "make", "put in place"\<newline>'' @
     js ''- Facilitate '' @
     [0x2192] @
     js '' use "help", "make easier"\<newline>'' @
     js ''- Enhance '' @
     [0x2192] @
     js '' use "improve", "make better"\<newline>'' @
     js ''- Comprehensive '' @
     [0x2192] @
     js '' use "complete", "full"\<newline>'' @
     js ''- Robust '' @
     [0x2192] @
     js '' use "strong", "solid"\<newline>'' @
     js ''- Ensure '' @
     [0x2192] @
     js '' use "make sure"\<newline>'' @
     js ''\<newline>'' @
     [0x274C] @
     js '' AI SENTENCE PATTERNS (rewrite these):\<newline>'' @
     js ''- "It is important to note that..." '' @
     [0x2192] @
     js '' just state the fact\<newline>'' @
     js ''- "This allows for..." '' @
     [0x2192] @
     js '' use "This lets..."\<newline>'' @
     js ''- "In order to..." '' @
     [0x2192] @
     js '' use "To..."\<newline>'' @
     js ''- "Due to the fact that..." '' @
     [0x2192] @
     js '' use "Because..."\<newline>'' @
     js ''- "For the purpose of..." '' @
     [0x2192] @
     js '' use "To..."\<newline>'' @
     js ''\<newline>'' @
     [0x2705] @
     js '' DO THIS:\<newline>'' @
     js ''1. Replace at least 3 formal words with casual equivalents\<newline>'' @
     js ''2. Add 2+ contractions (don't, can't, it's, won't)\<newline>'' @
     js ''3. Start at least 1 sentence with: And, But, or So\<newline>'' @
     js ''4. Make shortest sentence 5 words or less\<newline>'' @
     js ''5. Make longest sentence 25+ words\<newline>'' @
     js ''6. Use simple, direct language\<newline>'' @
     js ''7. Break any repetitive rhythm\<newline>'' @
     js ''\<newline>'' @
     [0x2705] @
     js '' HUMAN WRITING SIGNS:\<newline>'' @
     js ''- Varied punctuation (mix periods, commas, occasional dashes)\<newline>'' @
     js ''- Natural flow, not robotic precision\<newline>'' @
     js ''- Some sentences that dive straight into the point\<newline>'' @
     js ''- Conversational tone (like explaining to a colleague)\<newline>'' @
     js ''\<newline>'' @
     js ''Keep the '' @
     tone @
     js '' tone and all original meaning.\<newline>'' @
     js ''\<newline>'' @
     js ''OUTPUT: The final undetectable text ONLY.\<newline>'' @
     js ''\<newline>'' @
     js ''TEXT:\<newline>'' @
     final @
     js ''\<newline>''\<close>

definition part_001_endpoint :: jsstring where
  "part_001_endpoint =
     js ''https://generativelanguage.googleapis.com/v1beta/models/gemini-2.5-flash:generateContent?key=''"

definition part_001_pipeline :: "api \<Rightarrow> jsstring \<Rightarrow> jsstring \<Rightarrow> jsstring \<Rightarrow> response task" where
  "part_001_pipeline api key text tone =
     await (callGemini api (part_001_endpoint @ key) (part_001_stage1 text)) (\<lambda>variationsRaw.
     let variations = variations_of variationsRaw in
     if length variations < 3 then throw (Error (js ''Gemini failed to generate 3 variations''))
     else
     await (callGemini api (part_001_endpoint @ key) (part_001_stage2 variations)) (\<lambda>selectionRaw.
     let index = index_of selectionRaw;
         selected = variations ! index in
     await (callGemini api (part_001_endpoint @ key) (part_001_stage3 selected)) (\<lambda>selected.
     await (callGemini api (part_001_endpoint @ key) (part_001_stage4 tone selected)) (\<lambda>final.
     await (callGemini api (part_001_endpoint @ key) (part_001_stage5 tone final)) (\<lambda>final.
     await (callGemini api (part_001_endpoint @ key) (part_001_stage6 tone final)) (\<lambda>final.
     resolve (json (JObj [(js ''result'', JStr final)]) 200)))))))"

definition onRequestPost_part_001 :: "api \<Rightarrow> request \<Rightarrow> env \<Rightarrow> response \<times> fetch_request list" where
  "onRequestPost_part_001 api request env =
     (case
        (await (request_json request) (\<lambda>body.
         await (property body ''text'') (\<lambda>text.
         await (property body ''tone'') (\<lambda>tone0.
         let tone = (if truthy tone0 then tone0 else Some (JStr (js ''standard''))) in
         if \<not> truthy text \<or> \<not> is_string text \<or> 2000 < length (the_string text) then
           resolve (json (JObj [(js ''error'', JStr (js ''Invalid input text''))]) 400)
         else if \<not> array_includes allowedTones tone then
           resolve (json (JObj [(js ''error'', JStr (js ''Invalid tone''))]) 400)
         else if GEMINI_API_KEY env = None \<or> GEMINI_API_KEY env = Some [] then
           resolve (json (JObj [(js ''error'',
             JStr (js ''GEMINI_API_KEY is missing in environment variables''))]) 500)
         else
           part_001_pipeline api (the (GEMINI_API_KEY env)) (the_string text) (the_string tone)))))
        []
      of
        (Inr res, sent) \<Rightarrow> (res, sent)
      | (Inl err, sent) \<Rightarrow>
          (json (JObj [(js ''error'', JStr (js ''Paraphrasing failed'')),
                       (js ''details'', JStr (message err))]) 500, sent))"

section \<open>The second handler of \<^verbatim>\<open>functions/api/paraphrase.js\<close> (numbered variations)\<close>

text \<open>
  \<^verbatim>\<open>parseInt(string)\<close> without a radix: leading white space, a sign, an optional \<^verbatim>\<open>0x\<close>, then the
  longest run of digits; \<open>None\<close> is \<^verbatim>\<open>NaN\<close>. The result is the integer the digits denote; the
  rounding of a long run to a double does not change whether it is 1, 2 or 3.
\<close>

definition digit_value :: "nat \<Rightarrow> 16 word \<Rightarrow> nat option" where
  "digit_value radix c =
     (let d = (if 0x30 \<le> c \<and> c \<le> 0x39 then unat c - 0x30
               else if 0x61 \<le> c \<and> c \<le> 0x7A then unat c - 0x61 + 10
               else if 0x41 \<le> c \<and> c \<le> 0x5A then unat c - 0x41 + 10
               else radix)
      in if d < radix then Some d else None)"

text \<open>The digits of \<open>S\<close> in radix \<open>R\<close>: the longest run of digits, \<open>None\<close> when it is empty.\<close>

definition parse_digits :: "nat \<Rightarrow> jsstring \<Rightarrow> nat option" where
  "parse_digits R S =
     (let Z = takeWhile (\<lambda>c. digit_value R c \<noteq> None) S
      in if Z = [] then None else Some (foldl (\<lambda>n c. R * n + the (digit_value R c)) 0 Z))"

text \<open>After the sign: the prefix \<^verbatim>\<open>0x\<close> or \<^verbatim>\<open>0X\<close> makes the radix 16 and is stripped.\<close>

definition parse_unsigned :: "jsstring \<Rightarrow> nat option" where
  "parse_unsigned S =
     (if 2 \<le> length S \<and> (take 2 S = js ''0x'' \<or> take 2 S = js ''0X'') then parse_digits 16 (drop 2 S)
      else parse_digits 10 S)"

definition parseInt :: "jsstring \<Rightarrow> int option" where
  "parseInt string =
     (let S = trimStart string
      in if S \<noteq> [] \<and> hd S = 0x2D then map_option (\<lambda>n. - int n) (parse_unsigned (tl S))
         else if S \<noteq> [] \<and> hd S = 0x2B then map_option int (parse_unsigned (tl S))
         else map_option int (parse_unsigned S))"

text \<open>
  \<^verbatim>\<open>lines.find(l => l.startsWith('1.'))?.replace(/^1\.\s*/, '') || ''\<close>, for the number \<open>n\<close>: the
  first line with the prefix, without the prefix and the white space after it.
\<close>

definition numbered :: "string \<Rightarrow> jsstring list \<Rightarrow> jsstring" where
  "numbered n lines =
     (case find (\<lambda>l. startsWith l (js n)) lines of
        None \<Rightarrow> []
      | Some l \<Rightarrow> dropWhile is_whitespace (drop (length n) l))"

definition paraphrase_v2_stage1Prompt :: "jsstring \<Rightarrow> jsstring" where
  \<open>paraphrase_v2_stage1Prompt text =
     js ''You are an expert editor. Rewrite the following text by deeply changing sentence structure and wording while preserving the original meaning. Do not add or remove information. Avoid clich'' @
     [0x00E9] @
     js ''s and repetitive phrasing. Generate 3 different variations.\<newline>'' @
     js ''\<newline>'' @
     js ''Text: "'' @
     text @
     js ''"\<newline>'' @
     js ''\<newline>'' @
     js ''Output each variation on a new line, numbered 1., 2., 3.''\<close>

definition paraphrase_v2_selectPrompt :: "jsstring \<Rightarrow> jsstring \<Rightarrow> jsstring \<Rightarrow> jsstring \<Rightarrow> jsstring" where
  \<open>paraphrase_v2_selectPrompt text var1 var2 var3 =
     js ''Here are 3 paraphrased versions of the text "'' @
     text @
     js ''":\<newline>'' @
     js ''\<newline>'' @
     js ''1. '' @
     var1 @
     js ''\<newline>'' @
     js ''\<newline>'' @
     js ''2. '' @
     var2 @
     js ''\<newline>'' @
     js ''\<newline>'' @
     js ''3. '' @
     var3 @
     js ''\<newline>'' @
     js ''\<newline>'' @
     js ''Select the best one based on meaning preservation, naturalness, and readability. Output only the number (1, 2, or 3).''\<close>

definition paraphrase_v2_stage2Prompt :: "jsstring \<Rightarrow> jsstring" where
  \<open>paraphrase_v2_stage2Prompt selected =
     js ''Improve the following rewritten text to sound more fluent, natural, and human-written. Vary sentence length and rhythm. Remove robotic or AI-like phrasing. Output ONLY the improved text.\<newline>'' @
     js ''\<newline>'' @
     js ''Text: "'' @
     selected @
     js ''"''\<close>

definition paraphrase_v2_stage3Prompt :: "jsstring \<Rightarrow> jsstring \<Rightarrow> jsstring" where
  \<open>paraphrase_v2_stage3Prompt tone stage2Output =
     js ''Rewrite the following text in a '' @
     tone @
     js '' tone. Keep clarity, coherence, and meaning intact. Do not explain changes. Output ONLY the final paraphrased text.\<newline>'' @
     js ''\<newline>'' @
     js ''Text: "'' @
     stage2Output @
     js ''"''\<close>

definition paraphrase_v2_endpoint :: jsstring where
  "paraphrase_v2_endpoint =
     js ''https://generativelanguage.googleapis.com/v1beta/models/gemini-1.5-flash:generateContent?key=''"

text \<open>
  This \<^verbatim>\<open>callGemini\<close> catches nothing: a failed \<^verbatim>\<open>fetch\<close>, a body that is not JSON and a reply
  without the text path all throw to the handler.
\<close>

definition paraphrase_v2_callGemini :: "api \<Rightarrow> jsstring \<Rightarrow> jsstring \<Rightarrow> jsstring task" where
  "paraphrase_v2_callGemini api apiKey p =
     await (fetch api \<lparr>url = paraphrase_v2_endpoint @ apiKey, prompt = p\<rparr>) (\<lambda>response.
       case response of
         NetworkFailure \<Rightarrow> throw Thrown
       | Reply st content \<Rightarrow>
           if \<not> ok st then throw (Error (js ''Gemini API error: '' @ decimal st))
           else
             (case content of
                Text t \<Rightarrow> resolve (trim t)
              | _ \<Rightarrow> throw Thrown))"

definition paraphrase_v2_pipeline :: "api \<Rightarrow> jsstring \<Rightarrow> jsstring \<Rightarrow> jsstring \<Rightarrow> response task" where
  "paraphrase_v2_pipeline api apiKey text tone =
     await (paraphrase_v2_callGemini api apiKey (paraphrase_v2_stage1Prompt text)) (\<lambda>variationsText.
     let lines = filter (\<lambda>l. l \<noteq> []) (map trim (split variationsText (js ''\<newline>'')));
         var1 = numbered ''1.'' lines;
         var2 = numbered ''2.'' lines;
         var3 = numbered ''3.'' lines in
     if var1 = [] \<or> var2 = [] \<or> var3 = [] then throw (Error (js ''Failed to generate variations''))
     else
     await (paraphrase_v2_callGemini api apiKey (paraphrase_v2_selectPrompt text var1 var2 var3))
       (\<lambda>selectedNumStr.
     let selectedNum = parseInt (trim selectedNumStr) in
     case (if selectedNum = Some 1 then Some var1
           else if selectedNum = Some 2 then Some var2
           else if selectedNum = Some 3 then Some var3
           else None) of
       None \<Rightarrow> throw (Error (js ''Invalid selection''))
     | Some selected \<Rightarrow>
     await (paraphrase_v2_callGemini api apiKey (paraphrase_v2_stage2Prompt selected)) (\<lambda>stage2Output.
     await (paraphrase_v2_callGemini api apiKey (paraphrase_v2_stage3Prompt tone stage2Output))
       (\<lambda>finalResult.
     resolve (json (JObj [(js ''result'', JStr finalResult)]) 200)))))"

text \<open>
  The handler destructures \<^verbatim>\<open>{ text, tone }\<close> and gives the tone no default. Its responses are
  built in place, with the status, headers and body that \<open>json\<close> builds.
\<close>

definition onRequestPost_v2 :: "api \<Rightarrow> request \<Rightarrow> env \<Rightarrow> response \<times> fetch_request list" where
  "onRequestPost_v2 api request env =
     (case
        (await (request_json request) (\<lambda>body.
         await (property body ''text'') (\<lambda>text.
         await (property body ''tone'') (\<lambda>tone.
         if \<not> truthy text \<or> \<not> is_string text \<or> length (the_string text) = 0
            \<or> 2000 < length (the_string text) then
           resolve (json (JObj [(js ''error'',
             JStr (js ''Invalid input: text must be a non-empty string under 2000 characters''))]) 400)
         else if \<not> array_includes allowedTones tone then
           resolve (json (JObj [(js ''error'',
             JStr (js ''Invalid tone: must be one of standard, simple, professional, academic''))]) 400)
         else if GEMINI_API_KEY env = None \<or> GEMINI_API_KEY env = Some [] then
           resolve (json (JObj [(js ''error'', JStr (js ''Server configuration error''))]) 500)
         else
           paraphrase_v2_pipeline api (the (GEMINI_API_KEY env)) (the_string text) (the_string tone)))))
        []
      of
        (Inr res, sent) \<Rightarrow> (res, sent)
      | (Inl err, sent) \<Rightarrow>
          (json (JObj [(js ''error'', JStr (js ''Internal server error''))]) 500, sent))"

section \<open>The third handler of \<^verbatim>\<open>functions/api/paraphrase.js\<close> (four stages, no checks on the reply)\<close>

definition paraphrase_v3_stage1 :: "jsstring \<Rightarrow> jsstring" where
  \<open>paraphrase_v3_stage1 text =
     js ''\<newline>'' @
     js ''Rewrite the text below in THREE different ways.\<newline>'' @
     js ''Each rewrite must preserve meaning but change structure and wording deeply.\<newline>'' @
     js ''Output ONLY the three rewrites separated by |||.\<newline>'' @
     js ''\<newline>'' @
     js ''TEXT:\<newline>'' @
     text @
     js ''\<newline>''\<close>

definition paraphrase_v3_stage2 :: "jsstring list \<Rightarrow> jsstring" where
  \<open>paraphrase_v3_stage2 variations =
     js ''\<newline>'' @
     js ''Choose the BEST rewrite based on clarity, naturalness, and meaning preservation.\<newline>'' @
     js ''Reply ONLY with the number 1, 2, or 3.\<newline>'' @
     js ''\<newline>'' @
     js ''1. '' @
     (variations ! 0) @
     js ''\<newline>'' @
     js ''2. '' @
     (variations ! 1) @
     js ''\<newline>'' @
     js ''3. '' @
     (variations ! 2) @
     js ''\<newline>''\<close>

definition paraphrase_v3_stage3 :: "jsstring \<Rightarrow> jsstring" where
  \<open>paraphrase_v3_stage3 selected =
     js ''\<newline>'' @
     js ''Improve the text to sound fluent, human, and natural.\<newline>'' @
     js ''Avoid AI patterns.\<newline>'' @
     js ''Output ONLY the rewritten text.\<newline>'' @
     js ''\<newline>'' @
     js ''TEXT:\<newline>'' @
     selected @
     js ''\<newline>''\<close>

definition paraphrase_v3_stage4 :: "jsstring \<Rightarrow> jsstring \<Rightarrow> jsstring" where
  \<open>paraphrase_v3_stage4 tone selected =
     js ''\<newline>'' @
     js ''Rewrite the text in a '' @
     tone @
     js '' tone.\<newline>'' @
     js ''Preserve meaning and clarity.\<newline>'' @
     js ''Output ONLY the final text.\<newline>'' @
     js ''\<newline>'' @
     js ''TEXT:\<newline>'' @
     selected @
     js ''\<newline>''\<close>

definition paraphrase_v3_endpoint :: jsstring where
  "paraphrase_v3_endpoint =
     js ''https://generativelanguage.googleapis.com/v1beta/models/gemini-1.5-flash:generateContent?key=''"

text \<open>
  This \<^verbatim>\<open>callGemini\<close> reads the body before the status, does not trim, and puts the empty
  string in the place of a missing text: \<^verbatim>\<open>data.candidates?.[0]?.content?.parts?.[0]?.text || ""\<close>.
\<close>

definition paraphrase_v3_callGemini :: "api \<Rightarrow> jsstring \<Rightarrow> jsstring \<Rightarrow> jsstring task" where
  "paraphrase_v3_callGemini api key p =
     await (fetch api \<lparr>url = paraphrase_v3_endpoint @ key, prompt = p\<rparr>) (\<lambda>res.
       case res of
         NetworkFailure \<Rightarrow> throw Thrown
       | Reply st Unparseable \<Rightarrow> throw Thrown
       | Reply st content \<Rightarrow>
           if \<not> ok st then throw Thrown
           else
             (case content of
                Text t \<Rightarrow> resolve t
              | NoText \<Rightarrow> resolve []
              | _ \<Rightarrow> throw Thrown))"

definition paraphrase_v3_pipeline :: "api \<Rightarrow> jsstring \<Rightarrow> jsstring \<Rightarrow> jsstring \<Rightarrow> response task" where
  "paraphrase_v3_pipeline api key text tone =
     await (paraphrase_v3_callGemini api key (paraphrase_v3_stage1 text)) (\<lambda>variationsRaw.
     let variations = variations_of variationsRaw in
     if length variations < 3 then throw (Error (js ''Variation generation failed''))
     else
     await (paraphrase_v3_callGemini api key (paraphrase_v3_stage2 variations)) (\<lambda>selectionRaw.
     let index = index_of selectionRaw;
         selected = variations ! index in
     await (paraphrase_v3_callGemini api key (paraphrase_v3_stage3 selected)) (\<lambda>selected.
     await (paraphrase_v3_callGemini api key (paraphrase_v3_stage4 tone selected)) (\<lambda>final.
     resolve (json (JObj [(js ''result'', JStr final)]) 200)))))"

definition onRequestPost_v3 :: "api \<Rightarrow> request \<Rightarrow> env \<Rightarrow> response \<times> fetch_request list" where
  "onRequestPost_v3 api request env =
     (case
        (await (request_json request) (\<lambda>body.
         await (property body ''text'') (\<lambda>text.
         await (property body ''tone'') (\<lambda>tone0.
         let tone = (if truthy tone0 then tone0 else Some (JStr (js ''standard''))) in
         if \<not> truthy text \<or> \<not> is_string text \<or> 2000 < length (the_string text) then
           resolve (json (JObj [(js ''error'', JStr (js ''Invalid input text''))]) 400)
         else if \<not> array_includes allowedTones tone then
           resolve (json (JObj [(js ''error'', JStr (js ''Invalid tone''))]) 400)
         else if GEMINI_API_KEY env = None \<or> GEMINI_API_KEY env = Some [] then
           resolve (json (JObj [(js ''error'', JStr (js ''Missing Gemini API key''))]) 500)
         else
           paraphrase_v3_pipeline api (the (GEMINI_API_KEY env)) (the_string text) (the_string tone)))))
        []
      of
        (Inr res, sent) \<Rightarrow> (res, sent)
      | (Inl err, sent) \<Rightarrow>
          (json (JObj [(js ''error'', JStr (js ''Internal server error''))]) 500, sent))"

section \<open>The Express handler of \<^verbatim>\<open>server.js\<close> (one call)\<close>

text \<open>
  The handler answers through the response object of Express: \<^verbatim>\<open>res.status(n)\<close> sets the status
  (200 when it is not called) and \<^verbatim>\<open>res.json(data)\<close> sends \<open>data\<close> as JSON with the content type
  that Express gives a JSON body. \<open>res_json\<close> is the two together.
\<close>

definition res_json :: "nat \<Rightarrow> jsval \<Rightarrow> response" where
  "res_json st data =
     \<lparr>status = st,
      headers = [(js ''Content-Type'', js ''application/json; charset=utf-8'')],
      body = data\<rparr>"

definition validateInput :: "jsval option \<Rightarrow> jsstring option" where
  "validateInput text =
     (if \<not> truthy text \<or> \<not> is_string text then Some (js ''Text must be a non-empty string.'')
      else if length (trim (the_string text)) < 10 then
        Some (js ''Text must be at least 10 characters long.'')
      else None)"

definition server_prompt :: "jsstring \<Rightarrow> jsstring" where
  \<open>server_prompt sanitizedText =
     js ''Rewrite the following text as if written by a university student explaining their own work. Keep the original meaning fully intact. Use natural sentence length variation. Maintain an academic but human tone. Avoid robotic or overly polished language. Do not add new facts. Do not shorten aggressively. Do not mention AI or rewriting in the output.\<newline>'' @
     js ''\<newline>'' @
     js ''Original text: '' @
     sanitizedText\<close>

text \<open>
  What \<^verbatim>\<open>model.generateContent(prompt)\<close> followed by \<^verbatim>\<open>result.response.text()\<close> meets in the SDK:
  one of the two throws, or the text of the reply is returned. \<open>sdk\<close> gives the outcome of the
  first, second, ... call of one invocation; the handler's second component lists the prompts
  it handed to the SDK.
\<close>

datatype generate_outcome = GenerateThrows | GenerateText jsstring

text \<open>
  \<open>req_body\<close> is \<^verbatim>\<open>req.body\<close> as the JSON middleware leaves it, \<open>None\<close> for \<^verbatim>\<open>undefined\<close>;
  destructuring \<^verbatim>\<open>undefined\<close> or \<^verbatim>\<open>null\<close> throws inside the \<^verbatim>\<open>try\<close>.
\<close>

definition paraphrase_handler :: "(nat \<Rightarrow> generate_outcome) \<Rightarrow> jsval option \<Rightarrow> response \<times> jsstring list" where
  "paraphrase_handler sdk req_body =
     (let failed = res_json 500 (JObj [(js ''error'',
            JStr (js ''An error occurred while paraphrasing the text.''))]) in
      case req_body of
        None \<Rightarrow> (failed, [])
      | Some JNull \<Rightarrow> (failed, [])
      | Some b \<Rightarrow>
          (let text = (case b of JObj kvs \<Rightarrow> map_of kvs (js ''text'') | _ \<Rightarrow> None) in
           case validateInput text of
             Some validationError \<Rightarrow> (res_json 400 (JObj [(js ''error'', JStr validationError)]), [])
           | None \<Rightarrow>
               (let sanitizedText = trim (the_string text);
                    p = server_prompt sanitizedText in
                case sdk 0 of
                  GenerateThrows \<Rightarrow> (failed, [p])
                | GenerateText t \<Rightarrow>
                    (res_json 200 (JObj [(js ''paraphrased'', JStr (trim t))]), [p]))))"

definition health :: response where
  "health = res_json 200 (JObj [(js ''status'', JStr (js ''OK''))])"

section \<open>Notions used in the statements\<close>

text \<open>An external API that gives the listed outcomes in order, and no reply after them.\<close>

definition scripted :: "fetch_outcome list \<Rightarrow> api" where
  "scripted outcomes n = (if n < length outcomes then outcomes ! n else NetworkFailure)"

text \<open>
  A call gets an OK reply that carries a text; \<open>raw_text\<close> is that text and \<open>returned\<close> the text
  trimmed. \<open>succeeds\<close> is the success of \<open>callGemini\<close> with full error handling: the trimmed
  text is not empty.
\<close>

fun replied :: "fetch_outcome \<Rightarrow> bool" where
  "replied (Reply st (Text t)) = ok st"
| "replied _ = False"

fun raw_text :: "fetch_outcome \<Rightarrow> jsstring" where
  "raw_text (Reply st (Text t)) = t"
| "raw_text _ = []"

definition returned :: "fetch_outcome \<Rightarrow> jsstring" where
  "returned out = trim (raw_text out)"

definition succeeds :: "fetch_outcome \<Rightarrow> bool" where
  "succeeds out \<longleftrightarrow> replied out \<and> returned out \<noteq> []"

text \<open>
  The calls that the third handler of \<^verbatim>\<open>paraphrase.js\<close> goes on from: an OK reply whose document
  is not \<^verbatim>\<open>null\<close>, with or without a text.
\<close>

fun delivers :: "fetch_outcome \<Rightarrow> bool" where
  "delivers (Reply st (Text t)) = ok st"
| "delivers (Reply st NoText) = ok st"
| "delivers _ = False"

text \<open>A network error, a non-OK status, or a body that is not JSON.\<close>

fun broken :: "fetch_outcome \<Rightarrow> bool" where
  "broken NetworkFailure = True"
| "broken (Reply st Unparseable) = True"
| "broken (Reply st content) = (\<not> ok st)"

text \<open>The body that passes validation, as the specification words it.\<close>

definition valid_text :: "jsval option \<Rightarrow> bool" where
  "valid_text v \<longleftrightarrow> is_string v \<and> the_string v \<noteq> [] \<and> length (the_string v) \<le> 2000"

definition valid_tone :: "jsval option \<Rightarrow> bool" where
  "valid_tone v \<longleftrightarrow> is_string v \<and> the_string v \<in> set allowedTones"

text \<open>The responses of the \<^verbatim>\<open>catch\<close> blocks.\<close>

definition failed :: "jsstring \<Rightarrow> response" where
  "failed details =
     json (JObj [(js ''error'', JStr (js ''Paraphrasing failed'')), (js ''details'', JStr details)]) 500"

definition internal_error :: response where
  "internal_error = json (JObj [(js ''error'', JStr (js ''Internal server error''))]) 500"


text \<open>The response with the final text.\<close>

definition result :: "jsstring \<Rightarrow> response" where
  "result final = json (JObj [(js ''result'', JStr final)]) 200"

text \<open>
  A response is JSON: its \<^verbatim>\<open>Content-Type\<close> is \<^verbatim>\<open>application/json\<close>, with or without parameters,
  and its body is a JSON object.
\<close>

definition is_json_response :: "response \<Rightarrow> bool" where
  "is_json_response r \<longleftrightarrow>
     (case map_of (headers r) (js ''Content-Type'') of
        None \<Rightarrow> False
      | Some v \<Rightarrow> v = js ''application/json'' \<or> prefix (js ''application/json;'') v) \<and>
     (case body r of JObj kvs \<Rightarrow> True | _ \<Rightarrow> False)"

text \<open>
  What a \<^verbatim>\<open>try\<close> block with a \<^verbatim>\<open>catch\<close> returns, and what a \<open>callGemini\<close> with full error handling
  makes of an outcome.
\<close>

definition finish ::
  "(js_error \<Rightarrow> response) \<Rightarrow> (js_error + response) \<times> fetch_request list \<Rightarrow> response \<times> fetch_request list" where
  "finish handle r = (case r of (Inr res, sent) \<Rightarrow> (res, sent) | (Inl err, sent) \<Rightarrow> (handle err, sent))"

definition answer :: "fetch_outcome \<Rightarrow> js_error + jsstring" where
  "answer out = fst (callGemini (\<lambda>n. out) [] [] [])"

definition failure :: "fetch_outcome \<Rightarrow> js_error" where
  "failure out = (case answer out of Inl e \<Rightarrow> e | Inr x \<Rightarrow> Thrown)"

definition v2_failure :: "fetch_outcome \<Rightarrow> js_error" where
  "v2_failure out =
     (case fst (paraphrase_v2_callGemini (\<lambda>n. out) [] [] []) of Inl e \<Rightarrow> e | Inr x \<Rightarrow> Thrown)"

text \<open>The requests of a run in which every stage is reached, for each pipeline.\<close>

definition paraphrase_requests :: "api \<Rightarrow> jsstring \<Rightarrow> jsstring \<Rightarrow> jsstring \<Rightarrow> fetch_request list" where
  "paraphrase_requests api key text tone =
     (let variations = variations_of (returned (api 0)) in
      map (\<lambda>p. \<lparr>url = paraphrase_endpoint @ key, prompt = p\<rparr>)
        [paraphrase_stage1 text,
         paraphrase_stage2 variations,
         paraphrase_stage3 (variations ! index_of (returned (api 1))),
         paraphrase_stage4 tone (returned (api 2)),
         paraphrase_stage5 tone (returned (api 3))])"

definition part_000_requests :: "api \<Rightarrow> jsstring \<Rightarrow> jsstring \<Rightarrow> jsstring \<Rightarrow> fetch_request list" where
  "part_000_requests api key text tone =
     (let variations = variations_of (returned (api 0)) in
      map (\<lambda>p. \<lparr>url = part_000_endpoint @ key, prompt = p\<rparr>)
        [part_000_stage1 text,
         part_000_stage2 variations,
         part_000_stage3 (variations ! index_of (returned (api 1))),
         part_000_stage4 tone (returned (api 2))])"

definition part_001_requests :: "api \<Rightarrow> jsstring \<Rightarrow> jsstring \<Rightarrow> jsstring \<Rightarrow> fetch_request list" where
  "part_001_requests api key text tone =
     (let variations = variations_of (returned (api 0)) in
      map (\<lambda>p. \<lparr>url = part_001_endpoint @ key, prompt = p\<rparr>)
        [part_001_stage1 text,
         part_001_stage2 variations,
         part_001_stage3 (variations ! index_of (returned (api 1))),
         part_001_stage4 tone (returned (api 2)),
         part_001_stage5 tone (returned (api 3)),
         part_001_stage6 tone (returned (api 4))])"

definition paraphrase_v3_requests :: "api \<Rightarrow> jsstring \<Rightarrow> jsstring \<Rightarrow> jsstring \<Rightarrow> fetch_request list" where
  "paraphrase_v3_requests api key text tone =
     (let variations = variations_of (raw_text (api 0)) in
      map (\<lambda>p. \<lparr>url = paraphrase_v3_endpoint @ key, prompt = p\<rparr>)
        [paraphrase_v3_stage1 text,
         paraphrase_v3_stage2 variations,
         paraphrase_v3_stage3 (variations ! index_of (raw_text (api 1))),
         paraphrase_v3_stage4 tone (raw_text (api 2))])"

definition paraphrase_v2_lines :: "api \<Rightarrow> jsstring list" where
  "paraphrase_v2_lines api =
     filter (\<lambda>l. l \<noteq> []) (map trim (split (returned (api 0)) (js ''\<newline>'')))"

definition paraphrase_v2_variations :: "api \<Rightarrow> jsstring list" where
  "paraphrase_v2_variations api =
     [numbered ''1.'' (paraphrase_v2_lines api), numbered ''2.'' (paraphrase_v2_lines api),
      numbered ''3.'' (paraphrase_v2_lines api)]"

definition paraphrase_v2_selectedNum :: "api \<Rightarrow> int option" where
  "paraphrase_v2_selectedNum api = parseInt (trim (returned (api 1)))"

definition paraphrase_v2_requests :: "api \<Rightarrow> jsstring \<Rightarrow> jsstring \<Rightarrow> jsstring \<Rightarrow> fetch_request list" where
  "paraphrase_v2_requests api apiKey text tone =
     (let vars = paraphrase_v2_variations api in
      map (\<lambda>p. \<lparr>url = paraphrase_v2_endpoint @ apiKey, prompt = p\<rparr>)
        [paraphrase_v2_stage1Prompt text,
         paraphrase_v2_selectPrompt text (vars ! 0) (vars ! 1) (vars ! 2),
         paraphrase_v2_stage2Prompt (vars ! (nat (the (paraphrase_v2_selectedNum api)) - 1)),
         paraphrase_v2_stage3Prompt tone (returned (api 2))])"

text \<open>
  The dependency chain of the prompts of a run: the first holds the input text, the second the
  first three candidates, the third the selected candidate, which is one of the candidates, and
  every later one the text that the call before it returned. \<open>follows out k ps\<close> says that the
  prompts \<open>ps\<close> hold the texts \<open>out k\<close>, \<open>out (k + 1)\<close>, ... in this order.
\<close>

fun follows :: "(nat \<Rightarrow> jsstring) \<Rightarrow> nat \<Rightarrow> jsstring list \<Rightarrow> bool" where
  "follows out k [] = True"
| "follows out k (p # ps) = (sublist (out k) p \<and> follows out (Suc k) ps)"

definition chained ::
  "jsstring \<Rightarrow> jsstring list \<Rightarrow> jsstring \<Rightarrow> (nat \<Rightarrow> jsstring) \<Rightarrow> jsstring list \<Rightarrow> bool" where
  "chained text candidates selected out prompts \<longleftrightarrow>
     (0 < length prompts \<longrightarrow> sublist text (prompts ! 0)) \<and>
     (1 < length prompts \<longrightarrow>
        sublist (candidates ! 0) (prompts ! 1) \<and> sublist (candidates ! 1) (prompts ! 1) \<and>
        sublist (candidates ! 2) (prompts ! 1)) \<and>
     (2 < length prompts \<longrightarrow> selected \<in> set candidates \<and> sublist selected (prompts ! 2)) \<and>
     follows out 2 (drop 3 prompts)"

text \<open>A response with nothing but an error message.\<close>

definition error_response :: "string \<Rightarrow> nat \<Rightarrow> response" where
  "error_response m st = json (JObj [(js ''error'', JStr (js m))]) st"

text \<open>Sample inputs for the instances: a body, an environment and an API whose calls all succeed.\<close>

abbreviation sample_body :: "(jsstring \<times> jsval) list" where
  "sample_body \<equiv> [(js ''text'', JStr (js ''Hello world'')), (js ''tone'', JStr (js ''simple''))]"

abbreviation sample_env :: env where
  "sample_env \<equiv> \<lparr>GEMINI_API_KEY = Some (js ''k'')\<rparr>"

abbreviation sample_api :: api where
  "sample_api \<equiv>
     scripted [Reply 200 (Text (js ''A ||| B ||| C'')), Reply 200 (Text (js '' 2 '')),
       Reply 200 (Text (js ''refined'')), Reply 200 (Text (js ''toned'')),
       Reply 200 (Text (js ''five'')), Reply 200 (Text (js ''six''))]"

text \<open>An SDK that gives the listed outcomes in order and throws after them.\<close>

definition scripted_sdk :: "generate_outcome list \<Rightarrow> nat \<Rightarrow> generate_outcome" where
  "scripted_sdk outcomes n = (if n < length outcomes then outcomes ! n else GenerateThrows)"

text \<open>
  An API whose stage-2 reply is no number, and one whose last reply has blanks around its text.
\<close>

abbreviation undecided_api :: api where
  "undecided_api \<equiv>
     scripted [Reply 200 (Text (js ''A ||| B ||| C'')), Reply 200 (Text (js ''the second'')),
       Reply 200 (Text (js ''refined'')), Reply 200 (Text (js ''toned'')),
       Reply 200 (Text (js ''five'')), Reply 200 (Text (js ''six''))]"

abbreviation padded_api :: api where
  "padded_api \<equiv>
     scripted [Reply 200 (Text (js ''A ||| B ||| C'')), Reply 200 (Text (js ''2'')),
       Reply 200 (Text (js ''refined'')), Reply 200 (Text (js '' toned ''))]"

text \<open>
  A request that the Pages handlers accept: its body passes validation and the environment
  holds a key.
\<close>

definition accepted :: "(jsstring \<times> jsval) list \<Rightarrow> env \<Rightarrow> bool" where
  "accepted kvs env \<longleftrightarrow>
     valid_text (map_of kvs (js ''text'')) \<and> valid_tone (map_of kvs (js ''tone'')) \<and>
     GEMINI_API_KEY env \<noteq> None \<and> GEMINI_API_KEY env \<noteq> Some []"

text \<open>
  An API that replies with three numbered lines and then with a number, and one whose third
  reply has no text.
\<close>

abbreviation numbered_api :: api where
  "numbered_api \<equiv>
     scripted [Reply 200 (Text (js ''1. A\<newline>2. B\<newline>3. C'')), Reply 200 (Text (js ''2'')),
       Reply 200 (Text (js ''refined'')), Reply 200 (Text (js ''toned''))]"


text \<open>A body with a valid text and no tone.\<close>

abbreviation toneless_body :: "(jsstring \<times> jsval) list" where
  "toneless_body \<equiv> [(js ''text'', JStr (js ''Hello world''))]"

section \<open>Facts about the calls\<close>

lemma tone_is_not_text: "js ''tone'' \<noteq> js ''text''"
  by (simp add: js_def)

lemma text_is_not_tone: "js ''text'' \<noteq> js ''tone''"
  by (simp add: js_def)

lemma standard_not_empty: "js ''standard'' \<noteq> []"
  by (simp add: js_def)

lemma standard_allowed: "js ''standard'' \<in> set allowedTones"
  by (simp add: allowedTones_def)

lemma sublist_behind: "sublist xs ys \<Longrightarrow> sublist xs (ps @ ys)"
  by (metis sublist_append_leftI sublist_order.order_trans)

lemma callGemini_answer:
  "callGemini api e p sent = (answer (api (length sent)), sent @ [\<lparr>url = e, prompt = p\<rparr>])"
  by (simp add: answer_def callGemini_def await_def fetch_def resolve_def throw_def
      split: fetch_outcome.split reply_content.split)

lemma answer_succeeds: "succeeds out \<Longrightarrow> answer out = Inr (returned out)"
  by (cases out rule: replied.cases)
     (simp_all add: answer_def callGemini_def await_def fetch_def resolve_def succeeds_def
       returned_def)

lemma answer_fails: "\<not> succeeds out \<Longrightarrow> \<exists>m. answer out = Inl (Error m)"
  by (cases out rule: replied.cases)
     (simp_all add: answer_def callGemini_def await_def fetch_def resolve_def throw_def
       succeeds_def returned_def split: reply_content.splits)

lemma failure_Error: "\<not> succeeds out \<Longrightarrow> \<exists>m. failure out = Error m"
  using answer_fails [of out] by (auto simp add: failure_def)

lemma await_callGemini:
  "await (callGemini api e p) k sent =
     (if succeeds (api (length sent)) then
        k (returned (api (length sent))) (sent @ [\<lparr>url = e, prompt = p\<rparr>])
      else (Inl (failure (api (length sent))), sent @ [\<lparr>url = e, prompt = p\<rparr>]))"
  using answer_succeeds [of "api (length sent)"] answer_fails [of "api (length sent)"]
  by (auto simp add: await_def callGemini_answer failure_def)

lemma broken_fails: "broken out \<Longrightarrow> \<not> succeeds out"
  by (cases out rule: broken.cases) (simp_all add: succeeds_def)

lemma broken_stops: "broken out \<Longrightarrow> \<not> delivers out"
  by (cases out rule: broken.cases) simp_all

lemma broken_silent: "broken out \<Longrightarrow> \<not> replied out"
  by (cases out rule: broken.cases) simp_all

lemma await_v2_callGemini:
  "await (paraphrase_v2_callGemini api k p) f sent =
     (if replied (api (length sent)) then
        f (returned (api (length sent))) (sent @ [\<lparr>url = paraphrase_v2_endpoint @ k, prompt = p\<rparr>])
      else (Inl (v2_failure (api (length sent))),
            sent @ [\<lparr>url = paraphrase_v2_endpoint @ k, prompt = p\<rparr>]))"
  by (cases "api (length sent)" rule: broken.cases)
     (auto simp add: paraphrase_v2_callGemini_def await_def fetch_def resolve_def throw_def
       returned_def v2_failure_def split: reply_content.splits)

lemma await_v3_callGemini:
  "await (paraphrase_v3_callGemini api k p) f sent =
     (if delivers (api (length sent)) then
        f (raw_text (api (length sent))) (sent @ [\<lparr>url = paraphrase_v3_endpoint @ k, prompt = p\<rparr>])
      else (Inl Thrown, sent @ [\<lparr>url = paraphrase_v3_endpoint @ k, prompt = p\<rparr>]))"
  by (cases "api (length sent)" rule: delivers.cases)
     (auto simp add: paraphrase_v3_callGemini_def await_def fetch_def resolve_def throw_def
       split: reply_content.splits)

lemma four_as_Suc: "4 = Suc (Suc (Suc (Suc 0)))"
  by simp

lemma five_as_Suc: "5 = Suc (Suc (Suc (Suc (Suc 0))))"
  by simp

lemma index_of_less: "index_of s < 3"
  by (auto simp add: index_of_def Let_def Number_def js_def)

section \<open>The runs of the pipelines\<close>

lemma paraphrase_run:
  "paraphrase_pipeline api key text tone [] =
     (let rs = paraphrase_requests api key text tone in
      if \<not> succeeds (api 0) then (Inl (failure (api 0)), take 1 rs)
      else if length (variations_of (returned (api 0))) < 3 then
        (Inl (Error (js ''Gemini failed to generate 3 variations'')), take 1 rs)
      else if \<not> succeeds (api 1) then (Inl (failure (api 1)), take 2 rs)
      else if \<not> succeeds (api 2) then (Inl (failure (api 2)), take 3 rs)
      else if \<not> succeeds (api 3) then (Inl (failure (api 3)), take 4 rs)
      else if \<not> succeeds (api 4) then (Inl (failure (api 4)), take 5 rs)
      else (Inr (result (returned (api 4))), rs))"
  by (simp add: paraphrase_pipeline_def paraphrase_requests_def await_callGemini resolve_def throw_def Let_def
      result_def numeral_2_eq_2 numeral_3_eq_3 four_as_Suc five_as_Suc)

lemma part_000_run:
  "part_000_pipeline api key text tone [] =
     (let rs = part_000_requests api key text tone in
      if \<not> succeeds (api 0) then (Inl (failure (api 0)), take 1 rs)
      else if length (variations_of (returned (api 0))) < 3 then
        (Inl (Error (js ''Gemini failed to generate 3 variations'')), take 1 rs)
      else if \<not> succeeds (api 1) then (Inl (failure (api 1)), take 2 rs)
      else if \<not> succeeds (api 2) then (Inl (failure (api 2)), take 3 rs)
      else if \<not> succeeds (api 3) then (Inl (failure (api 3)), take 4 rs)
      else (Inr (result (returned (api 3))), rs))"
  by (simp add: part_000_pipeline_def part_000_requests_def await_callGemini resolve_def throw_def Let_def
      result_def numeral_2_eq_2 numeral_3_eq_3 four_as_Suc five_as_Suc)

lemma part_001_run:
  "part_001_pipeline api key text tone [] =
     (let rs = part_001_requests api key text tone in
      if \<not> succeeds (api 0) then (Inl (failure (api 0)), take 1 rs)
      else if length (variations_of (returned (api 0))) < 3 then
        (Inl (Error (js ''Gemini failed to generate 3 variations'')), take 1 rs)
      else if \<not> succeeds (api 1) then (Inl (failure (api 1)), take 2 rs)
      else if \<not> succeeds (api 2) then (Inl (failure (api 2)), take 3 rs)
      else if \<not> succeeds (api 3) then (Inl (failure (api 3)), take 4 rs)
      else if \<not> succeeds (api 4) then (Inl (failure (api 4)), take 5 rs)
      else if \<not> succeeds (api 5) then (Inl (failure (api 5)), take 6 rs)
      else (Inr (result (returned (api 5))), rs))"
  by (simp add: part_001_pipeline_def part_001_requests_def await_callGemini resolve_def throw_def Let_def
      result_def numeral_2_eq_2 numeral_3_eq_3 four_as_Suc five_as_Suc)

lemma paraphrase_v3_run:
  "paraphrase_v3_pipeline api key text tone [] =
     (let rs = paraphrase_v3_requests api key text tone in
      if \<not> delivers (api 0) then (Inl Thrown, take 1 rs)
      else if length (variations_of (raw_text (api 0))) < 3 then
        (Inl (Error (js ''Variation generation failed'')), take 1 rs)
      else if \<not> delivers (api 1) then (Inl Thrown, take 2 rs)
      else if \<not> delivers (api 2) then (Inl Thrown, take 3 rs)
      else if \<not> delivers (api 3) then (Inl Thrown, take 4 rs)
      else (Inr (result (raw_text (api 3))), rs))"
  by (simp add: paraphrase_v3_pipeline_def paraphrase_v3_requests_def await_v3_callGemini resolve_def throw_def Let_def
      result_def numeral_2_eq_2 numeral_3_eq_3 four_as_Suc five_as_Suc)

lemma paraphrase_v2_run:
  "paraphrase_v2_pipeline api key text tone [] =
     (let rs = paraphrase_v2_requests api key text tone;
          vars = paraphrase_v2_variations api;
          selectedNum = paraphrase_v2_selectedNum api in
      if \<not> replied (api 0) then (Inl (v2_failure (api 0)), take 1 rs)
      else if vars ! 0 = [] \<or> vars ! 1 = [] \<or> vars ! 2 = [] then
        (Inl (Error (js ''Failed to generate variations'')), take 1 rs)
      else if \<not> replied (api 1) then (Inl (v2_failure (api 1)), take 2 rs)
      else if selectedNum \<noteq> Some 1 \<and> selectedNum \<noteq> Some 2 \<and> selectedNum \<noteq> Some 3 then
        (Inl (Error (js ''Invalid selection'')), take 2 rs)
      else if \<not> replied (api 2) then (Inl (v2_failure (api 2)), take 3 rs)
      else if \<not> replied (api 3) then (Inl (v2_failure (api 3)), take 4 rs)
      else (Inr (result (returned (api 3))), rs))"
  by (simp add: paraphrase_v2_pipeline_def paraphrase_v2_requests_def paraphrase_v2_variations_def
      paraphrase_v2_lines_def paraphrase_v2_selectedNum_def await_v2_callGemini resolve_def
      throw_def Let_def result_def numeral_2_eq_2 numeral_3_eq_3)

section \<open>The handlers before the first call\<close>

lemma json_is_json: "is_json_response (json (JObj kvs) st)"
  by (simp add: is_json_response_def json_def js_def)

lemma res_json_is_json: "is_json_response (res_json st (JObj kvs))"
  by (simp add: is_json_response_def res_json_def js_def)

lemma failed_is_json: "is_json_response (failed m)"
  by (simp add: failed_def json_is_json)

lemma internal_error_is_json: "is_json_response internal_error"
  by (simp add: internal_error_def json_is_json)

lemma result_is_json: "is_json_response (result final)"
  by (simp add: result_def json_is_json)

lemma status_failed: "status (failed m) = 500"
  by (simp add: failed_def json_def)

lemma status_internal_error: "status internal_error = 500"
  by (simp add: internal_error_def json_def)

lemma status_result: "status (result final) = 200"
  by (simp add: result_def json_def)

lemma status_error_response: "status (error_response m st) = st"
  by (simp add: error_response_def json_def)

lemma failed_is_no_error_response: "failed d \<noteq> error_response m st"
  by (simp add: failed_def error_response_def json_def)

lemma internal_error_is_not_missing_key:
  "internal_error \<noteq> error_response ''Server configuration error'' 500"
  "internal_error \<noteq> error_response ''Missing Gemini API key'' 500"
  by (simp_all add: internal_error_def error_response_def json_def js_def)

lemma onRequestPost_cases:
  obtains (early) r where "\<And>api. onRequestPost api request env = (r, [])" "is_json_response r"
  | (run) key t tn where
      "\<And>api. onRequestPost api request env = finish (\<lambda>err. failed (message err)) (paraphrase_pipeline api key t tn [])"
proof (cases request)
  case (Malformed m)
  have "\<And>api. onRequestPost api request env = ((\<lambda>err. failed (message err)) (Error m), [])"
    by (simp add: onRequestPost_def Malformed request_json_def await_def throw_def failed_def)
  then show ?thesis
    by (rule early) (simp add: failed_is_json internal_error_is_json)
next
  case (Parsed b)
  show ?thesis
  proof (cases "b = JNull")
    case True
    have "\<exists>m. \<forall>api. onRequestPost api request env = ((\<lambda>err. failed (message err)) (Error m), [])"
      by (auto simp add: onRequestPost_def Parsed True request_json_def await_def throw_def resolve_def failed_def)
    then show ?thesis
      using early by (auto simp add: failed_is_json internal_error_is_json)
  next
    case False
    then obtain t0 n0 where p: "property b ''text'' = resolve t0" "property b ''tone'' = resolve n0"
      by (cases b) simp_all
    define tn where "tn = (if truthy n0 then n0 else Some (JStr (js ''standard'')))"
    have unfolded: "onRequestPost api request env =
        finish (\<lambda>err. failed (message err))
          ((if \<not> truthy t0 \<or> \<not> is_string t0 \<or> 2000 < length (the_string t0) then
              resolve (json (JObj [(js ''error'', JStr (js ''Invalid input text''))]) 400)
            else if \<not> array_includes allowedTones tn then
              resolve (json (JObj [(js ''error'', JStr (js ''Invalid tone''))]) 400)
            else if GEMINI_API_KEY env = None \<or> GEMINI_API_KEY env = Some [] then
              resolve (json (JObj [(js ''error'', JStr (js ''GEMINI_API_KEY is missing in environment variables''))]) 500)
            else paraphrase_pipeline api (the (GEMINI_API_KEY env)) (the_string t0) (the_string tn)) [])" for api
      unfolding onRequestPost_def Parsed request_json_def finish_def tn_def
      by (simp add: await_def resolve_def p Let_def failed_def split: prod.split sum.split)
    consider
        (a) "\<not> truthy t0 \<or> \<not> is_string t0 \<or> 2000 < length (the_string t0)"
      | (b) "\<not> (\<not> truthy t0 \<or> \<not> is_string t0 \<or> 2000 < length (the_string t0))"
          "\<not> array_includes allowedTones tn"
      | (c) "\<not> (\<not> truthy t0 \<or> \<not> is_string t0 \<or> 2000 < length (the_string t0))"
          "array_includes allowedTones tn" "GEMINI_API_KEY env = None \<or> GEMINI_API_KEY env = Some []"
      | (d) "\<not> (\<not> truthy t0 \<or> \<not> is_string t0 \<or> 2000 < length (the_string t0))"
          "array_includes allowedTones tn"
          "\<not> (GEMINI_API_KEY env = None \<or> GEMINI_API_KEY env = Some [])"
      by blast
    then show ?thesis
    proof cases
      case a
      have "\<And>api. onRequestPost api request env =
          (json (JObj [(js ''error'', JStr (js ''Invalid input text''))]) 400, [])"
        unfolding unfolded using a by (simp add: finish_def resolve_def)
      then show ?thesis by (rule early) (rule json_is_json)
    next
      case b
      have "\<And>api. onRequestPost api request env =
          (json (JObj [(js ''error'', JStr (js ''Invalid tone''))]) 400, [])"
        unfolding unfolded using b by (simp add: finish_def resolve_def)
      then show ?thesis by (rule early) (rule json_is_json)
    next
      case c
      have "\<And>api. onRequestPost api request env =
          (json (JObj [(js ''error'', JStr (js ''GEMINI_API_KEY is missing in environment variables''))]) 500, [])"
        unfolding unfolded using c by (simp add: finish_def resolve_def)
      then show ?thesis by (rule early) (rule json_is_json)
    next
      case d
      have "\<And>api. onRequestPost api request env =
          finish (\<lambda>err. failed (message err))
            (paraphrase_pipeline api (the (GEMINI_API_KEY env)) (the_string t0) (the_string tn) [])"
        unfolding unfolded using d by auto
      then show ?thesis by (rule run)
    qed
  qed
qed

lemma onRequestPost_valid:
  assumes "valid_text (map_of kvs (js ''text''))"
    and "tone = (if truthy (map_of kvs (js ''tone'')) then map_of kvs (js ''tone'') else Some (JStr (js ''standard'')))"
    and "valid_tone tone"
    and "GEMINI_API_KEY env = Some key" "key \<noteq> []"
  shows "onRequestPost api (Parsed (JObj kvs)) env =
     finish (\<lambda>err. failed (message err))
       (paraphrase_pipeline api key (the_string (map_of kvs (js ''text''))) (the_string tone) [])"
proof -
  obtain s where s: "map_of kvs (js ''text'') = Some (JStr s)" "s \<noteq> []" "length s \<le> 2000"
    using assms(1) by (cases "map_of kvs (js ''text'')" rule: is_string.cases) (simp_all add: valid_text_def)
  obtain n where n: "tone = Some (JStr n)" "n \<in> set allowedTones"
    using assms(3) by (cases tone rule: is_string.cases) (simp_all add: valid_tone_def)
  have tone: "(if truthy (map_of kvs (js ''tone'')) then map_of kvs (js ''tone'') else Some (JStr (js ''standard''))) = Some (JStr n)"
    using assms(2) n(1) by simp
  show ?thesis
    using n assms(4,5) s(2,3)
    by (simp add: onRequestPost_def request_json_def await_def resolve_def s(1) tone finish_def
        array_includes_def Let_def failed_def split: prod.split sum.split)
qed

lemma onRequestPost_part_000_cases:
  obtains (early) r where "\<And>api. onRequestPost_part_000 api request env = (r, [])" "is_json_response r"
  | (run) key t tn where
      "\<And>api. onRequestPost_part_000 api request env = finish (\<lambda>err. failed (message err)) (part_000_pipeline api key t tn [])"
proof (cases request)
  case (Malformed m)
  have "\<And>api. onRequestPost_part_000 api request env = ((\<lambda>err. failed (message err)) (Error m), [])"
    by (simp add: onRequestPost_part_000_def Malformed request_json_def await_def throw_def failed_def)
  then show ?thesis
    by (rule early) (simp add: failed_is_json internal_error_is_json)
next
  case (Parsed b)
  show ?thesis
  proof (cases "b = JNull")
    case True
    have "\<exists>m. \<forall>api. onRequestPost_part_000 api request env = ((\<lambda>err. failed (message err)) (Error m), [])"
      by (auto simp add: onRequestPost_part_000_def Parsed True request_json_def await_def throw_def resolve_def failed_def)
    then show ?thesis
      using early by (auto simp add: failed_is_json internal_error_is_json)
  next
    case False
    then obtain t0 n0 where p: "property b ''text'' = resolve t0" "property b ''tone'' = resolve n0"
      by (cases b) simp_all
    define tn where "tn = (if truthy n0 then n0 else Some (JStr (js ''standard'')))"
    have unfolded: "onRequestPost_part_000 api request env =
        finish (\<lambda>err. failed (message err))
          ((if \<not> truthy t0 \<or> \<not> is_string t0 \<or> 2000 < length (the_string t0) then
              resolve (json (JObj [(js ''error'', JStr (js ''Invalid input text''))]) 400)
            else if \<not> array_includes allowedTones tn then
              resolve (json (JObj [(js ''error'', JStr (js ''Invalid tone''))]) 400)
            else if GEMINI_API_KEY env = None \<or> GEMINI_API_KEY env = Some [] then
              resolve (json (JObj [(js ''error'', JStr (js ''GEMINI_API_KEY is missing in environment variables''))]) 500)
            else part_000_pipeline api (the (GEMINI_API_KEY env)) (the_string t0) (the_string tn)) [])" for api
      unfolding onRequestPost_part_000_def Parsed request_json_def finish_def tn_def
      by (simp add: await_def resolve_def p Let_def failed_def split: prod.split sum.split)
    consider
        (a) "\<not> truthy t0 \<or> \<not> is_string t0 \<or> 2000 < length (the_string t0)"
      | (b) "\<not> (\<not> truthy t0 \<or> \<not> is_string t0 \<or> 2000 < length (the_string t0))"
          "\<not> array_includes allowedTones tn"
      | (c) "\<not> (\<not> truthy t0 \<or> \<not> is_string t0 \<or> 2000 < length (the_string t0))"
          "array_includes allowedTones tn" "GEMINI_API_KEY env = None \<or> GEMINI_API_KEY env = Some []"
      | (d) "\<not> (\<not> truthy t0 \<or> \<not> is_string t0 \<or> 2000 < length (the_string t0))"
          "array_includes allowedTones tn"
          "\<not> (GEMINI_API_KEY env = None \<or> GEMINI_API_KEY env = Some [])"
      by blast
    then show ?thesis
    proof cases
      case a
      have "\<And>api. onRequestPost_part_000 api request env =
          (json (JObj [(js ''error'', JStr (js ''Invalid input text''))]) 400, [])"
        unfolding unfolded using a by (simp add: finish_def resolve_def)
      then show ?thesis by (rule early) (rule json_is_json)
    next
      case b
      have "\<And>api. onRequestPost_part_000 api request env =
          (json (JObj [(js ''error'', JStr (js ''Invalid tone''))]) 400, [])"
        unfolding unfolded using b by (simp add: finish_def resolve_def)
      then show ?thesis by (rule early) (rule json_is_json)
    next
      case c
      have "\<And>api. onRequestPost_part_000 api request env =
          (json (JObj [(js ''error'', JStr (js ''GEMINI_API_KEY is missing in environment variables''))]) 500, [])"
        unfolding unfolded using c by (simp add: finish_def resolve_def)
      then show ?thesis by (rule early) (rule json_is_json)
    next
      case d
      have "\<And>api. onRequestPost_part_000 api request env =
          finish (\<lambda>err. failed (message err))
            (part_000_pipeline api (the (GEMINI_API_KEY env)) (the_string t0) (the_string tn) [])"
        unfolding unfolded using d by auto
      then show ?thesis by (rule run)
    qed
  qed
qed

lemma onRequestPost_part_000_valid:
  assumes "valid_text (map_of kvs (js ''text''))"
    and "tone = (if truthy (map_of kvs (js ''tone'')) then map_of kvs (js ''tone'') else Some (JStr (js ''standard'')))"
    and "valid_tone tone"
    and "GEMINI_API_KEY env = Some key" "key \<noteq> []"
  shows "onRequestPost_part_000 api (Parsed (JObj kvs)) env =
     finish (\<lambda>err. failed (message err))
       (part_000_pipeline api key (the_string (map_of kvs (js ''text''))) (the_string tone) [])"
proof -
  obtain s where s: "map_of kvs (js ''text'') = Some (JStr s)" "s \<noteq> []" "length s \<le> 2000"
    using assms(1) by (cases "map_of kvs (js ''text'')" rule: is_string.cases) (simp_all add: valid_text_def)
  obtain n where n: "tone = Some (JStr n)" "n \<in> set allowedTones"
    using assms(3) by (cases tone rule: is_string.cases) (simp_all add: valid_tone_def)
  have tone: "(if truthy (map_of kvs (js ''tone'')) then map_of kvs (js ''tone'') else Some (JStr (js ''standard''))) = Some (JStr n)"
    using assms(2) n(1) by simp
  show ?thesis
    using n assms(4,5) s(2,3)
    by (simp add: onRequestPost_part_000_def request_json_def await_def resolve_def s(1) tone finish_def
        array_includes_def Let_def failed_def split: prod.split sum.split)
qed

lemma onRequestPost_part_001_cases:
  obtains (early) r where "\<And>api. onRequestPost_part_001 api request env = (r, [])" "is_json_response r"
  | (run) key t tn where
      "\<And>api. onRequestPost_part_001 api request env = finish (\<lambda>err. failed (message err)) (part_001_pipeline api key t tn [])"
proof (cases request)
  case (Malformed m)
  have "\<And>api. onRequestPost_part_001 api request env = ((\<lambda>err. failed (message err)) (Error m), [])"
    by (simp add: onRequestPost_part_001_def Malformed request_json_def await_def throw_def failed_def)
  then show ?thesis
    by (rule early) (simp add: failed_is_json internal_error_is_json)
next
  case (Parsed b)
  show ?thesis
  proof (cases "b = JNull")
    case True
    have "\<exists>m. \<forall>api. onRequestPost_part_001 api request env = ((\<lambda>err. failed (message err)) (Error m), [])"
      by (auto simp add: onRequestPost_part_001_def Parsed True request_json_def await_def throw_def resolve_def failed_def)
    then show ?thesis
      using early by (auto simp add: failed_is_json internal_error_is_json)
  next
    case False
    then obtain t0 n0 where p: "property b ''text'' = resolve t0" "property b ''tone'' = resolve n0"
      by (cases b) simp_all
    define tn where "tn = (if truthy n0 then n0 else Some (JStr (js ''standard'')))"
    have unfolded: "onRequestPost_part_001 api request env =
        finish (\<lambda>err. failed (message err))
          ((if \<not> truthy t0 \<or> \<not> is_string t0 \<or> 2000 < length (the_string t0) then
              resolve (json (JObj [(js ''error'', JStr (js ''Invalid input text''))]) 400)
            else if \<not> array_includes allowedTones tn then
              resolve (json (JObj [(js ''error'', JStr (js ''Invalid tone''))]) 400)
            else if GEMINI_API_KEY env = None \<or> GEMINI_API_KEY env = Some [] then
              resolve (json (JObj [(js ''error'', JStr (js ''GEMINI_API_KEY is missing in environment variables''))]) 500)
            else part_001_pipeline api (the (GEMINI_API_KEY env)) (the_string t0) (the_string tn)) [])" for api
      unfolding onRequestPost_part_001_def Parsed request_json_def finish_def tn_def
      by (simp add: await_def resolve_def p Let_def failed_def split: prod.split sum.split)
    consider
        (a) "\<not> truthy t0 \<or> \<not> is_string t0 \<or> 2000 < length (the_string t0)"
      | (b) "\<not> (\<not> truthy t0 \<or> \<not> is_string t0 \<or> 2000 < length (the_string t0))"
          "\<not> array_includes allowedTones tn"
      | (c) "\<not> (\<not> truthy t0 \<or> \<not> is_string t0 \<or> 2000 < length (the_string t0))"
          "array_includes allowedTones tn" "GEMINI_API_KEY env = None \<or> GEMINI_API_KEY env = Some []"
      | (d) "\<not> (\<not> truthy t0 \<or> \<not> is_string t0 \<or> 2000 < length (the_string t0))"
          "array_includes allowedTones tn"
          "\<not> (GEMINI_API_KEY env = None \<or> GEMINI_API_KEY env = Some [])"
      by blast
    then show ?thesis
    proof cases
      case a
      have "\<And>api. onRequestPost_part_001 api request env =
          (json (JObj [(js ''error'', JStr (js ''Invalid input text''))]) 400, [])"
        unfolding unfolded using a by (simp add: finish_def resolve_def)
      then show ?thesis by (rule early) (rule json_is_json)
    next
      case b
      have "\<And>api. onRequestPost_part_001 api request env =
          (json (JObj [(js ''error'', JStr (js ''Invalid tone''))]) 400, [])"
        unfolding unfolded using b by (simp add: finish_def resolve_def)
      then show ?thesis by (rule early) (rule json_is_json)
    next
      case c
      have "\<And>api. onRequestPost_part_001 api request env =
          (json (JObj [(js ''error'', JStr (js ''GEMINI_API_KEY is missing in environment variables''))]) 500, [])"
        unfolding unfolded using c by (simp add: finish_def resolve_def)
      then show ?thesis by (rule early) (rule json_is_json)
    next
      case d
      have "\<And>api. onRequestPost_part_001 api request env =
          finish (\<lambda>err. failed (message err))
            (part_001_pipeline api (the (GEMINI_API_KEY env)) (the_string t0) (the_string tn) [])"
        unfolding unfolded using d by auto
      then show ?thesis by (rule run)
    qed
  qed
qed

lemma onRequestPost_part_001_valid:
  assumes "valid_text (map_of kvs (js ''text''))"
    and "tone = (if truthy (map_of kvs (js ''tone'')) then map_of kvs (js ''tone'') else Some (JStr (js ''standard'')))"
    and "valid_tone tone"
    and "GEMINI_API_KEY env = Some key" "key \<noteq> []"
  shows "onRequestPost_part_001 api (Parsed (JObj kvs)) env =
     finish (\<lambda>err. failed (message err))
       (part_001_pipeline api key (the_string (map_of kvs (js ''text''))) (the_string tone) [])"
proof -
  obtain s where s: "map_of kvs (js ''text'') = Some (JStr s)" "s \<noteq> []" "length s \<le> 2000"
    using assms(1) by (cases "map_of kvs (js ''text'')" rule: is_string.cases) (simp_all add: valid_text_def)
  obtain n where n: "tone = Some (JStr n)" "n \<in> set allowedTones"
    using assms(3) by (cases tone rule: is_string.cases) (simp_all add: valid_tone_def)
  have tone: "(if truthy (map_of kvs (js ''tone'')) then map_of kvs (js ''tone'') else Some (JStr (js ''standard''))) = Some (JStr n)"
    using assms(2) n(1) by simp
  show ?thesis
    using n assms(4,5) s(2,3)
    by (simp add: onRequestPost_part_001_def request_json_def await_def resolve_def s(1) tone finish_def
        array_includes_def Let_def failed_def split: prod.split sum.split)
qed

lemma onRequestPost_v2_cases:
  obtains (early) r where "\<And>api. onRequestPost_v2 api request env = (r, [])" "is_json_response r"
  | (run) key t tn where
      "\<And>api. onRequestPost_v2 api request env = finish (\<lambda>err. internal_error) (paraphrase_v2_pipeline api key t tn [])"
proof (cases request)
  case (Malformed m)
  have "\<And>api. onRequestPost_v2 api request env = ((\<lambda>err. internal_error) (Error m), [])"
    by (simp add: onRequestPost_v2_def Malformed request_json_def await_def throw_def internal_error_def)
  then show ?thesis
    by (rule early) (simp add: failed_is_json internal_error_is_json)
next
  case (Parsed b)
  show ?thesis
  proof (cases "b = JNull")
    case True
    have "\<exists>m. \<forall>api. onRequestPost_v2 api request env = ((\<lambda>err. internal_error) (Error m), [])"
      by (auto simp add: onRequestPost_v2_def Parsed True request_json_def await_def throw_def resolve_def internal_error_def)
    then show ?thesis
      using early by (auto simp add: failed_is_json internal_error_is_json)
  next
    case False
    then obtain t0 n0 where p: "property b ''text'' = resolve t0" "property b ''tone'' = resolve n0"
      by (cases b) simp_all
    define tn where "tn = n0"
    have unfolded: "onRequestPost_v2 api request env =
        finish (\<lambda>err. internal_error)
          ((if \<not> truthy t0 \<or> \<not> is_string t0 \<or> length (the_string t0) = 0 \<or> 2000 < length (the_string t0) then
              resolve (json (JObj [(js ''error'', JStr (js ''Invalid input: text must be a non-empty string under 2000 characters''))]) 400)
            else if \<not> array_includes allowedTones tn then
              resolve (json (JObj [(js ''error'', JStr (js ''Invalid tone: must be one of standard, simple, professional, academic''))]) 400)
            else if GEMINI_API_KEY env = None \<or> GEMINI_API_KEY env = Some [] then
              resolve (json (JObj [(js ''error'', JStr (js ''Server configuration error''))]) 500)
            else paraphrase_v2_pipeline api (the (GEMINI_API_KEY env)) (the_string t0) (the_string tn)) [])" for api
      unfolding onRequestPost_v2_def Parsed request_json_def finish_def tn_def
      by (simp add: await_def resolve_def p Let_def internal_error_def split: prod.split sum.split)
    consider
        (a) "\<not> truthy t0 \<or> \<not> is_string t0 \<or> length (the_string t0) = 0 \<or> 2000 < length (the_string t0)"
      | (b) "\<not> (\<not> truthy t0 \<or> \<not> is_string t0 \<or> length (the_string t0) = 0 \<or> 2000 < length (the_string t0))"
          "\<not> array_includes allowedTones tn"
      | (c) "\<not> (\<not> truthy t0 \<or> \<not> is_string t0 \<or> length (the_string t0) = 0 \<or> 2000 < length (the_string t0))"
          "array_includes allowedTones tn" "GEMINI_API_KEY env = None \<or> GEMINI_API_KEY env = Some []"
      | (d) "\<not> (\<not> truthy t0 \<or> \<not> is_string t0 \<or> length (the_string t0) = 0 \<or> 2000 < length (the_string t0))"
          "array_includes allowedTones tn"
          "\<not> (GEMINI_API_KEY env = None \<or> GEMINI_API_KEY env = Some [])"
      by blast
    then show ?thesis
    proof cases
      case a
      have "\<And>api. onRequestPost_v2 api request env =
          (json (JObj [(js ''error'', JStr (js ''Invalid input: text must be a non-empty string under 2000 characters''))]) 400, [])"
        unfolding unfolded using a by (simp add: finish_def resolve_def)
      then show ?thesis by (rule early) (rule json_is_json)
    next
      case b
      have "\<And>api. onRequestPost_v2 api request env =
          (json (JObj [(js ''error'', JStr (js ''Invalid tone: must be one of standard, simple, professional, academic''))]) 400, [])"
        unfolding unfolded using b by (simp add: finish_def resolve_def)
      then show ?thesis by (rule early) (rule json_is_json)
    next
      case c
      have "\<And>api. onRequestPost_v2 api request env =
          (json (JObj [(js ''error'', JStr (js ''Server configuration error''))]) 500, [])"
        unfolding unfolded using c by (simp add: finish_def resolve_def)
      then show ?thesis by (rule early) (rule json_is_json)
    next
      case d
      have "\<And>api. onRequestPost_v2 api request env =
          finish (\<lambda>err. internal_error)
            (paraphrase_v2_pipeline api (the (GEMINI_API_KEY env)) (the_string t0) (the_string tn) [])"
        unfolding unfolded using d by auto
      then show ?thesis by (rule run)
    qed
  qed
qed

lemma onRequestPost_v2_valid:
  assumes "valid_text (map_of kvs (js ''text''))"
    and "tone = map_of kvs (js ''tone'')"
    and "valid_tone tone"
    and "GEMINI_API_KEY env = Some key" "key \<noteq> []"
  shows "onRequestPost_v2 api (Parsed (JObj kvs)) env =
     finish (\<lambda>err. internal_error)
       (paraphrase_v2_pipeline api key (the_string (map_of kvs (js ''text''))) (the_string tone) [])"
proof -
  obtain s where s: "map_of kvs (js ''text'') = Some (JStr s)" "s \<noteq> []" "length s \<le> 2000"
    using assms(1) by (cases "map_of kvs (js ''text'')" rule: is_string.cases) (simp_all add: valid_text_def)
  obtain n where n: "tone = Some (JStr n)" "n \<in> set allowedTones"
    using assms(3) by (cases tone rule: is_string.cases) (simp_all add: valid_tone_def)
  have tone: "map_of kvs (js ''tone'') = Some (JStr n)"
    using assms(2) n(1) by simp
  show ?thesis
    using n assms(4,5) s(2,3)
    by (simp add: onRequestPost_v2_def request_json_def await_def resolve_def s(1) tone finish_def
        array_includes_def Let_def internal_error_def split: prod.split sum.split)
qed

lemma onRequestPost_v3_cases:
  obtains (early) r where "\<And>api. onRequestPost_v3 api request env = (r, [])" "is_json_response r"
  | (run) key t tn where
      "\<And>api. onRequestPost_v3 api request env = finish (\<lambda>err. internal_error) (paraphrase_v3_pipeline api key t tn [])"
proof (cases request)
  case (Malformed m)
  have "\<And>api. onRequestPost_v3 api request env = ((\<lambda>err. internal_error) (Error m), [])"
    by (simp add: onRequestPost_v3_def Malformed request_json_def await_def throw_def internal_error_def)
  then show ?thesis
    by (rule early) (simp add: failed_is_json internal_error_is_json)
next
  case (Parsed b)
  show ?thesis
  proof (cases "b = JNull")
    case True
    have "\<exists>m. \<forall>api. onRequestPost_v3 api request env = ((\<lambda>err. internal_error) (Error m), [])"
      by (auto simp add: onRequestPost_v3_def Parsed True request_json_def await_def throw_def resolve_def internal_error_def)
    then show ?thesis
      using early by (auto simp add: failed_is_json internal_error_is_json)
  next
    case False
    then obtain t0 n0 where p: "property b ''text'' = resolve t0" "property b ''tone'' = resolve n0"
      by (cases b) simp_all
    define tn where "tn = (if truthy n0 then n0 else Some (JStr (js ''standard'')))"
    have unfolded: "onRequestPost_v3 api request env =
        finish (\<lambda>err. internal_error)
          ((if \<not> truthy t0 \<or> \<not> is_string t0 \<or> 2000 < length (the_string t0) then
              resolve (json (JObj [(js ''error'', JStr (js ''Invalid input text''))]) 400)
            else if \<not> array_includes allowedTones tn then
              resolve (json (JObj [(js ''error'', JStr (js ''Invalid tone''))]) 400)
            else if GEMINI_API_KEY env = None \<or> GEMINI_API_KEY env = Some [] then
              resolve (json (JObj [(js ''error'', JStr (js ''Missing Gemini API key''))]) 500)
            else paraphrase_v3_pipeline api (the (GEMINI_API_KEY env)) (the_string t0) (the_string tn)) [])" for api
      unfolding onRequestPost_v3_def Parsed request_json_def finish_def tn_def
      by (simp add: await_def resolve_def p Let_def internal_error_def split: prod.split sum.split)
    consider
        (a) "\<not> truthy t0 \<or> \<not> is_string t0 \<or> 2000 < length (the_string t0)"
      | (b) "\<not> (\<not> truthy t0 \<or> \<not> is_string t0 \<or> 2000 < length (the_string t0))"
          "\<not> array_includes allowedTones tn"
      | (c) "\<not> (\<not> truthy t0 \<or> \<not> is_string t0 \<or> 2000 < length (the_string t0))"
          "array_includes allowedTones tn" "GEMINI_API_KEY env = None \<or> GEMINI_API_KEY env = Some []"
      | (d) "\<not> (\<not> truthy t0 \<or> \<not> is_string t0 \<or> 2000 < length (the_string t0))"
          "array_includes allowedTones tn"
          "\<not> (GEMINI_API_KEY env = None \<or> GEMINI_API_KEY env = Some [])"
      by blast
    then show ?thesis
    proof cases
      case a
      have "\<And>api. onRequestPost_v3 api request env =
          (json (JObj [(js ''error'', JStr (js ''Invalid input text''))]) 400, [])"
        unfolding unfolded using a by (simp add: finish_def resolve_def)
      then show ?thesis by (rule early) (rule json_is_json)
    next
      case b
      have "\<And>api. onRequestPost_v3 api request env =
          (json (JObj [(js ''error'', JStr (js ''Invalid tone''))]) 400, [])"
        unfolding unfolded using b by (simp add: finish_def resolve_def)
      then show ?thesis by (rule early) (rule json_is_json)
    next
      case c
      have "\<And>api. onRequestPost_v3 api request env =
          (json (JObj [(js ''error'', JStr (js ''Missing Gemini API key''))]) 500, [])"
        unfolding unfolded using c by (simp add: finish_def resolve_def)
      then show ?thesis by (rule early) (rule json_is_json)
    next
      case d
      have "\<And>api. onRequestPost_v3 api request env =
          finish (\<lambda>err. internal_error)
            (paraphrase_v3_pipeline api (the (GEMINI_API_KEY env)) (the_string t0) (the_string tn) [])"
        unfolding unfolded using d by auto
      then show ?thesis by (rule run)
    qed
  qed
qed

lemma onRequestPost_v3_valid:
  assumes "valid_text (map_of kvs (js ''text''))"
    and "tone = (if truthy (map_of kvs (js ''tone'')) then map_of kvs (js ''tone'') else Some (JStr (js ''standard'')))"
    and "valid_tone tone"
    and "GEMINI_API_KEY env = Some key" "key \<noteq> []"
  shows "onRequestPost_v3 api (Parsed (JObj kvs)) env =
     finish (\<lambda>err. internal_error)
       (paraphrase_v3_pipeline api key (the_string (map_of kvs (js ''text''))) (the_string tone) [])"
proof -
  obtain s where s: "map_of kvs (js ''text'') = Some (JStr s)" "s \<noteq> []" "length s \<le> 2000"
    using assms(1) by (cases "map_of kvs (js ''text'')" rule: is_string.cases) (simp_all add: valid_text_def)
  obtain n where n: "tone = Some (JStr n)" "n \<in> set allowedTones"
    using assms(3) by (cases tone rule: is_string.cases) (simp_all add: valid_tone_def)
  have tone: "(if truthy (map_of kvs (js ''tone'')) then map_of kvs (js ''tone'') else Some (JStr (js ''standard''))) = Some (JStr n)"
    using assms(2) n(1) by simp
  show ?thesis
    using n assms(4,5) s(2,3)
    by (simp add: onRequestPost_v3_def request_json_def await_def resolve_def s(1) tone finish_def
        array_includes_def Let_def internal_error_def split: prod.split sum.split)
qed

lemma paraphrase_Inr:
  "fst (paraphrase_pipeline api key text tone []) = Inr res \<Longrightarrow> res = result (returned (api 4))"
  by (simp add: paraphrase_run Let_def split: if_splits)

lemma paraphrase_length: "length (snd (paraphrase_pipeline api key text tone [])) \<le> 5 \<and> snd (paraphrase_pipeline api key text tone []) \<noteq> []"
  by (simp add: paraphrase_run paraphrase_requests_def Let_def)

lemma paraphrase_abort:
  assumes "n < length (snd (paraphrase_pipeline api key text tone []))" and "\<not> succeeds (api n)"
  shows "length (snd (paraphrase_pipeline api key text tone [])) = Suc n \<and> (\<exists>m. fst (paraphrase_pipeline api key text tone []) = Inl (Error m))"
  using assms failure_Error [of "api n"]
  by (auto simp add: paraphrase_run paraphrase_requests_def Let_def less_Suc_eq numeral_2_eq_2 numeral_3_eq_3 four_as_Suc five_as_Suc
      split: if_splits)


lemma paraphrase_third:
  assumes "2 < length (snd (paraphrase_pipeline api key text tone []))"
  shows "3 \<le> length (variations_of (returned (api 0))) \<and>
     prompt (snd (paraphrase_pipeline api key text tone []) ! 2) =
       paraphrase_stage3 (variations_of (returned (api 0)) ! index_of (returned (api 1)))"
  using assms
  by (auto simp add: paraphrase_run paraphrase_requests_def Let_def numeral_2_eq_2 numeral_3_eq_3 four_as_Suc five_as_Suc split: if_splits)

lemma paraphrase_continues:
  assumes "1 < length (snd (paraphrase_pipeline api key text tone []))" and "succeeds (api 1)"
  shows "2 < length (snd (paraphrase_pipeline api key text tone []))"
  using assms
  by (auto simp add: paraphrase_run paraphrase_requests_def Let_def numeral_2_eq_2 numeral_3_eq_3 four_as_Suc five_as_Suc split: if_splits)

lemma paraphrase_success:
  assumes "\<forall>n<5. succeeds (api n)" and "3 \<le> length (variations_of (returned (api 0)))"
  shows "paraphrase_pipeline api key text tone [] = (Inr (result (returned (api 4))), paraphrase_requests api key text tone)"
  using assms by (simp add: paraphrase_run Let_def)

lemma paraphrase_cong:
  assumes "\<forall>n<5. api n = api' n"
  shows "paraphrase_pipeline api key text tone [] = paraphrase_pipeline api' key text tone []"
proof -
  have "api n = api' n" if "n < 5" for n
    using assms that by simp
  then show ?thesis
    by (simp add: paraphrase_run paraphrase_requests_def Let_def)
qed

lemma part_000_Inr:
  "fst (part_000_pipeline api key text tone []) = Inr res \<Longrightarrow> res = result (returned (api 3))"
  by (simp add: part_000_run Let_def split: if_splits)

lemma part_000_length: "length (snd (part_000_pipeline api key text tone [])) \<le> 4 \<and> snd (part_000_pipeline api key text tone []) \<noteq> []"
  by (simp add: part_000_run part_000_requests_def Let_def)

lemma part_000_abort:
  assumes "n < length (snd (part_000_pipeline api key text tone []))" and "\<not> succeeds (api n)"
  shows "length (snd (part_000_pipeline api key text tone [])) = Suc n \<and> (\<exists>m. fst (part_000_pipeline api key text tone []) = Inl (Error m))"
  using assms failure_Error [of "api n"]
  by (auto simp add: part_000_run part_000_requests_def Let_def less_Suc_eq numeral_2_eq_2 numeral_3_eq_3 four_as_Suc five_as_Suc
      split: if_splits)

lemma part_000_few:
  assumes "succeeds (api 0)" and "length (variations_of (returned (api 0))) < 3"
  shows "part_000_pipeline api key text tone [] =
     (Inl (Error (js ''Gemini failed to generate 3 variations'')), take 1 (part_000_requests api key text tone))"
  using assms by (simp add: part_000_run Let_def)

lemma part_000_third:
  assumes "2 < length (snd (part_000_pipeline api key text tone []))"
  shows "3 \<le> length (variations_of (returned (api 0))) \<and>
     prompt (snd (part_000_pipeline api key text tone []) ! 2) =
       part_000_stage3 (variations_of (returned (api 0)) ! index_of (returned (api 1)))"
  using assms
  by (auto simp add: part_000_run part_000_requests_def Let_def numeral_2_eq_2 numeral_3_eq_3 four_as_Suc five_as_Suc split: if_splits)

lemma part_000_continues:
  assumes "1 < length (snd (part_000_pipeline api key text tone []))" and "succeeds (api 1)"
  shows "2 < length (snd (part_000_pipeline api key text tone []))"
  using assms
  by (auto simp add: part_000_run part_000_requests_def Let_def numeral_2_eq_2 numeral_3_eq_3 four_as_Suc five_as_Suc split: if_splits)

lemma part_000_success:
  assumes "\<forall>n<4. succeeds (api n)" and "3 \<le> length (variations_of (returned (api 0)))"
  shows "part_000_pipeline api key text tone [] = (Inr (result (returned (api 3))), part_000_requests api key text tone)"
  using assms by (simp add: part_000_run Let_def)

lemma part_000_cong:
  assumes "\<forall>n<4. api n = api' n"
  shows "part_000_pipeline api key text tone [] = part_000_pipeline api' key text tone []"
proof -
  have "api n = api' n" if "n < 4" for n
    using assms that by simp
  then show ?thesis
    by (simp add: part_000_run part_000_requests_def Let_def)
qed

lemma part_001_Inr:
  "fst (part_001_pipeline api key text tone []) = Inr res \<Longrightarrow> res = result (returned (api 5))"
  by (simp add: part_001_run Let_def split: if_splits)

lemma part_001_length: "length (snd (part_001_pipeline api key text tone [])) \<le> 6 \<and> snd (part_001_pipeline api key text tone []) \<noteq> []"
  by (simp add: part_001_run part_001_requests_def Let_def)

lemma part_001_abort:
  assumes "n < length (snd (part_001_pipeline api key text tone []))" and "\<not> succeeds (api n)"
  shows "length (snd (part_001_pipeline api key text tone [])) = Suc n \<and> (\<exists>m. fst (part_001_pipeline api key text tone []) = Inl (Error m))"
  using assms failure_Error [of "api n"]
  by (auto simp add: part_001_run part_001_requests_def Let_def less_Suc_eq numeral_2_eq_2 numeral_3_eq_3 four_as_Suc five_as_Suc
      split: if_splits)


lemma part_001_third:
  assumes "2 < length (snd (part_001_pipeline api key text tone []))"
  shows "3 \<le> length (variations_of (returned (api 0))) \<and>
     prompt (snd (part_001_pipeline api key text tone []) ! 2) =
       part_001_stage3 (variations_of (returned (api 0)) ! index_of (returned (api 1)))"
  using assms
  by (auto simp add: part_001_run part_001_requests_def Let_def numeral_2_eq_2 numeral_3_eq_3 four_as_Suc five_as_Suc split: if_splits)

lemma part_001_continues:
  assumes "1 < length (snd (part_001_pipeline api key text tone []))" and "succeeds (api 1)"
  shows "2 < length (snd (part_001_pipeline api key text tone []))"
  using assms
  by (auto simp add: part_001_run part_001_requests_def Let_def numeral_2_eq_2 numeral_3_eq_3 four_as_Suc five_as_Suc split: if_splits)

lemma part_001_success:
  assumes "\<forall>n<6. succeeds (api n)" and "3 \<le> length (variations_of (returned (api 0)))"
  shows "part_001_pipeline api key text tone [] = (Inr (result (returned (api 5))), part_001_requests api key text tone)"
  using assms by (simp add: part_001_run Let_def)

lemma part_001_cong:
  assumes "\<forall>n<6. api n = api' n"
  shows "part_001_pipeline api key text tone [] = part_001_pipeline api' key text tone []"
proof -
  have "api n = api' n" if "n < 6" for n
    using assms that by simp
  then show ?thesis
    by (simp add: part_001_run part_001_requests_def Let_def)
qed

lemma paraphrase_v3_Inr:
  "fst (paraphrase_v3_pipeline api key text tone []) = Inr res \<Longrightarrow> res = result (raw_text (api 3))"
  by (simp add: paraphrase_v3_run Let_def split: if_splits)

lemma paraphrase_v3_length: "length (snd (paraphrase_v3_pipeline api key text tone [])) \<le> 4 \<and> snd (paraphrase_v3_pipeline api key text tone []) \<noteq> []"
  by (simp add: paraphrase_v3_run paraphrase_v3_requests_def Let_def)

lemma paraphrase_v3_abort:
  assumes "n < length (snd (paraphrase_v3_pipeline api key text tone []))" and "\<not> delivers (api n)"
  shows "length (snd (paraphrase_v3_pipeline api key text tone [])) = Suc n \<and> (\<exists>e. fst (paraphrase_v3_pipeline api key text tone []) = Inl e)"
  using assms refl [of "api n"]
  by (auto simp add: paraphrase_v3_run paraphrase_v3_requests_def Let_def less_Suc_eq numeral_2_eq_2 numeral_3_eq_3 four_as_Suc five_as_Suc
      split: if_splits)


lemma paraphrase_v3_third:
  assumes "2 < length (snd (paraphrase_v3_pipeline api key text tone []))"
  shows "3 \<le> length (variations_of (raw_text (api 0))) \<and>
     prompt (snd (paraphrase_v3_pipeline api key text tone []) ! 2) =
       paraphrase_v3_stage3 (variations_of (raw_text (api 0)) ! index_of (raw_text (api 1)))"
  using assms
  by (auto simp add: paraphrase_v3_run paraphrase_v3_requests_def Let_def numeral_2_eq_2 numeral_3_eq_3 four_as_Suc five_as_Suc split: if_splits)

lemma paraphrase_v3_continues:
  assumes "1 < length (snd (paraphrase_v3_pipeline api key text tone []))" and "delivers (api 1)"
  shows "2 < length (snd (paraphrase_v3_pipeline api key text tone []))"
  using assms
  by (auto simp add: paraphrase_v3_run paraphrase_v3_requests_def Let_def numeral_2_eq_2 numeral_3_eq_3 four_as_Suc five_as_Suc split: if_splits)

lemma paraphrase_v3_success:
  assumes "\<forall>n<4. delivers (api n)" and "3 \<le> length (variations_of (raw_text (api 0)))"
  shows "paraphrase_v3_pipeline api key text tone [] = (Inr (result (raw_text (api 3))), paraphrase_v3_requests api key text tone)"
  using assms by (simp add: paraphrase_v3_run Let_def)

lemma paraphrase_v3_cong:
  assumes "\<forall>n<4. api n = api' n"
  shows "paraphrase_v3_pipeline api key text tone [] = paraphrase_v3_pipeline api' key text tone []"
proof -
  have "api n = api' n" if "n < 4" for n
    using assms that by simp
  then show ?thesis
    by (simp add: paraphrase_v3_run paraphrase_v3_requests_def Let_def)
qed

lemma paraphrase_v2_Inr:
  "fst (paraphrase_v2_pipeline api key text tone []) = Inr res \<Longrightarrow> res = result (returned (api 3))"
  by (simp add: paraphrase_v2_run Let_def split: if_splits)

lemma paraphrase_v2_length:
  "length (snd (paraphrase_v2_pipeline api key text tone [])) \<le> 4 \<and>
   snd (paraphrase_v2_pipeline api key text tone []) \<noteq> []"
  by (simp add: paraphrase_v2_run paraphrase_v2_requests_def Let_def)

lemma paraphrase_v2_abort:
  assumes "n < length (snd (paraphrase_v2_pipeline api key text tone []))" and "\<not> replied (api n)"
  shows "length (snd (paraphrase_v2_pipeline api key text tone [])) = Suc n \<and>
     (\<exists>e. fst (paraphrase_v2_pipeline api key text tone []) = Inl e)"
  using assms
  by (auto simp add: paraphrase_v2_run paraphrase_v2_requests_def Let_def less_Suc_eq
      numeral_2_eq_2 numeral_3_eq_3 four_as_Suc five_as_Suc split: if_splits)



lemma paraphrase_v2_success:
  assumes "\<forall>n<4. replied (api n)" and "[] \<notin> set (paraphrase_v2_variations api)"
    and "paraphrase_v2_selectedNum api \<in> {Some 1, Some 2, Some 3}"
  shows "paraphrase_v2_pipeline api key text tone [] =
     (Inr (result (returned (api 3))), paraphrase_v2_requests api key text tone)"
  using assms by (auto simp add: paraphrase_v2_run Let_def paraphrase_v2_variations_def)

lemma paraphrase_v2_cong:
  assumes "\<forall>n<4. api n = api' n"
  shows "paraphrase_v2_pipeline api key text tone [] = paraphrase_v2_pipeline api' key text tone []"
proof -
  have "api n = api' n" if "n < 4" for n
    using assms that by simp
  then show ?thesis
    by (simp add: paraphrase_v2_run paraphrase_v2_requests_def paraphrase_v2_variations_def
        paraphrase_v2_lines_def paraphrase_v2_selectedNum_def Let_def)
qed

section \<open>What \<open>finish\<close> keeps\<close>

lemma snd_finish: "snd (finish handle r) = snd r"
  by (cases r; cases "fst r") (simp_all add: finish_def)

lemma fst_finish_Inr: "fst r = Inr res \<Longrightarrow> fst (finish handle r) = res"
  by (cases r) (simp add: finish_def)

lemma fst_finish_Inl: "fst r = Inl e \<Longrightarrow> fst (finish handle r) = handle e"
  by (cases r) (simp add: finish_def)

lemma finish_cases:
  obtains (returns) res where "fst r = Inr res" "fst (finish handle r) = res"
  | (throws) e where "fst r = Inl e" "fst (finish handle r) = handle e"
  by (cases "fst r") (auto simp add: fst_finish_Inr fst_finish_Inl)

section \<open>Facts about the handlers\<close>

lemma onRequestPost_json: "is_json_response (fst (onRequestPost api request env))"
proof (cases rule: onRequestPost_cases [where request = request and env = env])
  case (early r)
  then show ?thesis by simp
next
  case (run key t tn)
  show ?thesis
    unfolding run
    by (cases rule: finish_cases [of "paraphrase_pipeline api key t tn []" "\<lambda>err. failed (message err)"])
       (auto simp add: failed_is_json internal_error_is_json result_is_json dest: paraphrase_Inr)
qed

lemma onRequestPost_status:
  assumes "snd (onRequestPost api request env) \<noteq> []"
  shows "status (fst (onRequestPost api request env)) = 200 \<or>
     (\<exists>e. fst (onRequestPost api request env) = (\<lambda>err. failed (message err)) e)"
proof (cases rule: onRequestPost_cases [where request = request and env = env])
  case (early r)
  then show ?thesis using assms by simp
next
  case (run key t tn)
  show ?thesis
    unfolding run
    by (cases rule: finish_cases [of "paraphrase_pipeline api key t tn []" "\<lambda>err. failed (message err)"])
       (auto simp add: status_result dest: paraphrase_Inr)
qed

lemma onRequestPost_early:
  assumes "status (fst (onRequestPost api request env)) = 400 \<or>
     fst (onRequestPost api request env) = error_response ''GEMINI_API_KEY is missing in environment variables'' 500"
  shows "snd (onRequestPost api request env) = []"
proof (rule ccontr)
  assume "snd (onRequestPost api request env) \<noteq> []"
  then have "status (fst (onRequestPost api request env)) = 200 \<or>
      (\<exists>e. fst (onRequestPost api request env) = (\<lambda>err. failed (message err)) e)"
    by (rule onRequestPost_status)
  with assms show False
    by (auto simp add: status_failed status_internal_error status_error_response
        failed_is_no_error_response internal_error_is_not_missing_key)
qed

lemma onRequestPost_bound: "length (snd (onRequestPost api request env)) \<le> 5"
proof (cases rule: onRequestPost_cases [where request = request and env = env])
  case (early r)
  then show ?thesis by simp
next
  case (run key t tn)
  show ?thesis
    unfolding run snd_finish using paraphrase_length [of api key t tn] by simp
qed

lemma onRequestPost_abort:
  assumes "n < length (snd (onRequestPost api request env))" and "\<not> succeeds (api n)"
  shows "length (snd (onRequestPost api request env)) = Suc n \<and>
     (\<exists>e. fst (onRequestPost api request env) = (\<lambda>err. failed (message err)) e)"
proof (cases rule: onRequestPost_cases [where request = request and env = env])
  case (early r)
  then show ?thesis using assms by simp
next
  case (run key t tn)
  have "length (snd (paraphrase_pipeline api key t tn [])) = Suc n \<and> (\<exists>e. fst (paraphrase_pipeline api key t tn []) = Inl e)"
    using paraphrase_abort [of n api key t tn] assms unfolding run snd_finish by auto
  then show ?thesis
    unfolding run snd_finish by (auto simp add: fst_finish_Inl)
qed

lemma onRequestPost_cong:
  assumes "\<forall>n<5. api n = api' n"
  shows "onRequestPost api request env = onRequestPost api' request env"
proof (cases rule: onRequestPost_cases [where request = request and env = env])
  case (early r)
  then show ?thesis by simp
next
  case (run key t tn)
  show ?thesis
    unfolding run using paraphrase_cong [OF assms] by simp
qed

lemma onRequestPost_third:
  assumes "2 < length (snd (onRequestPost api request env))"
  shows "3 \<le> length (variations_of (returned (api 0))) \<and>
     prompt (snd (onRequestPost api request env) ! 2) =
       paraphrase_stage3 (variations_of (returned (api 0)) ! index_of (returned (api 1)))"
proof (cases rule: onRequestPost_cases [where request = request and env = env])
  case (early r)
  then show ?thesis using assms by simp
next
  case (run key t tn)
  show ?thesis
    using assms paraphrase_third [of api key t tn] unfolding run snd_finish by simp
qed

lemma onRequestPost_continues:
  assumes "1 < length (snd (onRequestPost api request env))" and "succeeds (api 1)"
  shows "2 < length (snd (onRequestPost api request env))"
proof (cases rule: onRequestPost_cases [where request = request and env = env])
  case (early r)
  then show ?thesis using assms by simp
next
  case (run key t tn)
  show ?thesis
    using assms paraphrase_continues [of api key t tn] unfolding run snd_finish by simp
qed

lemma onRequestPost_v2_json: "is_json_response (fst (onRequestPost_v2 api request env))"
proof (cases rule: onRequestPost_v2_cases [where request = request and env = env])
  case (early r)
  then show ?thesis by simp
next
  case (run key t tn)
  show ?thesis
    unfolding run
    by (cases rule: finish_cases [of "paraphrase_v2_pipeline api key t tn []" "\<lambda>err. internal_error"])
       (auto simp add: failed_is_json internal_error_is_json result_is_json dest: paraphrase_v2_Inr)
qed

lemma onRequestPost_v2_status:
  assumes "snd (onRequestPost_v2 api request env) \<noteq> []"
  shows "status (fst (onRequestPost_v2 api request env)) = 200 \<or>
     (\<exists>e. fst (onRequestPost_v2 api request env) = (\<lambda>err. internal_error) e)"
proof (cases rule: onRequestPost_v2_cases [where request = request and env = env])
  case (early r)
  then show ?thesis using assms by simp
next
  case (run key t tn)
  show ?thesis
    unfolding run
    by (cases rule: finish_cases [of "paraphrase_v2_pipeline api key t tn []" "\<lambda>err. internal_error"])
       (auto simp add: status_result dest: paraphrase_v2_Inr)
qed

lemma onRequestPost_v2_early:
  assumes "status (fst (onRequestPost_v2 api request env)) = 400 \<or>
     fst (onRequestPost_v2 api request env) = error_response ''Server configuration error'' 500"
  shows "snd (onRequestPost_v2 api request env) = []"
proof (rule ccontr)
  assume "snd (onRequestPost_v2 api request env) \<noteq> []"
  then have "status (fst (onRequestPost_v2 api request env)) = 200 \<or>
      (\<exists>e. fst (onRequestPost_v2 api request env) = (\<lambda>err. internal_error) e)"
    by (rule onRequestPost_v2_status)
  with assms show False
    by (auto simp add: status_failed status_internal_error status_error_response
        failed_is_no_error_response internal_error_is_not_missing_key)
qed

lemma onRequestPost_v2_bound: "length (snd (onRequestPost_v2 api request env)) \<le> 4"
proof (cases rule: onRequestPost_v2_cases [where request = request and env = env])
  case (early r)
  then show ?thesis by simp
next
  case (run key t tn)
  show ?thesis
    unfolding run snd_finish using paraphrase_v2_length [of api key t tn] by simp
qed

lemma onRequestPost_v2_abort:
  assumes "n < length (snd (onRequestPost_v2 api request env))" and "\<not> replied (api n)"
  shows "length (snd (onRequestPost_v2 api request env)) = Suc n \<and>
     (\<exists>e. fst (onRequestPost_v2 api request env) = (\<lambda>err. internal_error) e)"
proof (cases rule: onRequestPost_v2_cases [where request = request and env = env])
  case (early r)
  then show ?thesis using assms by simp
next
  case (run key t tn)
  have "length (snd (paraphrase_v2_pipeline api key t tn [])) = Suc n \<and> (\<exists>e. fst (paraphrase_v2_pipeline api key t tn []) = Inl e)"
    using paraphrase_v2_abort [of n api key t tn] assms unfolding run snd_finish by auto
  then show ?thesis
    unfolding run snd_finish by (auto simp add: fst_finish_Inl)
qed

lemma onRequestPost_v2_cong:
  assumes "\<forall>n<4. api n = api' n"
  shows "onRequestPost_v2 api request env = onRequestPost_v2 api' request env"
proof (cases rule: onRequestPost_v2_cases [where request = request and env = env])
  case (early r)
  then show ?thesis by simp
next
  case (run key t tn)
  show ?thesis
    unfolding run using paraphrase_v2_cong [OF assms] by simp
qed

lemma onRequestPost_v3_json: "is_json_response (fst (onRequestPost_v3 api request env))"
proof (cases rule: onRequestPost_v3_cases [where request = request and env = env])
  case (early r)
  then show ?thesis by simp
next
  case (run key t tn)
  show ?thesis
    unfolding run
    by (cases rule: finish_cases [of "paraphrase_v3_pipeline api key t tn []" "\<lambda>err. internal_error"])
       (auto simp add: failed_is_json internal_error_is_json result_is_json dest: paraphrase_v3_Inr)
qed

lemma onRequestPost_v3_status:
  assumes "snd (onRequestPost_v3 api request env) \<noteq> []"
  shows "status (fst (onRequestPost_v3 api request env)) = 200 \<or>
     (\<exists>e. fst (onRequestPost_v3 api request env) = (\<lambda>err. internal_error) e)"
proof (cases rule: onRequestPost_v3_cases [where request = request and env = env])
  case (early r)
  then show ?thesis using assms by simp
next
  case (run key t tn)
  show ?thesis
    unfolding run
    by (cases rule: finish_cases [of "paraphrase_v3_pipeline api key t tn []" "\<lambda>err. internal_error"])
       (auto simp add: status_result dest: paraphrase_v3_Inr)
qed

lemma onRequestPost_v3_early:
  assumes "status (fst (onRequestPost_v3 api request env)) = 400 \<or>
     fst (onRequestPost_v3 api request env) = error_response ''Missing Gemini API key'' 500"
  shows "snd (onRequestPost_v3 api request env) = []"
proof (rule ccontr)
  assume "snd (onRequestPost_v3 api request env) \<noteq> []"
  then have "status (fst (onRequestPost_v3 api request env)) = 200 \<or>
      (\<exists>e. fst (onRequestPost_v3 api request env) = (\<lambda>err. internal_error) e)"
    by (rule onRequestPost_v3_status)
  with assms show False
    by (auto simp add: status_failed status_internal_error status_error_response
        failed_is_no_error_response internal_error_is_not_missing_key)
qed

lemma onRequestPost_v3_bound: "length (snd (onRequestPost_v3 api request env)) \<le> 4"
proof (cases rule: onRequestPost_v3_cases [where request = request and env = env])
  case (early r)
  then show ?thesis by simp
next
  case (run key t tn)
  show ?thesis
    unfolding run snd_finish using paraphrase_v3_length [of api key t tn] by simp
qed

lemma onRequestPost_v3_abort:
  assumes "n < length (snd (onRequestPost_v3 api request env))" and "\<not> delivers (api n)"
  shows "length (snd (onRequestPost_v3 api request env)) = Suc n \<and>
     (\<exists>e. fst (onRequestPost_v3 api request env) = (\<lambda>err. internal_error) e)"
proof (cases rule: onRequestPost_v3_cases [where request = request and env = env])
  case (early r)
  then show ?thesis using assms by simp
next
  case (run key t tn)
  have "length (snd (paraphrase_v3_pipeline api key t tn [])) = Suc n \<and> (\<exists>e. fst (paraphrase_v3_pipeline api key t tn []) = Inl e)"
    using paraphrase_v3_abort [of n api key t tn] assms unfolding run snd_finish by auto
  then show ?thesis
    unfolding run snd_finish by (auto simp add: fst_finish_Inl)
qed

lemma onRequestPost_v3_cong:
  assumes "\<forall>n<4. api n = api' n"
  shows "onRequestPost_v3 api request env = onRequestPost_v3 api' request env"
proof (cases rule: onRequestPost_v3_cases [where request = request and env = env])
  case (early r)
  then show ?thesis by simp
next
  case (run key t tn)
  show ?thesis
    unfolding run using paraphrase_v3_cong [OF assms] by simp
qed

lemma onRequestPost_v3_third:
  assumes "2 < length (snd (onRequestPost_v3 api request env))"
  shows "3 \<le> length (variations_of (raw_text (api 0))) \<and>
     prompt (snd (onRequestPost_v3 api request env) ! 2) =
       paraphrase_v3_stage3 (variations_of (raw_text (api 0)) ! index_of (raw_text (api 1)))"
proof (cases rule: onRequestPost_v3_cases [where request = request and env = env])
  case (early r)
  then show ?thesis using assms by simp
next
  case (run key t tn)
  show ?thesis
    using assms paraphrase_v3_third [of api key t tn] unfolding run snd_finish by simp
qed

lemma onRequestPost_v3_continues:
  assumes "1 < length (snd (onRequestPost_v3 api request env))" and "delivers (api 1)"
  shows "2 < length (snd (onRequestPost_v3 api request env))"
proof (cases rule: onRequestPost_v3_cases [where request = request and env = env])
  case (early r)
  then show ?thesis using assms by simp
next
  case (run key t tn)
  show ?thesis
    using assms paraphrase_v3_continues [of api key t tn] unfolding run snd_finish by simp
qed

lemma onRequestPost_part_000_json: "is_json_response (fst (onRequestPost_part_000 api request env))"
proof (cases rule: onRequestPost_part_000_cases [where request = request and env = env])
  case (early r)
  then show ?thesis by simp
next
  case (run key t tn)
  show ?thesis
    unfolding run
    by (cases rule: finish_cases [of "part_000_pipeline api key t tn []" "\<lambda>err. failed (message err)"])
       (auto simp add: failed_is_json internal_error_is_json result_is_json dest: part_000_Inr)
qed

lemma onRequestPost_part_000_status:
  assumes "snd (onRequestPost_part_000 api request env) \<noteq> []"
  shows "status (fst (onRequestPost_part_000 api request env)) = 200 \<or>
     (\<exists>e. fst (onRequestPost_part_000 api request env) = (\<lambda>err. failed (message err)) e)"
proof (cases rule: onRequestPost_part_000_cases [where request = request and env = env])
  case (early r)
  then show ?thesis using assms by simp
next
  case (run key t tn)
  show ?thesis
    unfolding run
    by (cases rule: finish_cases [of "part_000_pipeline api key t tn []" "\<lambda>err. failed (message err)"])
       (auto simp add: status_result dest: part_000_Inr)
qed

lemma onRequestPost_part_000_early:
  assumes "status (fst (onRequestPost_part_000 api request env)) = 400 \<or>
     fst (onRequestPost_part_000 api request env) = error_response ''GEMINI_API_KEY is missing in environment variables'' 500"
  shows "snd (onRequestPost_part_000 api request env) = []"
proof (rule ccontr)
  assume "snd (onRequestPost_part_000 api request env) \<noteq> []"
  then have "status (fst (onRequestPost_part_000 api request env)) = 200 \<or>
      (\<exists>e. fst (onRequestPost_part_000 api request env) = (\<lambda>err. failed (message err)) e)"
    by (rule onRequestPost_part_000_status)
  with assms show False
    by (auto simp add: status_failed status_internal_error status_error_response
        failed_is_no_error_response internal_error_is_not_missing_key)
qed

lemma onRequestPost_part_000_bound: "length (snd (onRequestPost_part_000 api request env)) \<le> 4"
proof (cases rule: onRequestPost_part_000_cases [where request = request and env = env])
  case (early r)
  then show ?thesis by simp
next
  case (run key t tn)
  show ?thesis
    unfolding run snd_finish using part_000_length [of api key t tn] by simp
qed

lemma onRequestPost_part_000_abort:
  assumes "n < length (snd (onRequestPost_part_000 api request env))" and "\<not> succeeds (api n)"
  shows "length (snd (onRequestPost_part_000 api request env)) = Suc n \<and>
     (\<exists>e. fst (onRequestPost_part_000 api request env) = (\<lambda>err. failed (message err)) e)"
proof (cases rule: onRequestPost_part_000_cases [where request = request and env = env])
  case (early r)
  then show ?thesis using assms by simp
next
  case (run key t tn)
  have "length (snd (part_000_pipeline api key t tn [])) = Suc n \<and> (\<exists>e. fst (part_000_pipeline api key t tn []) = Inl e)"
    using part_000_abort [of n api key t tn] assms unfolding run snd_finish by auto
  then show ?thesis
    unfolding run snd_finish by (auto simp add: fst_finish_Inl)
qed

lemma onRequestPost_part_000_cong:
  assumes "\<forall>n<4. api n = api' n"
  shows "onRequestPost_part_000 api request env = onRequestPost_part_000 api' request env"
proof (cases rule: onRequestPost_part_000_cases [where request = request and env = env])
  case (early r)
  then show ?thesis by simp
next
  case (run key t tn)
  show ?thesis
    unfolding run using part_000_cong [OF assms] by simp
qed

lemma onRequestPost_part_000_third:
  assumes "2 < length (snd (onRequestPost_part_000 api request env))"
  shows "3 \<le> length (variations_of (returned (api 0))) \<and>
     prompt (snd (onRequestPost_part_000 api request env) ! 2) =
       part_000_stage3 (variations_of (returned (api 0)) ! index_of (returned (api 1)))"
proof (cases rule: onRequestPost_part_000_cases [where request = request and env = env])
  case (early r)
  then show ?thesis using assms by simp
next
  case (run key t tn)
  show ?thesis
    using assms part_000_third [of api key t tn] unfolding run snd_finish by simp
qed

lemma onRequestPost_part_000_continues:
  assumes "1 < length (snd (onRequestPost_part_000 api request env))" and "succeeds (api 1)"
  shows "2 < length (snd (onRequestPost_part_000 api request env))"
proof (cases rule: onRequestPost_part_000_cases [where request = request and env = env])
  case (early r)
  then show ?thesis using assms by simp
next
  case (run key t tn)
  show ?thesis
    using assms part_000_continues [of api key t tn] unfolding run snd_finish by simp
qed

lemma onRequestPost_part_001_json: "is_json_response (fst (onRequestPost_part_001 api request env))"
proof (cases rule: onRequestPost_part_001_cases [where request = request and env = env])
  case (early r)
  then show ?thesis by simp
next
  case (run key t tn)
  show ?thesis
    unfolding run
    by (cases rule: finish_cases [of "part_001_pipeline api key t tn []" "\<lambda>err. failed (message err)"])
       (auto simp add: failed_is_json internal_error_is_json result_is_json dest: part_001_Inr)
qed

lemma onRequestPost_part_001_status:
  assumes "snd (onRequestPost_part_001 api request env) \<noteq> []"
  shows "status (fst (onRequestPost_part_001 api request env)) = 200 \<or>
     (\<exists>e. fst (onRequestPost_part_001 api request env) = (\<lambda>err. failed (message err)) e)"
proof (cases rule: onRequestPost_part_001_cases [where request = request and env = env])
  case (early r)
  then show ?thesis using assms by simp
next
  case (run key t tn)
  show ?thesis
    unfolding run
    by (cases rule: finish_cases [of "part_001_pipeline api key t tn []" "\<lambda>err. failed (message err)"])
       (auto simp add: status_result dest: part_001_Inr)
qed

lemma onRequestPost_part_001_early:
  assumes "status (fst (onRequestPost_part_001 api request env)) = 400 \<or>
     fst (onRequestPost_part_001 api request env) = error_response ''GEMINI_API_KEY is missing in environment variables'' 500"
  shows "snd (onRequestPost_part_001 api request env) = []"
proof (rule ccontr)
  assume "snd (onRequestPost_part_001 api request env) \<noteq> []"
  then have "status (fst (onRequestPost_part_001 api request env)) = 200 \<or>
      (\<exists>e. fst (onRequestPost_part_001 api request env) = (\<lambda>err. failed (message err)) e)"
    by (rule onRequestPost_part_001_status)
  with assms show False
    by (auto simp add: status_failed status_internal_error status_error_response
        failed_is_no_error_response internal_error_is_not_missing_key)
qed

lemma onRequestPost_part_001_bound: "length (snd (onRequestPost_part_001 api request env)) \<le> 6"
proof (cases rule: onRequestPost_part_001_cases [where request = request and env = env])
  case (early r)
  then show ?thesis by simp
next
  case (run key t tn)
  show ?thesis
    unfolding run snd_finish using part_001_length [of api key t tn] by simp
qed

lemma onRequestPost_part_001_abort:
  assumes "n < length (snd (onRequestPost_part_001 api request env))" and "\<not> succeeds (api n)"
  shows "length (snd (onRequestPost_part_001 api request env)) = Suc n \<and>
     (\<exists>e. fst (onRequestPost_part_001 api request env) = (\<lambda>err. failed (message err)) e)"
proof (cases rule: onRequestPost_part_001_cases [where request = request and env = env])
  case (early r)
  then show ?thesis using assms by simp
next
  case (run key t tn)
  have "length (snd (part_001_pipeline api key t tn [])) = Suc n \<and> (\<exists>e. fst (part_001_pipeline api key t tn []) = Inl e)"
    using part_001_abort [of n api key t tn] assms unfolding run snd_finish by auto
  then show ?thesis
    unfolding run snd_finish by (auto simp add: fst_finish_Inl)
qed

lemma onRequestPost_part_001_cong:
  assumes "\<forall>n<6. api n = api' n"
  shows "onRequestPost_part_001 api request env = onRequestPost_part_001 api' request env"
proof (cases rule: onRequestPost_part_001_cases [where request = request and env = env])
  case (early r)
  then show ?thesis by simp
next
  case (run key t tn)
  show ?thesis
    unfolding run using part_001_cong [OF assms] by simp
qed

lemma onRequestPost_part_001_third:
  assumes "2 < length (snd (onRequestPost_part_001 api request env))"
  shows "3 \<le> length (variations_of (returned (api 0))) \<and>
     prompt (snd (onRequestPost_part_001 api request env) ! 2) =
       part_001_stage3 (variations_of (returned (api 0)) ! index_of (returned (api 1)))"
proof (cases rule: onRequestPost_part_001_cases [where request = request and env = env])
  case (early r)
  then show ?thesis using assms by simp
next
  case (run key t tn)
  show ?thesis
    using assms part_001_third [of api key t tn] unfolding run snd_finish by simp
qed

lemma onRequestPost_part_001_continues:
  assumes "1 < length (snd (onRequestPost_part_001 api request env))" and "succeeds (api 1)"
  shows "2 < length (snd (onRequestPost_part_001 api request env))"
proof (cases rule: onRequestPost_part_001_cases [where request = request and env = env])
  case (early r)
  then show ?thesis using assms by simp
next
  case (run key t tn)
  show ?thesis
    using assms part_001_continues [of api key t tn] unfolding run snd_finish by simp
qed

section \<open>What the prompts hold\<close>

lemmas prompt_holds = sublist_appendI sublist_append_rightI sublist_append_leftI

lemma candidate_mem: "3 \<le> length xs \<Longrightarrow> xs ! index_of s \<in> set xs"
  using index_of_less [of s] by simp

lemma paraphrase_stage1_holds: "sublist text (paraphrase_stage1 text)"
  unfolding paraphrase_stage1_def by (rule prompt_holds | rule sublist_behind)+

lemma paraphrase_stage2_holds_0: "sublist (variations ! 0) (paraphrase_stage2 variations)"
  unfolding paraphrase_stage2_def by (rule prompt_holds | rule sublist_behind)+

lemma paraphrase_stage2_holds_1: "sublist (variations ! 1) (paraphrase_stage2 variations)"
  unfolding paraphrase_stage2_def by (rule prompt_holds | rule sublist_behind)+

lemma paraphrase_stage2_holds_2: "sublist (variations ! 2) (paraphrase_stage2 variations)"
  unfolding paraphrase_stage2_def by (rule prompt_holds | rule sublist_behind)+

lemma paraphrase_stage3_holds: "sublist selected (paraphrase_stage3 selected)"
  unfolding paraphrase_stage3_def by (rule prompt_holds | rule sublist_behind)+

lemma paraphrase_stage4_holds: "sublist selected (paraphrase_stage4 tone selected)"
  unfolding paraphrase_stage4_def by (rule prompt_holds | rule sublist_behind)+

lemma paraphrase_stage5_holds: "sublist final (paraphrase_stage5 tone final)"
  unfolding paraphrase_stage5_def by (rule prompt_holds | rule sublist_behind)+

lemma paraphrase_chained:
  "chained text (variations_of (returned (api 0)))
     (variations_of (returned (api 0)) ! index_of (returned (api 1))) (\<lambda>n. returned (api n))
     (map prompt (snd (paraphrase_pipeline api key text tone [])))"
proof -
  consider
      (c0) "\<not> succeeds (api 0)"
    | (few) "succeeds (api 0)" "length (variations_of (returned (api 0))) < 3"
    | (c1) "succeeds (api 0)" "\<not> length (variations_of (returned (api 0))) < 3" "\<not> succeeds (api 1)"
    | (c2) "succeeds (api 0)" "succeeds (api 1)" "\<not> length (variations_of (returned (api 0))) < 3" "\<not> succeeds (api 2)"
    | (c3) "succeeds (api 0)" "succeeds (api 1)" "succeeds (api 2)" "\<not> length (variations_of (returned (api 0))) < 3" "\<not> succeeds (api 3)"
    | (c4) "succeeds (api 0)" "succeeds (api 1)" "succeeds (api 2)" "succeeds (api 3)" "\<not> length (variations_of (returned (api 0))) < 3" "\<not> succeeds (api 4)"
    | (complete) "succeeds (api 0)" "succeeds (api 1)" "succeeds (api 2)" "succeeds (api 3)" "succeeds (api 4)" "\<not> length (variations_of (returned (api 0))) < 3"
    by blast
  then show ?thesis
  proof cases
    case c0
    then show ?thesis
      by (simp add: paraphrase_run paraphrase_requests_def Let_def chained_def candidate_mem
          paraphrase_stage1_holds paraphrase_stage2_holds_0 paraphrase_stage2_holds_1 [unfolded One_nat_def] paraphrase_stage2_holds_2 paraphrase_stage3_holds paraphrase_stage4_holds paraphrase_stage5_holds)
  next
    case few
    then show ?thesis
      by (simp add: paraphrase_run paraphrase_requests_def Let_def chained_def candidate_mem
          paraphrase_stage1_holds paraphrase_stage2_holds_0 paraphrase_stage2_holds_1 [unfolded One_nat_def] paraphrase_stage2_holds_2 paraphrase_stage3_holds paraphrase_stage4_holds paraphrase_stage5_holds)
  next
    case c1
    then show ?thesis
      by (simp add: paraphrase_run paraphrase_requests_def Let_def chained_def candidate_mem
          paraphrase_stage1_holds paraphrase_stage2_holds_0 paraphrase_stage2_holds_1 [unfolded One_nat_def] paraphrase_stage2_holds_2 paraphrase_stage3_holds paraphrase_stage4_holds paraphrase_stage5_holds)
  next
    case c2
    then show ?thesis
      by (simp add: paraphrase_run paraphrase_requests_def Let_def chained_def candidate_mem
          paraphrase_stage1_holds paraphrase_stage2_holds_0 paraphrase_stage2_holds_1 [unfolded One_nat_def] paraphrase_stage2_holds_2 paraphrase_stage3_holds paraphrase_stage4_holds paraphrase_stage5_holds)
  next
    case c3
    then show ?thesis
      by (simp add: paraphrase_run paraphrase_requests_def Let_def chained_def candidate_mem
          paraphrase_stage1_holds paraphrase_stage2_holds_0 paraphrase_stage2_holds_1 [unfolded One_nat_def] paraphrase_stage2_holds_2 paraphrase_stage3_holds paraphrase_stage4_holds paraphrase_stage5_holds)
  next
    case c4
    then show ?thesis
      by (simp add: paraphrase_run paraphrase_requests_def Let_def chained_def candidate_mem
          paraphrase_stage1_holds paraphrase_stage2_holds_0 paraphrase_stage2_holds_1 [unfolded One_nat_def] paraphrase_stage2_holds_2 paraphrase_stage3_holds paraphrase_stage4_holds paraphrase_stage5_holds)
  next
    case complete
    then show ?thesis
      by (simp add: paraphrase_run paraphrase_requests_def Let_def chained_def candidate_mem
          paraphrase_stage1_holds paraphrase_stage2_holds_0 paraphrase_stage2_holds_1 [unfolded One_nat_def] paraphrase_stage2_holds_2 paraphrase_stage3_holds paraphrase_stage4_holds paraphrase_stage5_holds)
  qed
qed

lemma part_000_stage1_holds: "sublist text (part_000_stage1 text)"
  unfolding part_000_stage1_def by (rule prompt_holds | rule sublist_behind)+

lemma part_000_stage2_holds_0: "sublist (variations ! 0) (part_000_stage2 variations)"
  unfolding part_000_stage2_def by (rule prompt_holds | rule sublist_behind)+

lemma part_000_stage2_holds_1: "sublist (variations ! 1) (part_000_stage2 variations)"
  unfolding part_000_stage2_def by (rule prompt_holds | rule sublist_behind)+

lemma part_000_stage2_holds_2: "sublist (variations ! 2) (part_000_stage2 variations)"
  unfolding part_000_stage2_def by (rule prompt_holds | rule sublist_behind)+

lemma part_000_stage3_holds: "sublist selected (part_000_stage3 selected)"
  unfolding part_000_stage3_def by (rule prompt_holds | rule sublist_behind)+

lemma part_000_stage4_holds: "sublist selected (part_000_stage4 tone selected)"
  unfolding part_000_stage4_def by (rule prompt_holds | rule sublist_behind)+

lemma part_000_chained:
  "chained text (variations_of (returned (api 0)))
     (variations_of (returned (api 0)) ! index_of (returned (api 1))) (\<lambda>n. returned (api n))
     (map prompt (snd (part_000_pipeline api key text tone [])))"
proof -
  consider
      (c0) "\<not> succeeds (api 0)"
    | (few) "succeeds (api 0)" "length (variations_of (returned (api 0))) < 3"
    | (c1) "succeeds (api 0)" "\<not> length (variations_of (returned (api 0))) < 3" "\<not> succeeds (api 1)"
    | (c2) "succeeds (api 0)" "succeeds (api 1)" "\<not> length (variations_of (returned (api 0))) < 3" "\<not> succeeds (api 2)"
    | (c3) "succeeds (api 0)" "succeeds (api 1)" "succeeds (api 2)" "\<not> length (variations_of (returned (api 0))) < 3" "\<not> succeeds (api 3)"
    | (complete) "succeeds (api 0)" "succeeds (api 1)" "succeeds (api 2)" "succeeds (api 3)" "\<not> length (variations_of (returned (api 0))) < 3"
    by blast
  then show ?thesis
  proof cases
    case c0
    then show ?thesis
      by (simp add: part_000_run part_000_requests_def Let_def chained_def candidate_mem
          part_000_stage1_holds part_000_stage2_holds_0 part_000_stage2_holds_1 [unfolded One_nat_def] part_000_stage2_holds_2 part_000_stage3_holds part_000_stage4_holds)
  next
    case few
    then show ?thesis
      by (simp add: part_000_run part_000_requests_def Let_def chained_def candidate_mem
          part_000_stage1_holds part_000_stage2_holds_0 part_000_stage2_holds_1 [unfolded One_nat_def] part_000_stage2_holds_2 part_000_stage3_holds part_000_stage4_holds)
  next
    case c1
    then show ?thesis
      by (simp add: part_000_run part_000_requests_def Let_def chained_def candidate_mem
          part_000_stage1_holds part_000_stage2_holds_0 part_000_stage2_holds_1 [unfolded One_nat_def] part_000_stage2_holds_2 part_000_stage3_holds part_000_stage4_holds)
  next
    case c2
    then show ?thesis
      by (simp add: part_000_run part_000_requests_def Let_def chained_def candidate_mem
          part_000_stage1_holds part_000_stage2_holds_0 part_000_stage2_holds_1 [unfolded One_nat_def] part_000_stage2_holds_2 part_000_stage3_holds part_000_stage4_holds)
  next
    case c3
    then show ?thesis
      by (simp add: part_000_run part_000_requests_def Let_def chained_def candidate_mem
          part_000_stage1_holds part_000_stage2_holds_0 part_000_stage2_holds_1 [unfolded One_nat_def] part_000_stage2_holds_2 part_000_stage3_holds part_000_stage4_holds)
  next
    case complete
    then show ?thesis
      by (simp add: part_000_run part_000_requests_def Let_def chained_def candidate_mem
          part_000_stage1_holds part_000_stage2_holds_0 part_000_stage2_holds_1 [unfolded One_nat_def] part_000_stage2_holds_2 part_000_stage3_holds part_000_stage4_holds)
  qed
qed

lemma part_001_stage1_holds: "sublist text (part_001_stage1 text)"
  unfolding part_001_stage1_def by (rule prompt_holds | rule sublist_behind)+

lemma part_001_stage2_holds_0: "sublist (variations ! 0) (part_001_stage2 variations)"
  unfolding part_001_stage2_def by (rule prompt_holds | rule sublist_behind)+

lemma part_001_stage2_holds_1: "sublist (variations ! 1) (part_001_stage2 variations)"
  unfolding part_001_stage2_def by (rule prompt_holds | rule sublist_behind)+

lemma part_001_stage2_holds_2: "sublist (variations ! 2) (part_001_stage2 variations)"
  unfolding part_001_stage2_def by (rule prompt_holds | rule sublist_behind)+

lemma part_001_stage3_holds: "sublist selected (part_001_stage3 selected)"
  unfolding part_001_stage3_def by (rule prompt_holds | rule sublist_behind)+

lemma part_001_stage4_holds: "sublist selected (part_001_stage4 tone selected)"
  unfolding part_001_stage4_def by (rule prompt_holds | rule sublist_behind)+

lemma part_001_stage5_holds: "sublist final (part_001_stage5 tone final)"
  unfolding part_001_stage5_def by (rule prompt_holds | rule sublist_behind)+

lemma part_001_stage6_holds: "sublist final (part_001_stage6 tone final)"
  unfolding part_001_stage6_def by (rule prompt_holds | rule sublist_behind)+

lemma part_001_chained:
  "chained text (variations_of (returned (api 0)))
     (variations_of (returned (api 0)) ! index_of (returned (api 1))) (\<lambda>n. returned (api n))
     (map prompt (snd (part_001_pipeline api key text tone [])))"
proof -
  consider
      (c0) "\<not> succeeds (api 0)"
    | (few) "succeeds (api 0)" "length (variations_of (returned (api 0))) < 3"
    | (c1) "succeeds (api 0)" "\<not> length (variations_of (returned (api 0))) < 3" "\<not> succeeds (api 1)"
    | (c2) "succeeds (api 0)" "succeeds (api 1)" "\<not> length (variations_of (returned (api 0))) < 3" "\<not> succeeds (api 2)"
    | (c3) "succeeds (api 0)" "succeeds (api 1)" "succeeds (api 2)" "\<not> length (variations_of (returned (api 0))) < 3" "\<not> succeeds (api 3)"
    | (c4) "succeeds (api 0)" "succeeds (api 1)" "succeeds (api 2)" "succeeds (api 3)" "\<not> length (variations_of (returned (api 0))) < 3" "\<not> succeeds (api 4)"
    | (c5) "succeeds (api 0)" "succeeds (api 1)" "succeeds (api 2)" "succeeds (api 3)" "succeeds (api 4)" "\<not> length (variations_of (returned (api 0))) < 3" "\<not> succeeds (api 5)"
    | (complete) "succeeds (api 0)" "succeeds (api 1)" "succeeds (api 2)" "succeeds (api 3)" "succeeds (api 4)" "succeeds (api 5)" "\<not> length (variations_of (returned (api 0))) < 3"
    by blast
  then show ?thesis
  proof cases
    case c0
    then show ?thesis
      by (simp add: part_001_run part_001_requests_def Let_def chained_def candidate_mem
          part_001_stage1_holds part_001_stage2_holds_0 part_001_stage2_holds_1 [unfolded One_nat_def] part_001_stage2_holds_2 part_001_stage3_holds part_001_stage4_holds part_001_stage5_holds part_001_stage6_holds)
  next
    case few
    then show ?thesis
      by (simp add: part_001_run part_001_requests_def Let_def chained_def candidate_mem
          part_001_stage1_holds part_001_stage2_holds_0 part_001_stage2_holds_1 [unfolded One_nat_def] part_001_stage2_holds_2 part_001_stage3_holds part_001_stage4_holds part_001_stage5_holds part_001_stage6_holds)
  next
    case c1
    then show ?thesis
      by (simp add: part_001_run part_001_requests_def Let_def chained_def candidate_mem
          part_001_stage1_holds part_001_stage2_holds_0 part_001_stage2_holds_1 [unfolded One_nat_def] part_001_stage2_holds_2 part_001_stage3_holds part_001_stage4_holds part_001_stage5_holds part_001_stage6_holds)
  next
    case c2
    then show ?thesis
      by (simp add: part_001_run part_001_requests_def Let_def chained_def candidate_mem
          part_001_stage1_holds part_001_stage2_holds_0 part_001_stage2_holds_1 [unfolded One_nat_def] part_001_stage2_holds_2 part_001_stage3_holds part_001_stage4_holds part_001_stage5_holds part_001_stage6_holds)
  next
    case c3
    then show ?thesis
      by (simp add: part_001_run part_001_requests_def Let_def chained_def candidate_mem
          part_001_stage1_holds part_001_stage2_holds_0 part_001_stage2_holds_1 [unfolded One_nat_def] part_001_stage2_holds_2 part_001_stage3_holds part_001_stage4_holds part_001_stage5_holds part_001_stage6_holds)
  next
    case c4
    then show ?thesis
      by (simp add: part_001_run part_001_requests_def Let_def chained_def candidate_mem
          part_001_stage1_holds part_001_stage2_holds_0 part_001_stage2_holds_1 [unfolded One_nat_def] part_001_stage2_holds_2 part_001_stage3_holds part_001_stage4_holds part_001_stage5_holds part_001_stage6_holds)
  next
    case c5
    then show ?thesis
      by (simp add: part_001_run part_001_requests_def Let_def chained_def candidate_mem
          part_001_stage1_holds part_001_stage2_holds_0 part_001_stage2_holds_1 [unfolded One_nat_def] part_001_stage2_holds_2 part_001_stage3_holds part_001_stage4_holds part_001_stage5_holds part_001_stage6_holds)
  next
    case complete
    then show ?thesis
      by (simp add: part_001_run part_001_requests_def Let_def chained_def candidate_mem
          part_001_stage1_holds part_001_stage2_holds_0 part_001_stage2_holds_1 [unfolded One_nat_def] part_001_stage2_holds_2 part_001_stage3_holds part_001_stage4_holds part_001_stage5_holds part_001_stage6_holds)
  qed
qed

lemma paraphrase_v3_stage1_holds: "sublist text (paraphrase_v3_stage1 text)"
  unfolding paraphrase_v3_stage1_def by (rule prompt_holds | rule sublist_behind)+

lemma paraphrase_v3_stage2_holds_0: "sublist (variations ! 0) (paraphrase_v3_stage2 variations)"
  unfolding paraphrase_v3_stage2_def by (rule prompt_holds | rule sublist_behind)+

lemma paraphrase_v3_stage2_holds_1: "sublist (variations ! 1) (paraphrase_v3_stage2 variations)"
  unfolding paraphrase_v3_stage2_def by (rule prompt_holds | rule sublist_behind)+

lemma paraphrase_v3_stage2_holds_2: "sublist (variations ! 2) (paraphrase_v3_stage2 variations)"
  unfolding paraphrase_v3_stage2_def by (rule prompt_holds | rule sublist_behind)+

lemma paraphrase_v3_stage3_holds: "sublist selected (paraphrase_v3_stage3 selected)"
  unfolding paraphrase_v3_stage3_def by (rule prompt_holds | rule sublist_behind)+

lemma paraphrase_v3_stage4_holds: "sublist selected (paraphrase_v3_stage4 tone selected)"
  unfolding paraphrase_v3_stage4_def by (rule prompt_holds | rule sublist_behind)+

lemma paraphrase_v3_chained:
  "chained text (variations_of (raw_text (api 0)))
     (variations_of (raw_text (api 0)) ! index_of (raw_text (api 1))) (\<lambda>n. raw_text (api n))
     (map prompt (snd (paraphrase_v3_pipeline api key text tone [])))"
proof -
  consider
      (c0) "\<not> delivers (api 0)"
    | (few) "delivers (api 0)" "length (variations_of (raw_text (api 0))) < 3"
    | (c1) "delivers (api 0)" "\<not> length (variations_of (raw_text (api 0))) < 3" "\<not> delivers (api 1)"
    | (c2) "delivers (api 0)" "delivers (api 1)" "\<not> length (variations_of (raw_text (api 0))) < 3" "\<not> delivers (api 2)"
    | (c3) "delivers (api 0)" "delivers (api 1)" "delivers (api 2)" "\<not> length (variations_of (raw_text (api 0))) < 3" "\<not> delivers (api 3)"
    | (complete) "delivers (api 0)" "delivers (api 1)" "delivers (api 2)" "delivers (api 3)" "\<not> length (variations_of (raw_text (api 0))) < 3"
    by blast
  then show ?thesis
  proof cases
    case c0
    then show ?thesis
      by (simp add: paraphrase_v3_run paraphrase_v3_requests_def Let_def chained_def candidate_mem
          paraphrase_v3_stage1_holds paraphrase_v3_stage2_holds_0 paraphrase_v3_stage2_holds_1 [unfolded One_nat_def] paraphrase_v3_stage2_holds_2 paraphrase_v3_stage3_holds paraphrase_v3_stage4_holds)
  next
    case few
    then show ?thesis
      by (simp add: paraphrase_v3_run paraphrase_v3_requests_def Let_def chained_def candidate_mem
          paraphrase_v3_stage1_holds paraphrase_v3_stage2_holds_0 paraphrase_v3_stage2_holds_1 [unfolded One_nat_def] paraphrase_v3_stage2_holds_2 paraphrase_v3_stage3_holds paraphrase_v3_stage4_holds)
  next
    case c1
    then show ?thesis
      by (simp add: paraphrase_v3_run paraphrase_v3_requests_def Let_def chained_def candidate_mem
          paraphrase_v3_stage1_holds paraphrase_v3_stage2_holds_0 paraphrase_v3_stage2_holds_1 [unfolded One_nat_def] paraphrase_v3_stage2_holds_2 paraphrase_v3_stage3_holds paraphrase_v3_stage4_holds)
  next
    case c2
    then show ?thesis
      by (simp add: paraphrase_v3_run paraphrase_v3_requests_def Let_def chained_def candidate_mem
          paraphrase_v3_stage1_holds paraphrase_v3_stage2_holds_0 paraphrase_v3_stage2_holds_1 [unfolded One_nat_def] paraphrase_v3_stage2_holds_2 paraphrase_v3_stage3_holds paraphrase_v3_stage4_holds)
  next
    case c3
    then show ?thesis
      by (simp add: paraphrase_v3_run paraphrase_v3_requests_def Let_def chained_def candidate_mem
          paraphrase_v3_stage1_holds paraphrase_v3_stage2_holds_0 paraphrase_v3_stage2_holds_1 [unfolded One_nat_def] paraphrase_v3_stage2_holds_2 paraphrase_v3_stage3_holds paraphrase_v3_stage4_holds)
  next
    case complete
    then show ?thesis
      by (simp add: paraphrase_v3_run paraphrase_v3_requests_def Let_def chained_def candidate_mem
          paraphrase_v3_stage1_holds paraphrase_v3_stage2_holds_0 paraphrase_v3_stage2_holds_1 [unfolded One_nat_def] paraphrase_v3_stage2_holds_2 paraphrase_v3_stage3_holds paraphrase_v3_stage4_holds)
  qed
qed

lemma paraphrase_v2_stage1Prompt_holds: "sublist text (paraphrase_v2_stage1Prompt text)"
  unfolding paraphrase_v2_stage1Prompt_def by (rule prompt_holds | rule sublist_behind)+

lemma paraphrase_v2_selectPrompt_holds_text: "sublist text (paraphrase_v2_selectPrompt text var1 var2 var3)"
  unfolding paraphrase_v2_selectPrompt_def by (rule prompt_holds | rule sublist_behind)+

lemma paraphrase_v2_selectPrompt_holds_var1: "sublist var1 (paraphrase_v2_selectPrompt text var1 var2 var3)"
  unfolding paraphrase_v2_selectPrompt_def by (rule prompt_holds | rule sublist_behind)+

lemma paraphrase_v2_selectPrompt_holds_var2: "sublist var2 (paraphrase_v2_selectPrompt text var1 var2 var3)"
  unfolding paraphrase_v2_selectPrompt_def by (rule prompt_holds | rule sublist_behind)+

lemma paraphrase_v2_selectPrompt_holds_var3: "sublist var3 (paraphrase_v2_selectPrompt text var1 var2 var3)"
  unfolding paraphrase_v2_selectPrompt_def by (rule prompt_holds | rule sublist_behind)+

lemma paraphrase_v2_stage2Prompt_holds: "sublist selected (paraphrase_v2_stage2Prompt selected)"
  unfolding paraphrase_v2_stage2Prompt_def by (rule prompt_holds | rule sublist_behind)+

lemma paraphrase_v2_stage3Prompt_holds: "sublist stage2Output (paraphrase_v2_stage3Prompt tone stage2Output)"
  unfolding paraphrase_v2_stage3Prompt_def by (rule prompt_holds | rule sublist_behind)+

lemma paraphrase_v2_chained:
  "chained text (paraphrase_v2_variations api)
     (paraphrase_v2_variations api ! (nat (the (paraphrase_v2_selectedNum api)) - 1))
     (\<lambda>n. returned (api n))
     (map prompt (snd (paraphrase_v2_pipeline api key text tone [])))"
proof -
  consider
      (c0) "\<not> replied (api 0)"
    | (few) "replied (api 0)"
        "(paraphrase_v2_variations api ! 0 = [] \<or> paraphrase_v2_variations api ! 1 = [] \<or>
           paraphrase_v2_variations api ! 2 = [])"
    | (c1) "replied (api 0)"
        "\<not> (paraphrase_v2_variations api ! 0 = [] \<or> paraphrase_v2_variations api ! 1 = [] \<or>
           paraphrase_v2_variations api ! 2 = [])"
        "\<not> replied (api 1)"
    | (sel) "replied (api 0)"
        "\<not> (paraphrase_v2_variations api ! 0 = [] \<or> paraphrase_v2_variations api ! 1 = [] \<or>
           paraphrase_v2_variations api ! 2 = [])"
        "replied (api 1)"
        "(paraphrase_v2_selectedNum api \<noteq> Some 1 \<and> paraphrase_v2_selectedNum api \<noteq> Some 2 \<and>
           paraphrase_v2_selectedNum api \<noteq> Some 3)"
    | (c2) "replied (api 0)"
        "\<not> (paraphrase_v2_variations api ! 0 = [] \<or> paraphrase_v2_variations api ! 1 = [] \<or>
           paraphrase_v2_variations api ! 2 = [])"
        "replied (api 1)"
        "\<not> (paraphrase_v2_selectedNum api \<noteq> Some 1 \<and> paraphrase_v2_selectedNum api \<noteq> Some 2 \<and>
           paraphrase_v2_selectedNum api \<noteq> Some 3)"
        "\<not> replied (api 2)"
    | (c3) "replied (api 0)"
        "\<not> (paraphrase_v2_variations api ! 0 = [] \<or> paraphrase_v2_variations api ! 1 = [] \<or>
           paraphrase_v2_variations api ! 2 = [])"
        "replied (api 1)"
        "\<not> (paraphrase_v2_selectedNum api \<noteq> Some 1 \<and> paraphrase_v2_selectedNum api \<noteq> Some 2 \<and>
           paraphrase_v2_selectedNum api \<noteq> Some 3)"
        "replied (api 2)"
        "\<not> replied (api 3)"
    | (complete) "replied (api 0)"
        "\<not> (paraphrase_v2_variations api ! 0 = [] \<or> paraphrase_v2_variations api ! 1 = [] \<or>
           paraphrase_v2_variations api ! 2 = [])"
        "replied (api 1)"
        "\<not> (paraphrase_v2_selectedNum api \<noteq> Some 1 \<and> paraphrase_v2_selectedNum api \<noteq> Some 2 \<and>
           paraphrase_v2_selectedNum api \<noteq> Some 3)"
        "replied (api 2)"
        "replied (api 3)"
    by blast
  then show ?thesis
  proof cases
    case c0
    then show ?thesis
      by (auto simp add: paraphrase_v2_run paraphrase_v2_requests_def Let_def chained_def
          paraphrase_v2_variations_def
          paraphrase_v2_stage1Prompt_holds paraphrase_v2_selectPrompt_holds_var1
          paraphrase_v2_selectPrompt_holds_var2 paraphrase_v2_selectPrompt_holds_var3
          paraphrase_v2_stage2Prompt_holds paraphrase_v2_stage3Prompt_holds)
  next
    case few
    then show ?thesis
      by (auto simp add: paraphrase_v2_run paraphrase_v2_requests_def Let_def chained_def
          paraphrase_v2_variations_def
          paraphrase_v2_stage1Prompt_holds paraphrase_v2_selectPrompt_holds_var1
          paraphrase_v2_selectPrompt_holds_var2 paraphrase_v2_selectPrompt_holds_var3
          paraphrase_v2_stage2Prompt_holds paraphrase_v2_stage3Prompt_holds)
  next
    case c1
    then show ?thesis
      by (auto simp add: paraphrase_v2_run paraphrase_v2_requests_def Let_def chained_def
          paraphrase_v2_variations_def
          paraphrase_v2_stage1Prompt_holds paraphrase_v2_selectPrompt_holds_var1
          paraphrase_v2_selectPrompt_holds_var2 paraphrase_v2_selectPrompt_holds_var3
          paraphrase_v2_stage2Prompt_holds paraphrase_v2_stage3Prompt_holds)
  next
    case sel
    then show ?thesis
      by (auto simp add: paraphrase_v2_run paraphrase_v2_requests_def Let_def chained_def
          paraphrase_v2_variations_def
          paraphrase_v2_stage1Prompt_holds paraphrase_v2_selectPrompt_holds_var1
          paraphrase_v2_selectPrompt_holds_var2 paraphrase_v2_selectPrompt_holds_var3
          paraphrase_v2_stage2Prompt_holds paraphrase_v2_stage3Prompt_holds)
  next
    case c2
    then show ?thesis
      by (auto simp add: paraphrase_v2_run paraphrase_v2_requests_def Let_def chained_def
          paraphrase_v2_variations_def
          paraphrase_v2_stage1Prompt_holds paraphrase_v2_selectPrompt_holds_var1
          paraphrase_v2_selectPrompt_holds_var2 paraphrase_v2_selectPrompt_holds_var3
          paraphrase_v2_stage2Prompt_holds paraphrase_v2_stage3Prompt_holds)
  next
    case c3
    then show ?thesis
      by (auto simp add: paraphrase_v2_run paraphrase_v2_requests_def Let_def chained_def
          paraphrase_v2_variations_def
          paraphrase_v2_stage1Prompt_holds paraphrase_v2_selectPrompt_holds_var1
          paraphrase_v2_selectPrompt_holds_var2 paraphrase_v2_selectPrompt_holds_var3
          paraphrase_v2_stage2Prompt_holds paraphrase_v2_stage3Prompt_holds)
  next
    case complete
    then show ?thesis
      by (auto simp add: paraphrase_v2_run paraphrase_v2_requests_def Let_def chained_def
          paraphrase_v2_variations_def
          paraphrase_v2_stage1Prompt_holds paraphrase_v2_selectPrompt_holds_var1
          paraphrase_v2_selectPrompt_holds_var2 paraphrase_v2_selectPrompt_holds_var3
          paraphrase_v2_stage2Prompt_holds paraphrase_v2_stage3Prompt_holds)
  qed
qed

section \<open>Accepted requests\<close>

lemma valid_tone_truthy: "valid_tone v \<Longrightarrow> truthy v"
  by (cases v rule: is_string.cases) (auto simp add: valid_tone_def allowedTones_def js_def)

lemma onRequestPost_checked:
  assumes "valid_text (map_of kvs (js ''text''))"
    and "tone = (if truthy (map_of kvs (js ''tone'')) then map_of kvs (js ''tone'') else Some (JStr (js ''standard'')))"
    and "valid_tone tone"
  shows "onRequestPost api (Parsed (JObj kvs)) env =
     (if GEMINI_API_KEY env = None \<or> GEMINI_API_KEY env = Some [] then
        (error_response ''GEMINI_API_KEY is missing in environment variables'' 500, [])
      else finish (\<lambda>err. failed (message err))
        (paraphrase_pipeline api (the (GEMINI_API_KEY env)) (the_string (map_of kvs (js ''text'')))
           (the_string tone) []))"
proof -
  obtain s where s: "map_of kvs (js ''text'') = Some (JStr s)" "s \<noteq> []" "length s \<le> 2000"
    using assms(1) by (cases "map_of kvs (js ''text'')" rule: is_string.cases) (simp_all add: valid_text_def)
  obtain n where n: "tone = Some (JStr n)" "n \<in> set allowedTones"
    using assms(3) by (cases tone rule: is_string.cases) (simp_all add: valid_tone_def)
  have tone: "(if truthy (map_of kvs (js ''tone'')) then map_of kvs (js ''tone'') else Some (JStr (js ''standard''))) = Some (JStr n)"
    using assms(2) n(1) by simp
  show ?thesis
    using n s(2,3)
    by (simp add: onRequestPost_def request_json_def await_def resolve_def s(1) tone finish_def
        array_includes_def Let_def error_response_def failed_def split: prod.split sum.split)
qed

lemma onRequestPost_accepted:
  assumes "accepted kvs env"
  shows "onRequestPost api (Parsed (JObj kvs)) env =
     finish (\<lambda>err. failed (message err))
       (paraphrase_pipeline api (the (GEMINI_API_KEY env)) (the_string (map_of kvs (js ''text'')))
          (the_string (map_of kvs (js ''tone''))) [])"
  using assms onRequestPost_checked [of kvs "map_of kvs (js ''tone'')" api env]
    valid_tone_truthy [of "map_of kvs (js ''tone'')"]
  by (auto simp add: accepted_def)

lemma onRequestPost_not_rejected:
  assumes "valid_text (map_of kvs (js ''text''))"
    and "tone = (if truthy (map_of kvs (js ''tone'')) then map_of kvs (js ''tone'') else Some (JStr (js ''standard'')))"
    and "valid_tone tone"
  shows "status (fst (onRequestPost api (Parsed (JObj kvs)) env)) \<noteq> 400"
proof (cases "GEMINI_API_KEY env = None \<or> GEMINI_API_KEY env = Some []")
  case True
  then show ?thesis
    using onRequestPost_checked [OF assms, of api env] by (simp add: status_error_response)
next
  case False
  then have run: "onRequestPost api (Parsed (JObj kvs)) env =
      finish (\<lambda>err. failed (message err))
        (paraphrase_pipeline api (the (GEMINI_API_KEY env)) (the_string (map_of kvs (js ''text'')))
           (the_string tone) [])"
    using onRequestPost_checked [OF assms, of api env] by auto
  show ?thesis
    unfolding run
    by (cases rule: finish_cases [of "paraphrase_pipeline api (the (GEMINI_API_KEY env))
          (the_string (map_of kvs (js ''text''))) (the_string tone) []" "\<lambda>err. failed (message err)"])
       (auto simp add: status_failed status_internal_error status_result dest: paraphrase_Inr)
qed


lemma onRequestPost_complete:
  assumes "accepted kvs env" and "\<forall>n<5. succeeds (api n)"
    and "3 \<le> length (variations_of (returned (api 0)))"
  shows "onRequestPost api (Parsed (JObj kvs)) env =
     (result (returned (api 4)),
      paraphrase_requests api (the (GEMINI_API_KEY env)) (the_string (map_of kvs (js ''text'')))
        (the_string (map_of kvs (js ''tone''))))"
  using onRequestPost_accepted [OF assms(1), of api] assms(2,3)
    paraphrase_success [of api "the (GEMINI_API_KEY env)" "the_string (map_of kvs (js ''text''))"
      "the_string (map_of kvs (js ''tone''))"]
  by (simp add: finish_def)


lemma onRequestPost_v2_checked:
  assumes "valid_text (map_of kvs (js ''text''))"
    and "tone = map_of kvs (js ''tone'')"
    and "valid_tone tone"
  shows "onRequestPost_v2 api (Parsed (JObj kvs)) env =
     (if GEMINI_API_KEY env = None \<or> GEMINI_API_KEY env = Some [] then
        (error_response ''Server configuration error'' 500, [])
      else finish (\<lambda>err. internal_error)
        (paraphrase_v2_pipeline api (the (GEMINI_API_KEY env)) (the_string (map_of kvs (js ''text'')))
           (the_string tone) []))"
proof -
  obtain s where s: "map_of kvs (js ''text'') = Some (JStr s)" "s \<noteq> []" "length s \<le> 2000"
    using assms(1) by (cases "map_of kvs (js ''text'')" rule: is_string.cases) (simp_all add: valid_text_def)
  obtain n where n: "tone = Some (JStr n)" "n \<in> set allowedTones"
    using assms(3) by (cases tone rule: is_string.cases) (simp_all add: valid_tone_def)
  have tone: "map_of kvs (js ''tone'') = Some (JStr n)"
    using assms(2) n(1) by simp
  show ?thesis
    using n s(2,3)
    by (simp add: onRequestPost_v2_def request_json_def await_def resolve_def s(1) tone finish_def
        array_includes_def Let_def error_response_def internal_error_def split: prod.split sum.split)
qed

lemma onRequestPost_v2_accepted:
  assumes "accepted kvs env"
  shows "onRequestPost_v2 api (Parsed (JObj kvs)) env =
     finish (\<lambda>err. internal_error)
       (paraphrase_v2_pipeline api (the (GEMINI_API_KEY env)) (the_string (map_of kvs (js ''text'')))
          (the_string (map_of kvs (js ''tone''))) [])"
  using assms onRequestPost_v2_checked [of kvs "map_of kvs (js ''tone'')" api env]
    valid_tone_truthy [of "map_of kvs (js ''tone'')"]
  by (auto simp add: accepted_def)

lemma onRequestPost_v2_not_rejected:
  assumes "valid_text (map_of kvs (js ''text''))"
    and "tone = map_of kvs (js ''tone'')"
    and "valid_tone tone"
  shows "status (fst (onRequestPost_v2 api (Parsed (JObj kvs)) env)) \<noteq> 400"
proof (cases "GEMINI_API_KEY env = None \<or> GEMINI_API_KEY env = Some []")
  case True
  then show ?thesis
    using onRequestPost_v2_checked [OF assms, of api env] by (simp add: status_error_response)
next
  case False
  then have run: "onRequestPost_v2 api (Parsed (JObj kvs)) env =
      finish (\<lambda>err. internal_error)
        (paraphrase_v2_pipeline api (the (GEMINI_API_KEY env)) (the_string (map_of kvs (js ''text'')))
           (the_string tone) [])"
    using onRequestPost_v2_checked [OF assms, of api env] by auto
  show ?thesis
    unfolding run
    by (cases rule: finish_cases [of "paraphrase_v2_pipeline api (the (GEMINI_API_KEY env))
          (the_string (map_of kvs (js ''text''))) (the_string tone) []" "\<lambda>err. internal_error"])
       (auto simp add: status_failed status_internal_error status_result dest: paraphrase_v2_Inr)
qed


lemma onRequestPost_v3_checked:
  assumes "valid_text (map_of kvs (js ''text''))"
    and "tone = (if truthy (map_of kvs (js ''tone'')) then map_of kvs (js ''tone'') else Some (JStr (js ''standard'')))"
    and "valid_tone tone"
  shows "onRequestPost_v3 api (Parsed (JObj kvs)) env =
     (if GEMINI_API_KEY env = None \<or> GEMINI_API_KEY env = Some [] then
        (error_response ''Missing Gemini API key'' 500, [])
      else finish (\<lambda>err. internal_error)
        (paraphrase_v3_pipeline api (the (GEMINI_API_KEY env)) (the_string (map_of kvs (js ''text'')))
           (the_string tone) []))"
proof -
  obtain s where s: "map_of kvs (js ''text'') = Some (JStr s)" "s \<noteq> []" "length s \<le> 2000"
    using assms(1) by (cases "map_of kvs (js ''text'')" rule: is_string.cases) (simp_all add: valid_text_def)
  obtain n where n: "tone = Some (JStr n)" "n \<in> set allowedTones"
    using assms(3) by (cases tone rule: is_string.cases) (simp_all add: valid_tone_def)
  have tone: "(if truthy (map_of kvs (js ''tone'')) then map_of kvs (js ''tone'') else Some (JStr (js ''standard''))) = Some (JStr n)"
    using assms(2) n(1) by simp
  show ?thesis
    using n s(2,3)
    by (simp add: onRequestPost_v3_def request_json_def await_def resolve_def s(1) tone finish_def
        array_includes_def Let_def error_response_def internal_error_def split: prod.split sum.split)
qed

lemma onRequestPost_v3_accepted:
  assumes "accepted kvs env"
  shows "onRequestPost_v3 api (Parsed (JObj kvs)) env =
     finish (\<lambda>err. internal_error)
       (paraphrase_v3_pipeline api (the (GEMINI_API_KEY env)) (the_string (map_of kvs (js ''text'')))
          (the_string (map_of kvs (js ''tone''))) [])"
  using assms onRequestPost_v3_checked [of kvs "map_of kvs (js ''tone'')" api env]
    valid_tone_truthy [of "map_of kvs (js ''tone'')"]
  by (auto simp add: accepted_def)

lemma onRequestPost_v3_not_rejected:
  assumes "valid_text (map_of kvs (js ''text''))"
    and "tone = (if truthy (map_of kvs (js ''tone'')) then map_of kvs (js ''tone'') else Some (JStr (js ''standard'')))"
    and "valid_tone tone"
  shows "status (fst (onRequestPost_v3 api (Parsed (JObj kvs)) env)) \<noteq> 400"
proof (cases "GEMINI_API_KEY env = None \<or> GEMINI_API_KEY env = Some []")
  case True
  then show ?thesis
    using onRequestPost_v3_checked [OF assms, of api env] by (simp add: status_error_response)
next
  case False
  then have run: "onRequestPost_v3 api (Parsed (JObj kvs)) env =
      finish (\<lambda>err. internal_error)
        (paraphrase_v3_pipeline api (the (GEMINI_API_KEY env)) (the_string (map_of kvs (js ''text'')))
           (the_string tone) [])"
    using onRequestPost_v3_checked [OF assms, of api env] by auto
  show ?thesis
    unfolding run
    by (cases rule: finish_cases [of "paraphrase_v3_pipeline api (the (GEMINI_API_KEY env))
          (the_string (map_of kvs (js ''text''))) (the_string tone) []" "\<lambda>err. internal_error"])
       (auto simp add: status_failed status_internal_error status_result dest: paraphrase_v3_Inr)
qed


lemma onRequestPost_v3_complete:
  assumes "accepted kvs env" and "\<forall>n<4. delivers (api n)"
    and "3 \<le> length (variations_of (raw_text (api 0)))"
  shows "onRequestPost_v3 api (Parsed (JObj kvs)) env =
     (result (raw_text (api 3)),
      paraphrase_v3_requests api (the (GEMINI_API_KEY env)) (the_string (map_of kvs (js ''text'')))
        (the_string (map_of kvs (js ''tone''))))"
  using onRequestPost_v3_accepted [OF assms(1), of api] assms(2,3)
    paraphrase_v3_success [of api "the (GEMINI_API_KEY env)" "the_string (map_of kvs (js ''text''))"
      "the_string (map_of kvs (js ''tone''))"]
  by (simp add: finish_def)


lemma onRequestPost_part_000_checked:
  assumes "valid_text (map_of kvs (js ''text''))"
    and "tone = (if truthy (map_of kvs (js ''tone'')) then map_of kvs (js ''tone'') else Some (JStr (js ''standard'')))"
    and "valid_tone tone"
  shows "onRequestPost_part_000 api (Parsed (JObj kvs)) env =
     (if GEMINI_API_KEY env = None \<or> GEMINI_API_KEY env = Some [] then
        (error_response ''GEMINI_API_KEY is missing in environment variables'' 500, [])
      else finish (\<lambda>err. failed (message err))
        (part_000_pipeline api (the (GEMINI_API_KEY env)) (the_string (map_of kvs (js ''text'')))
           (the_string tone) []))"
proof -
  obtain s where s: "map_of kvs (js ''text'') = Some (JStr s)" "s \<noteq> []" "length s \<le> 2000"
    using assms(1) by (cases "map_of kvs (js ''text'')" rule: is_string.cases) (simp_all add: valid_text_def)
  obtain n where n: "tone = Some (JStr n)" "n \<in> set allowedTones"
    using assms(3) by (cases tone rule: is_string.cases) (simp_all add: valid_tone_def)
  have tone: "(if truthy (map_of kvs (js ''tone'')) then map_of kvs (js ''tone'') else Some (JStr (js ''standard''))) = Some (JStr n)"
    using assms(2) n(1) by simp
  show ?thesis
    using n s(2,3)
    by (simp add: onRequestPost_part_000_def request_json_def await_def resolve_def s(1) tone finish_def
        array_includes_def Let_def error_response_def failed_def split: prod.split sum.split)
qed

lemma onRequestPost_part_000_accepted:
  assumes "accepted kvs env"
  shows "onRequestPost_part_000 api (Parsed (JObj kvs)) env =
     finish (\<lambda>err. failed (message err))
       (part_000_pipeline api (the (GEMINI_API_KEY env)) (the_string (map_of kvs (js ''text'')))
          (the_string (map_of kvs (js ''tone''))) [])"
  using assms onRequestPost_part_000_checked [of kvs "map_of kvs (js ''tone'')" api env]
    valid_tone_truthy [of "map_of kvs (js ''tone'')"]
  by (auto simp add: accepted_def)

lemma onRequestPost_part_000_not_rejected:
  assumes "valid_text (map_of kvs (js ''text''))"
    and "tone = (if truthy (map_of kvs (js ''tone'')) then map_of kvs (js ''tone'') else Some (JStr (js ''standard'')))"
    and "valid_tone tone"
  shows "status (fst (onRequestPost_part_000 api (Parsed (JObj kvs)) env)) \<noteq> 400"
proof (cases "GEMINI_API_KEY env = None \<or> GEMINI_API_KEY env = Some []")
  case True
  then show ?thesis
    using onRequestPost_part_000_checked [OF assms, of api env] by (simp add: status_error_response)
next
  case False
  then have run: "onRequestPost_part_000 api (Parsed (JObj kvs)) env =
      finish (\<lambda>err. failed (message err))
        (part_000_pipeline api (the (GEMINI_API_KEY env)) (the_string (map_of kvs (js ''text'')))
           (the_string tone) [])"
    using onRequestPost_part_000_checked [OF assms, of api env] by auto
  show ?thesis
    unfolding run
    by (cases rule: finish_cases [of "part_000_pipeline api (the (GEMINI_API_KEY env))
          (the_string (map_of kvs (js ''text''))) (the_string tone) []" "\<lambda>err. failed (message err)"])
       (auto simp add: status_failed status_internal_error status_result dest: part_000_Inr)
qed


lemma onRequestPost_part_000_complete:
  assumes "accepted kvs env" and "\<forall>n<4. succeeds (api n)"
    and "3 \<le> length (variations_of (returned (api 0)))"
  shows "onRequestPost_part_000 api (Parsed (JObj kvs)) env =
     (result (returned (api 3)),
      part_000_requests api (the (GEMINI_API_KEY env)) (the_string (map_of kvs (js ''text'')))
        (the_string (map_of kvs (js ''tone''))))"
  using onRequestPost_part_000_accepted [OF assms(1), of api] assms(2,3)
    part_000_success [of api "the (GEMINI_API_KEY env)" "the_string (map_of kvs (js ''text''))"
      "the_string (map_of kvs (js ''tone''))"]
  by (simp add: finish_def)

lemma onRequestPost_part_000_few:
  assumes "snd (onRequestPost_part_000 api request env) \<noteq> []" and "succeeds (api 0)"
    and "length (variations_of (returned (api 0))) < 3"
  shows "fst (onRequestPost_part_000 api request env) = failed (js ''Gemini failed to generate 3 variations'') \<and>
     length (snd (onRequestPost_part_000 api request env)) = 1"
proof (cases rule: onRequestPost_part_000_cases [where request = request and env = env])
  case (early r)
  then show ?thesis using assms by simp
next
  case (run key t tn)
  show ?thesis
    unfolding run using assms(2,3) part_000_few [of api key t tn]
    by (simp add: finish_def part_000_requests_def Let_def)
qed

lemma onRequestPost_part_001_checked:
  assumes "valid_text (map_of kvs (js ''text''))"
    and "tone = (if truthy (map_of kvs (js ''tone'')) then map_of kvs (js ''tone'') else Some (JStr (js ''standard'')))"
    and "valid_tone tone"
  shows "onRequestPost_part_001 api (Parsed (JObj kvs)) env =
     (if GEMINI_API_KEY env = None \<or> GEMINI_API_KEY env = Some [] then
        (error_response ''GEMINI_API_KEY is missing in environment variables'' 500, [])
      else finish (\<lambda>err. failed (message err))
        (part_001_pipeline api (the (GEMINI_API_KEY env)) (the_string (map_of kvs (js ''text'')))
           (the_string tone) []))"
proof -
  obtain s where s: "map_of kvs (js ''text'') = Some (JStr s)" "s \<noteq> []" "length s \<le> 2000"
    using assms(1) by (cases "map_of kvs (js ''text'')" rule: is_string.cases) (simp_all add: valid_text_def)
  obtain n where n: "tone = Some (JStr n)" "n \<in> set allowedTones"
    using assms(3) by (cases tone rule: is_string.cases) (simp_all add: valid_tone_def)
  have tone: "(if truthy (map_of kvs (js ''tone'')) then map_of kvs (js ''tone'') else Some (JStr (js ''standard''))) = Some (JStr n)"
    using assms(2) n(1) by simp
  show ?thesis
    using n s(2,3)
    by (simp add: onRequestPost_part_001_def request_json_def await_def resolve_def s(1) tone finish_def
        array_includes_def Let_def error_response_def failed_def split: prod.split sum.split)
qed

lemma onRequestPost_part_001_accepted:
  assumes "accepted kvs env"
  shows "onRequestPost_part_001 api (Parsed (JObj kvs)) env =
     finish (\<lambda>err. failed (message err))
       (part_001_pipeline api (the (GEMINI_API_KEY env)) (the_string (map_of kvs (js ''text'')))
          (the_string (map_of kvs (js ''tone''))) [])"
  using assms onRequestPost_part_001_checked [of kvs "map_of kvs (js ''tone'')" api env]
    valid_tone_truthy [of "map_of kvs (js ''tone'')"]
  by (auto simp add: accepted_def)

lemma onRequestPost_part_001_not_rejected:
  assumes "valid_text (map_of kvs (js ''text''))"
    and "tone = (if truthy (map_of kvs (js ''tone'')) then map_of kvs (js ''tone'') else Some (JStr (js ''standard'')))"
    and "valid_tone tone"
  shows "status (fst (onRequestPost_part_001 api (Parsed (JObj kvs)) env)) \<noteq> 400"
proof (cases "GEMINI_API_KEY env = None \<or> GEMINI_API_KEY env = Some []")
  case True
  then show ?thesis
    using onRequestPost_part_001_checked [OF assms, of api env] by (simp add: status_error_response)
next
  case False
  then have run: "onRequestPost_part_001 api (Parsed (JObj kvs)) env =
      finish (\<lambda>err. failed (message err))
        (part_001_pipeline api (the (GEMINI_API_KEY env)) (the_string (map_of kvs (js ''text'')))
           (the_string tone) [])"
    using onRequestPost_part_001_checked [OF assms, of api env] by auto
  show ?thesis
    unfolding run
    by (cases rule: finish_cases [of "part_001_pipeline api (the (GEMINI_API_KEY env))
          (the_string (map_of kvs (js ''text''))) (the_string tone) []" "\<lambda>err. failed (message err)"])
       (auto simp add: status_failed status_internal_error status_result dest: part_001_Inr)
qed


lemma onRequestPost_part_001_complete:
  assumes "accepted kvs env" and "\<forall>n<6. succeeds (api n)"
    and "3 \<le> length (variations_of (returned (api 0)))"
  shows "onRequestPost_part_001 api (Parsed (JObj kvs)) env =
     (result (returned (api 5)),
      part_001_requests api (the (GEMINI_API_KEY env)) (the_string (map_of kvs (js ''text'')))
        (the_string (map_of kvs (js ''tone''))))"
  using onRequestPost_part_001_accepted [OF assms(1), of api] assms(2,3)
    part_001_success [of api "the (GEMINI_API_KEY env)" "the_string (map_of kvs (js ''text''))"
      "the_string (map_of kvs (js ''tone''))"]
  by (simp add: finish_def)


lemma onRequestPost_v2_complete:
  assumes "accepted kvs env" and "\<forall>n<4. replied (api n)"
    and "[] \<notin> set (paraphrase_v2_variations api)"
    and "paraphrase_v2_selectedNum api \<in> {Some 1, Some 2, Some 3}"
  shows "onRequestPost_v2 api (Parsed (JObj kvs)) env =
     (result (returned (api 3)),
      paraphrase_v2_requests api (the (GEMINI_API_KEY env)) (the_string (map_of kvs (js ''text'')))
        (the_string (map_of kvs (js ''tone''))))"
  using onRequestPost_v2_accepted [OF assms(1), of api] assms(2,3,4)
    paraphrase_v2_success [of api "the (GEMINI_API_KEY env)" "the_string (map_of kvs (js ''text''))"
      "the_string (map_of kvs (js ''tone''))"]
  by (simp add: finish_def)



lemma onRequestPost_v2_needs_tone:
  assumes "valid_text (map_of kvs (js ''text''))" and "map_of kvs (js ''tone'') = None"
  shows "onRequestPost_v2 api (Parsed (JObj kvs)) env =
     (error_response ''Invalid tone: must be one of standard, simple, professional, academic'' 400, [])"
proof -
  obtain s where s: "map_of kvs (js ''text'') = Some (JStr s)" "s \<noteq> []" "length s \<le> 2000"
    using assms(1) by (cases "map_of kvs (js ''text'')" rule: is_string.cases) (simp_all add: valid_text_def)
  show ?thesis
    using s(2,3)
    by (simp add: onRequestPost_v2_def request_json_def await_def resolve_def s(1) assms(2)
        array_includes_def error_response_def)
qed

lemma onRequestPost_tone_default:
  assumes "map_of kvs (js ''tone'') = None"
  shows "onRequestPost api (Parsed (JObj kvs)) env =
     onRequestPost api (Parsed (JObj ((js ''tone'', JStr (js ''standard'')) # kvs))) env"
  using assms
  by (simp add: onRequestPost_def request_json_def await_def resolve_def text_is_not_tone
      standard_not_empty Let_def)

lemma onRequestPost_v3_tone_default:
  assumes "map_of kvs (js ''tone'') = None"
  shows "onRequestPost_v3 api (Parsed (JObj kvs)) env =
     onRequestPost_v3 api (Parsed (JObj ((js ''tone'', JStr (js ''standard'')) # kvs))) env"
  using assms
  by (simp add: onRequestPost_v3_def request_json_def await_def resolve_def text_is_not_tone
      standard_not_empty Let_def)

lemma onRequestPost_part_000_tone_default:
  assumes "map_of kvs (js ''tone'') = None"
  shows "onRequestPost_part_000 api (Parsed (JObj kvs)) env =
     onRequestPost_part_000 api (Parsed (JObj ((js ''tone'', JStr (js ''standard'')) # kvs))) env"
  using assms
  by (simp add: onRequestPost_part_000_def request_json_def await_def resolve_def text_is_not_tone
      standard_not_empty Let_def)

lemma onRequestPost_part_001_tone_default:
  assumes "map_of kvs (js ''tone'') = None"
  shows "onRequestPost_part_001 api (Parsed (JObj kvs)) env =
     onRequestPost_part_001 api (Parsed (JObj ((js ''tone'', JStr (js ''standard'')) # kvs))) env"
  using assms
  by (simp add: onRequestPost_part_001_def request_json_def await_def resolve_def text_is_not_tone
      standard_not_empty Let_def)

section \<open>Sample runs\<close>

lemmas sample_evals = scripted_def succeeds_def returned_def trim_def is_whitespace_def js_def ok_def
  variations_of_def split_def index_of_def Number_def Let_def

lemma sample_succeeds: "n < 6 \<Longrightarrow> succeeds (sample_api n)"
  by (simp add: sample_evals nth_Cons split: nat.split)

lemma sample_delivers: "n < 6 \<Longrightarrow> delivers (sample_api n)"
  by (simp add: sample_evals nth_Cons split: nat.split)

lemma sample_variations: "variations_of (returned (sample_api 0)) = [js ''A'', js ''B'', js ''C'']"
  by (simp add: sample_evals)

lemma sample_variations_raw: "variations_of (raw_text (sample_api 0)) = [js ''A'', js ''B'', js ''C'']"
  by (simp add: sample_evals)

lemma sample_index: "index_of (returned (sample_api (Suc 0))) = Suc 0"
  by (simp add: sample_evals)

lemma sample_index_raw: "index_of (raw_text (sample_api (Suc 0))) = Suc 0"
  by (simp add: sample_evals)

lemma sample_valid:
  "valid_text (map_of sample_body (js ''text''))"
  "valid_tone (map_of sample_body (js ''tone''))"
  "truthy (map_of sample_body (js ''tone''))"
  by (simp_all add: valid_text_def valid_tone_def allowedTones_def js_def)

lemma sample_onRequestPost_calls:
  "snd (onRequestPost api (Parsed (JObj sample_body)) sample_env) \<noteq> []"
  using onRequestPost_valid [of sample_body "map_of sample_body (js ''tone'')" sample_env "js ''k''" api]
    sample_valid paraphrase_length [of api]
  by (simp add: snd_finish js_def)

lemma sample_onRequestPost_run:
  assumes "\<And>n. n < 5 \<Longrightarrow> succeeds (api n)" and "3 \<le> length (variations_of (returned (api 0)))"
  shows "onRequestPost api (Parsed (JObj sample_body)) sample_env =
     (result (returned (api 4)),
      paraphrase_requests api (js ''k'') (js ''Hello world'') (js ''simple''))"
proof -
  have "paraphrase_pipeline api (js ''k'') (js ''Hello world'') (js ''simple'') [] =
      (Inr (result (returned (api 4))),
       paraphrase_requests api (js ''k'') (js ''Hello world'') (js ''simple''))"
    by (rule paraphrase_success) (simp_all add: assms)
  moreover have "the_string (map_of sample_body (js ''text'')) = js ''Hello world''"
    and "the_string (map_of sample_body (js ''tone'')) = js ''simple''"
    by (simp_all add: js_def)
  ultimately show ?thesis
    using onRequestPost_valid [of sample_body "map_of sample_body (js ''tone'')" sample_env "js ''k''" api]
      sample_valid
    by (simp add: finish_def js_def)
qed

lemma sample_onRequestPost:
  "onRequestPost sample_api (Parsed (JObj sample_body)) sample_env =
     (result (returned (sample_api 4)),
      paraphrase_requests sample_api (js ''k'') (js ''Hello world'') (js ''simple''))"
  by (rule sample_onRequestPost_run) (simp_all add: sample_succeeds sample_variations)

lemma sample_onRequestPost_length:
  "length (snd (onRequestPost sample_api (Parsed (JObj sample_body)) sample_env)) = 5"
  by (simp add: sample_onRequestPost paraphrase_requests_def Let_def)

lemma sample_onRequestPost_v3_calls:
  "snd (onRequestPost_v3 api (Parsed (JObj sample_body)) sample_env) \<noteq> []"
  using onRequestPost_v3_valid [of sample_body "map_of sample_body (js ''tone'')" sample_env "js ''k''" api]
    sample_valid paraphrase_v3_length [of api]
  by (simp add: snd_finish js_def)

lemma sample_onRequestPost_v3_run:
  assumes "\<And>n. n < 4 \<Longrightarrow> delivers (api n)" and "3 \<le> length (variations_of (raw_text (api 0)))"
  shows "onRequestPost_v3 api (Parsed (JObj sample_body)) sample_env =
     (result (raw_text (api 3)),
      paraphrase_v3_requests api (js ''k'') (js ''Hello world'') (js ''simple''))"
proof -
  have "paraphrase_v3_pipeline api (js ''k'') (js ''Hello world'') (js ''simple'') [] =
      (Inr (result (raw_text (api 3))),
       paraphrase_v3_requests api (js ''k'') (js ''Hello world'') (js ''simple''))"
    by (rule paraphrase_v3_success) (simp_all add: assms)
  moreover have "the_string (map_of sample_body (js ''text'')) = js ''Hello world''"
    and "the_string (map_of sample_body (js ''tone'')) = js ''simple''"
    by (simp_all add: js_def)
  ultimately show ?thesis
    using onRequestPost_v3_valid [of sample_body "map_of sample_body (js ''tone'')" sample_env "js ''k''" api]
      sample_valid
    by (simp add: finish_def js_def)
qed

lemma sample_onRequestPost_v3:
  "onRequestPost_v3 sample_api (Parsed (JObj sample_body)) sample_env =
     (result (raw_text (sample_api 3)),
      paraphrase_v3_requests sample_api (js ''k'') (js ''Hello world'') (js ''simple''))"
  by (rule sample_onRequestPost_v3_run) (simp_all add: sample_delivers sample_variations_raw)

lemma sample_onRequestPost_v3_length:
  "length (snd (onRequestPost_v3 sample_api (Parsed (JObj sample_body)) sample_env)) = 4"
  by (simp add: sample_onRequestPost_v3 paraphrase_v3_requests_def Let_def)

lemma sample_onRequestPost_part_000_calls:
  "snd (onRequestPost_part_000 api (Parsed (JObj sample_body)) sample_env) \<noteq> []"
  using onRequestPost_part_000_valid [of sample_body "map_of sample_body (js ''tone'')" sample_env "js ''k''" api]
    sample_valid part_000_length [of api]
  by (simp add: snd_finish js_def)

lemma sample_onRequestPost_part_000_run:
  assumes "\<And>n. n < 4 \<Longrightarrow> succeeds (api n)" and "3 \<le> length (variations_of (returned (api 0)))"
  shows "onRequestPost_part_000 api (Parsed (JObj sample_body)) sample_env =
     (result (returned (api 3)),
      part_000_requests api (js ''k'') (js ''Hello world'') (js ''simple''))"
proof -
  have "part_000_pipeline api (js ''k'') (js ''Hello world'') (js ''simple'') [] =
      (Inr (result (returned (api 3))),
       part_000_requests api (js ''k'') (js ''Hello world'') (js ''simple''))"
    by (rule part_000_success) (simp_all add: assms)
  moreover have "the_string (map_of sample_body (js ''text'')) = js ''Hello world''"
    and "the_string (map_of sample_body (js ''tone'')) = js ''simple''"
    by (simp_all add: js_def)
  ultimately show ?thesis
    using onRequestPost_part_000_valid [of sample_body "map_of sample_body (js ''tone'')" sample_env "js ''k''" api]
      sample_valid
    by (simp add: finish_def js_def)
qed

lemma sample_onRequestPost_part_000:
  "onRequestPost_part_000 sample_api (Parsed (JObj sample_body)) sample_env =
     (result (returned (sample_api 3)),
      part_000_requests sample_api (js ''k'') (js ''Hello world'') (js ''simple''))"
  by (rule sample_onRequestPost_part_000_run) (simp_all add: sample_succeeds sample_variations)

lemma sample_onRequestPost_part_000_length:
  "length (snd (onRequestPost_part_000 sample_api (Parsed (JObj sample_body)) sample_env)) = 4"
  by (simp add: sample_onRequestPost_part_000 part_000_requests_def Let_def)

lemma sample_onRequestPost_part_001_calls:
  "snd (onRequestPost_part_001 api (Parsed (JObj sample_body)) sample_env) \<noteq> []"
  using onRequestPost_part_001_valid [of sample_body "map_of sample_body (js ''tone'')" sample_env "js ''k''" api]
    sample_valid part_001_length [of api]
  by (simp add: snd_finish js_def)

lemma sample_onRequestPost_part_001_run:
  assumes "\<And>n. n < 6 \<Longrightarrow> succeeds (api n)" and "3 \<le> length (variations_of (returned (api 0)))"
  shows "onRequestPost_part_001 api (Parsed (JObj sample_body)) sample_env =
     (result (returned (api 5)),
      part_001_requests api (js ''k'') (js ''Hello world'') (js ''simple''))"
proof -
  have "part_001_pipeline api (js ''k'') (js ''Hello world'') (js ''simple'') [] =
      (Inr (result (returned (api 5))),
       part_001_requests api (js ''k'') (js ''Hello world'') (js ''simple''))"
    by (rule part_001_success) (simp_all add: assms)
  moreover have "the_string (map_of sample_body (js ''text'')) = js ''Hello world''"
    and "the_string (map_of sample_body (js ''tone'')) = js ''simple''"
    by (simp_all add: js_def)
  ultimately show ?thesis
    using onRequestPost_part_001_valid [of sample_body "map_of sample_body (js ''tone'')" sample_env "js ''k''" api]
      sample_valid
    by (simp add: finish_def js_def)
qed

lemma sample_onRequestPost_part_001:
  "onRequestPost_part_001 sample_api (Parsed (JObj sample_body)) sample_env =
     (result (returned (sample_api 5)),
      part_001_requests sample_api (js ''k'') (js ''Hello world'') (js ''simple''))"
  by (rule sample_onRequestPost_part_001_run) (simp_all add: sample_succeeds sample_variations)

lemma sample_onRequestPost_part_001_length:
  "length (snd (onRequestPost_part_001 sample_api (Parsed (JObj sample_body)) sample_env)) = 6"
  by (simp add: sample_onRequestPost_part_001 part_001_requests_def Let_def)

section \<open>The claims\<close>

text \<open>
  C8. Every response of a handler, whatever the request, the environment and the outcomes of
  the calls, is JSON: it carries the \<^verbatim>\<open>Content-Type\<close> \<^verbatim>\<open>application/json\<close> and its body is a
  JSON object. This holds for the five Pages handlers, for the Express handler, which answers
  through \<^verbatim>\<open>res.json\<close> on every path, and for its health check.
\<close>

theorem C8_every_response_is_json:
  "is_json_response (fst (onRequestPost api request env)) \<and>
   is_json_response (fst (onRequestPost_v2 api request env)) \<and>
   is_json_response (fst (onRequestPost_v3 api request env)) \<and>
   is_json_response (fst (onRequestPost_part_000 api request env)) \<and>
   is_json_response (fst (onRequestPost_part_001 api request env)) \<and>
   is_json_response (fst (paraphrase_handler sdk req_body)) \<and>
   is_json_response health"
proof -
  have "is_json_response (fst (paraphrase_handler sdk req_body))"
    by (simp add: paraphrase_handler_def Let_def res_json_is_json
        split: option.split jsval.split generate_outcome.split)
  moreover have "is_json_response health"
    by (simp add: health_def res_json_is_json)
  ultimately show ?thesis
    by (simp add: onRequestPost_json onRequestPost_v2_json onRequestPost_v3_json
        onRequestPost_part_000_json onRequestPost_part_001_json)
qed

text \<open>An instance of C8, on the sample request and on an empty body.\<close>

theorem C8_witness:
  "is_json_response (fst (onRequestPost sample_api (Parsed (JObj sample_body)) sample_env)) \<and>
   is_json_response (fst (onRequestPost_v2 sample_api (Parsed (JObj sample_body)) sample_env)) \<and>
   is_json_response (fst (onRequestPost_v3 sample_api (Parsed (JObj sample_body)) sample_env)) \<and>
   is_json_response (fst (onRequestPost_part_000 sample_api (Parsed (JObj sample_body)) sample_env)) \<and>
   is_json_response (fst (onRequestPost_part_001 sample_api (Parsed (JObj sample_body)) sample_env)) \<and>
   is_json_response (fst (paraphrase_handler (scripted_sdk []) (Some (JObj [])))) \<and>
   is_json_response health"
  by (rule C8_every_response_is_json)

text \<open>
  C9. When a handler returns a 400 response, or the 500 response that reports the missing
  \<^verbatim>\<open>GEMINI_API_KEY\<close>, it has issued no request to the external API.
\<close>

theorem C9_validation_precedes_calls:
  "(status (fst (onRequestPost api request env)) = 400 \<or>
    fst (onRequestPost api request env) = error_response ''GEMINI_API_KEY is missing in environment variables'' 500 \<longrightarrow>
    snd (onRequestPost api request env) = []) \<and>
   (status (fst (onRequestPost_v2 api request env)) = 400 \<or>
    fst (onRequestPost_v2 api request env) = error_response ''Server configuration error'' 500 \<longrightarrow>
    snd (onRequestPost_v2 api request env) = []) \<and>
   (status (fst (onRequestPost_v3 api request env)) = 400 \<or>
    fst (onRequestPost_v3 api request env) = error_response ''Missing Gemini API key'' 500 \<longrightarrow>
    snd (onRequestPost_v3 api request env) = []) \<and>
   (status (fst (onRequestPost_part_000 api request env)) = 400 \<or>
    fst (onRequestPost_part_000 api request env) = error_response ''GEMINI_API_KEY is missing in environment variables'' 500 \<longrightarrow>
    snd (onRequestPost_part_000 api request env) = []) \<and>
   (status (fst (onRequestPost_part_001 api request env)) = 400 \<or>
    fst (onRequestPost_part_001 api request env) = error_response ''GEMINI_API_KEY is missing in environment variables'' 500 \<longrightarrow>
    snd (onRequestPost_part_001 api request env) = []) \<and>
   (status (fst (paraphrase_handler sdk req_body)) = 400 \<longrightarrow>
    snd (paraphrase_handler sdk req_body) = [])"
proof -
  have "snd (paraphrase_handler sdk req_body) = []"
    if "status (fst (paraphrase_handler sdk req_body)) = 400"
    using that
    by (simp add: paraphrase_handler_def Let_def res_json_def
        split: option.splits jsval.splits generate_outcome.splits)
  then show ?thesis
    using onRequestPost_early [of api request env] onRequestPost_v2_early [of api request env]
      onRequestPost_v3_early [of api request env] onRequestPost_part_000_early [of api request env]
      onRequestPost_part_001_early [of api request env]
    by blast
qed

text \<open>An instance of C9: a body without a text is answered with 400 and no request is issued.\<close>

theorem C9_witness:
  "status (fst (onRequestPost sample_api (Parsed (JObj [])) sample_env)) = 400 \<and>
   snd (onRequestPost sample_api (Parsed (JObj [])) sample_env) = [] \<and>
   status (fst (onRequestPost_v2 sample_api (Parsed (JObj [])) sample_env)) = 400 \<and>
   snd (onRequestPost_v2 sample_api (Parsed (JObj [])) sample_env) = [] \<and>
   status (fst (onRequestPost_v3 sample_api (Parsed (JObj [])) sample_env)) = 400 \<and>
   snd (onRequestPost_v3 sample_api (Parsed (JObj [])) sample_env) = [] \<and>
   status (fst (onRequestPost_part_000 sample_api (Parsed (JObj [])) sample_env)) = 400 \<and>
   snd (onRequestPost_part_000 sample_api (Parsed (JObj [])) sample_env) = [] \<and>
   status (fst (onRequestPost_part_001 sample_api (Parsed (JObj [])) sample_env)) = 400 \<and>
   snd (onRequestPost_part_001 sample_api (Parsed (JObj [])) sample_env) = [] \<and>
   status (fst (paraphrase_handler (scripted_sdk []) (Some (JObj [])))) = 400 \<and>
   snd (paraphrase_handler (scripted_sdk []) (Some (JObj []))) = []"
proof -
  have "status (fst (onRequestPost sample_api (Parsed (JObj [])) sample_env)) = 400"
    "status (fst (onRequestPost_v2 sample_api (Parsed (JObj [])) sample_env)) = 400"
    "status (fst (onRequestPost_v3 sample_api (Parsed (JObj [])) sample_env)) = 400"
    "status (fst (onRequestPost_part_000 sample_api (Parsed (JObj [])) sample_env)) = 400"
    "status (fst (onRequestPost_part_001 sample_api (Parsed (JObj [])) sample_env)) = 400"
    by (simp_all add: onRequestPost_def onRequestPost_v2_def onRequestPost_v3_def
        onRequestPost_part_000_def onRequestPost_part_001_def request_json_def await_def
        resolve_def json_def)
  moreover have "status (fst (paraphrase_handler (scripted_sdk []) (Some (JObj [])))) = 400"
    by (simp add: paraphrase_handler_def validateInput_def res_json_def)
  ultimately show ?thesis
    using C9_validation_precedes_calls
      [of sample_api "Parsed (JObj [])" sample_env "scripted_sdk []" "Some (JObj [])"]
    by simp
qed

text \<open>
  C3. In the handlers that compute a selection index (the first and the third handler of
  \<^verbatim>\<open>paraphrase.js\<close>, \<^verbatim>\<open>part_000\<close> and \<^verbatim>\<open>part_001\<close>): the index is always 0, 1 or 2, and whenever the
  first refinement stage runs (a third request is issued) the stage-1 reply gave at least three
  candidates, the selected text is one of them, and it is the text in the stage-3 prompt.
\<close>

theorem C3_selection_within_candidates:
  "index_of selectionRaw < 3 \<and>
   (2 < length (snd (onRequestPost api request env)) \<longrightarrow>
      3 \<le> length (variations_of (returned (api 0))) \<and>
      variations_of (returned (api 0)) ! index_of (returned (api 1)) \<in> set (variations_of (returned (api 0))) \<and>
      prompt (snd (onRequestPost api request env) ! 2) =
        paraphrase_stage3 (variations_of (returned (api 0)) ! index_of (returned (api 1)))) \<and>
   (2 < length (snd (onRequestPost_v3 api request env)) \<longrightarrow>
      3 \<le> length (variations_of (raw_text (api 0))) \<and>
      variations_of (raw_text (api 0)) ! index_of (raw_text (api 1)) \<in> set (variations_of (raw_text (api 0))) \<and>
      prompt (snd (onRequestPost_v3 api request env) ! 2) =
        paraphrase_v3_stage3 (variations_of (raw_text (api 0)) ! index_of (raw_text (api 1)))) \<and>
   (2 < length (snd (onRequestPost_part_000 api request env)) \<longrightarrow>
      3 \<le> length (variations_of (returned (api 0))) \<and>
      variations_of (returned (api 0)) ! index_of (returned (api 1)) \<in> set (variations_of (returned (api 0))) \<and>
      prompt (snd (onRequestPost_part_000 api request env) ! 2) =
        part_000_stage3 (variations_of (returned (api 0)) ! index_of (returned (api 1)))) \<and>
   (2 < length (snd (onRequestPost_part_001 api request env)) \<longrightarrow>
      3 \<le> length (variations_of (returned (api 0))) \<and>
      variations_of (returned (api 0)) ! index_of (returned (api 1)) \<in> set (variations_of (returned (api 0))) \<and>
      prompt (snd (onRequestPost_part_001 api request env) ! 2) =
        part_001_stage3 (variations_of (returned (api 0)) ! index_of (returned (api 1))))"
proof -
  have "xs ! index_of s \<in> set xs" if "3 \<le> length xs" for xs :: "jsstring list" and s
    using that index_of_less [of s] by simp
  then show ?thesis
    using index_of_less [of selectionRaw]
      onRequestPost_third [of api request env] onRequestPost_v3_third [of api request env]
      onRequestPost_part_000_third [of api request env]
      onRequestPost_part_001_third [of api request env]
    by simp
qed

text \<open>
  An instance of C3: the stage-1 reply \<^verbatim>\<open>A ||| B ||| C\<close> and the stage-2 reply \<^verbatim>\<open>2\<close> put the second
  candidate in the stage-3 prompt.
\<close>

theorem C3_witness:
  "2 < length (snd (onRequestPost sample_api (Parsed (JObj sample_body)) sample_env)) \<and>
   prompt (snd (onRequestPost sample_api (Parsed (JObj sample_body)) sample_env) ! 2) = paraphrase_stage3 (js ''B'') \<and>
   2 < length (snd (onRequestPost_v3 sample_api (Parsed (JObj sample_body)) sample_env)) \<and>
   prompt (snd (onRequestPost_v3 sample_api (Parsed (JObj sample_body)) sample_env) ! 2) = paraphrase_v3_stage3 (js ''B'') \<and>
   2 < length (snd (onRequestPost_part_000 sample_api (Parsed (JObj sample_body)) sample_env)) \<and>
   prompt (snd (onRequestPost_part_000 sample_api (Parsed (JObj sample_body)) sample_env) ! 2) = part_000_stage3 (js ''B'') \<and>
   2 < length (snd (onRequestPost_part_001 sample_api (Parsed (JObj sample_body)) sample_env)) \<and>
   prompt (snd (onRequestPost_part_001 sample_api (Parsed (JObj sample_body)) sample_env) ! 2) = part_001_stage3 (js ''B'')"
  using C3_selection_within_candidates [of "[]" sample_api "Parsed (JObj sample_body)" sample_env]
  by (simp add: sample_onRequestPost_length sample_onRequestPost_v3_length
      sample_onRequestPost_part_000_length sample_onRequestPost_part_001_length
      sample_variations sample_variations_raw sample_index sample_index_raw)

text \<open>
  C10. In the first handler of \<^verbatim>\<open>paraphrase.js\<close>, in \<^verbatim>\<open>part_000\<close> and in \<^verbatim>\<open>part_001\<close>: when the
  stage-2 call returns and its trimmed reply is none of "1", "2" and "3", the index is 0, the
  pipeline goes on to stage 3, and the stage-3 prompt holds the first candidate.
\<close>

theorem C10_fallback_to_first_candidate:
  "(1 < length (snd (onRequestPost api request env)) \<and> succeeds (api 1) \<and>
    trim (returned (api 1)) \<notin> set [js ''1'', js ''2'', js ''3''] \<longrightarrow>
      index_of (returned (api 1)) = 0 \<and>
      2 < length (snd (onRequestPost api request env)) \<and>
      prompt (snd (onRequestPost api request env) ! 2) = paraphrase_stage3 (variations_of (returned (api 0)) ! 0)) \<and>
   (1 < length (snd (onRequestPost_part_000 api request env)) \<and> succeeds (api 1) \<and>
    trim (returned (api 1)) \<notin> set [js ''1'', js ''2'', js ''3''] \<longrightarrow>
      index_of (returned (api 1)) = 0 \<and>
      2 < length (snd (onRequestPost_part_000 api request env)) \<and>
      prompt (snd (onRequestPost_part_000 api request env) ! 2) = part_000_stage3 (variations_of (returned (api 0)) ! 0)) \<and>
   (1 < length (snd (onRequestPost_part_001 api request env)) \<and> succeeds (api 1) \<and>
    trim (returned (api 1)) \<notin> set [js ''1'', js ''2'', js ''3''] \<longrightarrow>
      index_of (returned (api 1)) = 0 \<and>
      2 < length (snd (onRequestPost_part_001 api request env)) \<and>
      prompt (snd (onRequestPost_part_001 api request env) ! 2) = part_001_stage3 (variations_of (returned (api 0)) ! 0))"
proof -
  have "index_of s = 0" if "trim s \<notin> set [js ''1'', js ''2'', js ''3'']" for s
    using that by (simp add: index_of_def Let_def)
  then show ?thesis
    using onRequestPost_third [of api request env] onRequestPost_continues [of api request env]
      onRequestPost_part_000_third [of api request env]
      onRequestPost_part_000_continues [of api request env]
      onRequestPost_part_001_third [of api request env]
      onRequestPost_part_001_continues [of api request env]
    by simp
qed

lemma undecided_succeeds: "n < 6 \<Longrightarrow> succeeds (undecided_api n)"
  by (simp add: sample_evals nth_Cons split: nat.split)

lemma undecided_variations:
  "variations_of (returned (undecided_api 0)) = [js ''A'', js ''B'', js ''C'']"
  by (simp add: sample_evals)

lemma undecided_reply: "trim (returned (undecided_api 1)) \<notin> set [js ''1'', js ''2'', js ''3'']"
  by (simp add: sample_evals)

text \<open>An instance of C10: the stage-2 reply \<^verbatim>\<open>the second\<close> selects the first candidate.\<close>

theorem C10_witness:
  "2 < length (snd (onRequestPost undecided_api (Parsed (JObj sample_body)) sample_env)) \<and>
   prompt (snd (onRequestPost undecided_api (Parsed (JObj sample_body)) sample_env) ! 2) = paraphrase_stage3 (js ''A'') \<and>
   2 < length (snd (onRequestPost_part_000 undecided_api (Parsed (JObj sample_body)) sample_env)) \<and>
   prompt (snd (onRequestPost_part_000 undecided_api (Parsed (JObj sample_body)) sample_env) ! 2) = part_000_stage3 (js ''A'') \<and>
   2 < length (snd (onRequestPost_part_001 undecided_api (Parsed (JObj sample_body)) sample_env)) \<and>
   prompt (snd (onRequestPost_part_001 undecided_api (Parsed (JObj sample_body)) sample_env) ! 2) = part_001_stage3 (js ''A'')"
proof -
  have "length (snd (onRequestPost undecided_api (Parsed (JObj sample_body)) sample_env)) = 5"
    "length (snd (onRequestPost_part_000 undecided_api (Parsed (JObj sample_body)) sample_env)) = 4"
    "length (snd (onRequestPost_part_001 undecided_api (Parsed (JObj sample_body)) sample_env)) = 6"
    by (simp_all add: sample_onRequestPost_run sample_onRequestPost_part_000_run
        sample_onRequestPost_part_001_run undecided_succeeds undecided_variations
        paraphrase_requests_def part_000_requests_def part_001_requests_def Let_def)
  then show ?thesis
    using C10_fallback_to_first_candidate [of undecided_api "Parsed (JObj sample_body)" sample_env]
      undecided_succeeds [of 1] undecided_reply
    by (simp add: undecided_variations)
qed

text \<open>
  C6. No call is retried. Each \<^verbatim>\<open>callGemini\<close> issues exactly one request; a handler issues at most
  as many requests as it has stages; and a call that fails is the last one: the handler answers
  500 without another request. A call fails, for \<^verbatim>\<open>callGemini\<close> with full error handling, on a
  network error, a non-OK status, a body that is not JSON or an empty text; for the second
  handler of \<^verbatim>\<open>paraphrase.js\<close> on all of these but the empty string; for the third on a network
  error, a non-OK status, a body that is not JSON or a \<^verbatim>\<open>null\<close> document.
\<close>

theorem C6_no_retry:
  "length (snd (callGemini api e p sent)) = Suc (length sent) \<and>
   length (snd (paraphrase_v2_callGemini api e p sent)) = Suc (length sent) \<and>
   length (snd (paraphrase_v3_callGemini api e p sent)) = Suc (length sent) \<and>
   length (snd (onRequestPost api request env)) \<le> 5 \<and>
   (\<forall>n. n < length (snd (onRequestPost api request env)) \<and> \<not> succeeds (api n) \<longrightarrow>
      length (snd (onRequestPost api request env)) = Suc n \<and> status (fst (onRequestPost api request env)) = 500) \<and>
   length (snd (onRequestPost_v2 api request env)) \<le> 4 \<and>
   (\<forall>n. n < length (snd (onRequestPost_v2 api request env)) \<and> \<not> replied (api n) \<longrightarrow>
      length (snd (onRequestPost_v2 api request env)) = Suc n \<and> status (fst (onRequestPost_v2 api request env)) = 500) \<and>
   length (snd (onRequestPost_v3 api request env)) \<le> 4 \<and>
   (\<forall>n. n < length (snd (onRequestPost_v3 api request env)) \<and> \<not> delivers (api n) \<longrightarrow>
      length (snd (onRequestPost_v3 api request env)) = Suc n \<and> status (fst (onRequestPost_v3 api request env)) = 500) \<and>
   length (snd (onRequestPost_part_000 api request env)) \<le> 4 \<and>
   (\<forall>n. n < length (snd (onRequestPost_part_000 api request env)) \<and> \<not> succeeds (api n) \<longrightarrow>
      length (snd (onRequestPost_part_000 api request env)) = Suc n \<and> status (fst (onRequestPost_part_000 api request env)) = 500) \<and>
   length (snd (onRequestPost_part_001 api request env)) \<le> 6 \<and>
   (\<forall>n. n < length (snd (onRequestPost_part_001 api request env)) \<and> \<not> succeeds (api n) \<longrightarrow>
      length (snd (onRequestPost_part_001 api request env)) = Suc n \<and> status (fst (onRequestPost_part_001 api request env)) = 500)"
proof -
  have "length (snd (callGemini api e p sent)) = Suc (length sent)"
    by (simp add: callGemini_answer)
  moreover have "length (snd (paraphrase_v2_callGemini api e p sent)) = Suc (length sent)"
    using await_v2_callGemini [of api e p resolve sent]
    by (simp add: await_def resolve_def split: prod.splits sum.splits if_splits)
  moreover have "length (snd (paraphrase_v3_callGemini api e p sent)) = Suc (length sent)"
    using await_v3_callGemini [of api e p resolve sent]
    by (simp add: await_def resolve_def split: prod.splits sum.splits if_splits)
  moreover have "length (snd (onRequestPost api request env)) = Suc n \<and>
      status (fst (onRequestPost api request env)) = 500"
    if "n < length (snd (onRequestPost api request env))" and "\<not> succeeds (api n)" for n
    using onRequestPost_abort [OF that] by (auto simp add: status_failed status_internal_error)
  moreover have "length (snd (onRequestPost_v2 api request env)) = Suc n \<and>
      status (fst (onRequestPost_v2 api request env)) = 500"
    if "n < length (snd (onRequestPost_v2 api request env))" and "\<not> replied (api n)" for n
    using onRequestPost_v2_abort [OF that] by (auto simp add: status_failed status_internal_error)
  moreover have "length (snd (onRequestPost_v3 api request env)) = Suc n \<and>
      status (fst (onRequestPost_v3 api request env)) = 500"
    if "n < length (snd (onRequestPost_v3 api request env))" and "\<not> delivers (api n)" for n
    using onRequestPost_v3_abort [OF that] by (auto simp add: status_failed status_internal_error)
  moreover have "length (snd (onRequestPost_part_000 api request env)) = Suc n \<and>
      status (fst (onRequestPost_part_000 api request env)) = 500"
    if "n < length (snd (onRequestPost_part_000 api request env))" and "\<not> succeeds (api n)" for n
    using onRequestPost_part_000_abort [OF that] by (auto simp add: status_failed status_internal_error)
  moreover have "length (snd (onRequestPost_part_001 api request env)) = Suc n \<and>
      status (fst (onRequestPost_part_001 api request env)) = 500"
    if "n < length (snd (onRequestPost_part_001 api request env))" and "\<not> succeeds (api n)" for n
    using onRequestPost_part_001_abort [OF that] by (auto simp add: status_failed status_internal_error)
  ultimately show ?thesis
    using onRequestPost_bound [of api request env] onRequestPost_v2_bound [of api request env]
      onRequestPost_v3_bound [of api request env] onRequestPost_part_000_bound [of api request env]
      onRequestPost_part_001_bound [of api request env]
    by blast
qed

lemma sample_onRequestPost_v2_calls:
  "snd (onRequestPost_v2 api (Parsed (JObj sample_body)) sample_env) \<noteq> []"
  using onRequestPost_v2_valid [of sample_body "map_of sample_body (js ''tone'')" sample_env "js ''k''" api]
    sample_valid paraphrase_v2_length [of api]
  by (simp add: snd_finish js_def)

text \<open>An instance of C6: when the network is down, one request is issued and the answer is 500.\<close>

theorem C6_witness:
  "length (snd (onRequestPost (scripted []) (Parsed (JObj sample_body)) sample_env)) = 1 \<and>
   status (fst (onRequestPost (scripted []) (Parsed (JObj sample_body)) sample_env)) = 500 \<and>
   length (snd (onRequestPost_v2 (scripted []) (Parsed (JObj sample_body)) sample_env)) = 1 \<and>
   status (fst (onRequestPost_v2 (scripted []) (Parsed (JObj sample_body)) sample_env)) = 500 \<and>
   length (snd (onRequestPost_v3 (scripted []) (Parsed (JObj sample_body)) sample_env)) = 1 \<and>
   status (fst (onRequestPost_v3 (scripted []) (Parsed (JObj sample_body)) sample_env)) = 500 \<and>
   length (snd (onRequestPost_part_000 (scripted []) (Parsed (JObj sample_body)) sample_env)) = 1 \<and>
   status (fst (onRequestPost_part_000 (scripted []) (Parsed (JObj sample_body)) sample_env)) = 500 \<and>
   length (snd (onRequestPost_part_001 (scripted []) (Parsed (JObj sample_body)) sample_env)) = 1 \<and>
   status (fst (onRequestPost_part_001 (scripted []) (Parsed (JObj sample_body)) sample_env)) = 500"
proof -
  have down: "\<not> succeeds (scripted [] 0)" "\<not> replied (scripted [] 0)" "\<not> delivers (scripted [] 0)"
    by (simp_all add: scripted_def succeeds_def)
  have "0 < length (snd (onRequestPost (scripted []) (Parsed (JObj sample_body)) sample_env))"
    "0 < length (snd (onRequestPost_v2 (scripted []) (Parsed (JObj sample_body)) sample_env))"
    "0 < length (snd (onRequestPost_v3 (scripted []) (Parsed (JObj sample_body)) sample_env))"
    "0 < length (snd (onRequestPost_part_000 (scripted []) (Parsed (JObj sample_body)) sample_env))"
    "0 < length (snd (onRequestPost_part_001 (scripted []) (Parsed (JObj sample_body)) sample_env))"
    using sample_onRequestPost_calls [of "scripted []"] sample_onRequestPost_v2_calls [of "scripted []"]
      sample_onRequestPost_v3_calls [of "scripted []"] sample_onRequestPost_part_000_calls [of "scripted []"]
      sample_onRequestPost_part_001_calls [of "scripted []"]
    by simp_all
  then show ?thesis
    unfolding One_nat_def
    using C6_no_retry [of "scripted []" "[]" "[]" "[]" "Parsed (JObj sample_body)" sample_env] down
    by blast
qed

section \<open>The corrected claims\<close>

lemma sample_accepted: "accepted sample_body sample_env"
  unfolding accepted_def by (intro conjI sample_valid) (simp_all add: js_def)

lemma sample_fields:
  "the (GEMINI_API_KEY sample_env) = js ''k''"
  "the_string (map_of sample_body (js ''text'')) = js ''Hello world''"
  "the_string (map_of sample_body (js ''tone'')) = js ''simple''"
  by (simp_all add: js_def)

lemma sample_later:
  "returned (sample_api 2) = js ''refined''" "returned (sample_api 3) = js ''toned''"
  "returned (sample_api 4) = js ''five''" "returned (sample_api 5) = js ''six''"
  "raw_text (sample_api 2) = js ''refined''" "raw_text (sample_api 3) = js ''toned''"
  by (simp_all add: sample_evals)

lemmas numbered_evals = paraphrase_v2_variations_def paraphrase_v2_lines_def
  paraphrase_v2_selectedNum_def numbered_def startsWith_def parseInt_def parse_unsigned_def
  parse_digits_def trimStart_def digit_value_def

lemma numbered_replied: "n < 4 \<Longrightarrow> replied (numbered_api n)"
  by (simp add: sample_evals nth_Cons split: nat.split)

lemma numbered_variations: "paraphrase_v2_variations numbered_api = [js ''A'', js ''B'', js ''C'']"
  by (simp add: numbered_evals sample_evals)

lemma numbered_selectedNum: "paraphrase_v2_selectedNum numbered_api = Some 2"
  by (simp add: numbered_evals sample_evals)

lemma numbered_later:
  "returned (numbered_api 2) = js ''refined''" "returned (numbered_api 3) = js ''toned''"
  by (simp_all add: sample_evals)

lemma numbered_parses:
  "\<forall>n<4. replied (numbered_api n)"
  "[] \<notin> set (paraphrase_v2_variations numbered_api)"
  "paraphrase_v2_selectedNum numbered_api \<in> {Some 1, Some 2, Some 3}"
  unfolding numbered_variations numbered_selectedNum
  using numbered_replied by (simp_all add: js_def)

lemma sample_parses:
  "\<forall>n<4. succeeds (sample_api n)" "\<forall>n<5. succeeds (sample_api n)"
  "\<forall>n<6. succeeds (sample_api n)" "\<forall>n<4. delivers (sample_api n)"
  "3 \<le> length (variations_of (returned (sample_api 0)))"
  "3 \<le> length (variations_of (raw_text (sample_api 0)))"
  unfolding sample_variations sample_variations_raw
  using sample_succeeds sample_delivers by simp_all

lemma sample_onRequestPost_v2:
  "onRequestPost_v2 numbered_api (Parsed (JObj sample_body)) sample_env =
     (result (js ''toned''),
      paraphrase_v2_requests numbered_api (js ''k'') (js ''Hello world'') (js ''simple''))"
  using onRequestPost_v2_complete [OF sample_accepted numbered_parses]
  unfolding sample_fields numbered_later .

lemma padded_succeeds: "n < 4 \<Longrightarrow> succeeds (padded_api n)"
  by (simp add: sample_evals nth_Cons split: nat.split)

lemma padded_variations: "variations_of (returned (padded_api 0)) = [js ''A'', js ''B'', js ''C'']"
  by (simp add: sample_evals)

lemma padded_last:
  "raw_text (padded_api 3) = js '' toned ''" "returned (padded_api 3) = js ''toned''"
  by (simp_all add: sample_evals)

lemma padded_onRequestPost_part_000:
  "fst (onRequestPost_part_000 padded_api (Parsed (JObj sample_body)) sample_env) =
     result (js ''toned'')"
proof -
  have "\<forall>n<4. succeeds (padded_api n)"
    using padded_succeeds by simp
  moreover have "3 \<le> length (variations_of (returned (padded_api 0)))"
    unfolding padded_variations by simp
  ultimately show ?thesis
    using onRequestPost_part_000_complete [OF sample_accepted, of padded_api]
    unfolding padded_last by simp
qed

lemma result_inject: "result a = result b \<longleftrightarrow> a = b"
  by (simp add: result_def json_def)

text \<open>
  C1 as stated fails, in both of its parts. The number of calls depends on the replies: in
  \<^verbatim>\<open>part_000\<close>, with a body that passes validation and a first call that succeeds with the reply
  \<^verbatim>\<open>abc\<close>, the handler issues one request and answers 500; with the sample replies it issues
  four. And the body does not carry exactly the text of the last reply: when all four calls of
  \<^verbatim>\<open>part_000\<close> succeed and the last reply has the text \<^verbatim>\<open> toned \<close>, with a blank on each side,
  the response carries \<^verbatim>\<open>toned\<close>; when the SDK call of \<^verbatim>\<open>server.js\<close> gives \<^verbatim>\<open> Hi, world \<close>, the
  response carries \<^verbatim>\<open>Hi, world\<close>.
\<close>

theorem C1_counterexample:
  "accepted sample_body sample_env \<and>
   succeeds (scripted [Reply 200 (Text (js ''abc''))] 0) \<and>
   length (snd (onRequestPost_part_000 (scripted [Reply 200 (Text (js ''abc''))])
     (Parsed (JObj sample_body)) sample_env)) = 1 \<and>
   status (fst (onRequestPost_part_000 (scripted [Reply 200 (Text (js ''abc''))])
     (Parsed (JObj sample_body)) sample_env)) = 500 \<and>
   length (snd (onRequestPost_part_000 sample_api (Parsed (JObj sample_body)) sample_env)) = 4 \<and>
   raw_text (padded_api 3) = js '' toned '' \<and>
   fst (onRequestPost_part_000 padded_api (Parsed (JObj sample_body)) sample_env) =
     result (js ''toned'') \<and>
   fst (onRequestPost_part_000 padded_api (Parsed (JObj sample_body)) sample_env) \<noteq>
     result (raw_text (padded_api 3)) \<and>
   scripted_sdk [GenerateText (js '' Hi, world '')] 0 = GenerateText (js '' Hi, world '') \<and>
   fst (paraphrase_handler (scripted_sdk [GenerateText (js '' Hi, world '')])
     (Some (JObj sample_body))) = res_json 200 (JObj [(js ''paraphrased'', JStr (js ''Hi, world''))]) \<and>
   fst (paraphrase_handler (scripted_sdk [GenerateText (js '' Hi, world '')])
     (Some (JObj sample_body))) \<noteq> res_json 200 (JObj [(js ''paraphrased'', JStr (js '' Hi, world ''))])"
proof -
  have ok: "succeeds (scripted [Reply 200 (Text (js ''abc''))] 0)"
    and few: "length (variations_of (returned (scripted [Reply 200 (Text (js ''abc''))] 0))) < 3"
    by (simp_all add: sample_evals)
  have calls: "snd (onRequestPost_part_000 (scripted [Reply 200 (Text (js ''abc''))])
      (Parsed (JObj sample_body)) sample_env) \<noteq> []"
    by (rule sample_onRequestPost_part_000_calls)
  have first: "accepted sample_body sample_env \<and>
      succeeds (scripted [Reply 200 (Text (js ''abc''))] 0) \<and>
      length (snd (onRequestPost_part_000 (scripted [Reply 200 (Text (js ''abc''))])
        (Parsed (JObj sample_body)) sample_env)) = 1 \<and>
      status (fst (onRequestPost_part_000 (scripted [Reply 200 (Text (js ''abc''))])
        (Parsed (JObj sample_body)) sample_env)) = 500 \<and>
      length (snd (onRequestPost_part_000 sample_api (Parsed (JObj sample_body)) sample_env)) = 4"
    using onRequestPost_part_000_few [of "scripted [Reply 200 (Text (js ''abc''))]"
        "Parsed (JObj sample_body)" sample_env]
      calls ok few sample_accepted sample_onRequestPost_part_000_length
    by (simp add: status_failed)
  have pages: "fst (onRequestPost_part_000 padded_api (Parsed (JObj sample_body)) sample_env) \<noteq>
      result (raw_text (padded_api 3))"
    unfolding padded_onRequestPost_part_000 padded_last result_inject by (simp add: js_def)
  have g: "scripted_sdk [GenerateText (js '' Hi, world '')] 0 = GenerateText (js '' Hi, world '')"
    by (simp add: scripted_sdk_def)
  have v: "validateInput (map_of sample_body (js ''text'')) = None"
    by (simp add: validateInput_def trim_def is_whitespace_def js_def)
  have t: "trim (js '' Hi, world '') = js ''Hi, world''"
    by (simp add: trim_def is_whitespace_def js_def)
  have server: "fst (paraphrase_handler (scripted_sdk [GenerateText (js '' Hi, world '')])
      (Some (JObj sample_body))) = res_json 200 (JObj [(js ''paraphrased'', JStr (js ''Hi, world''))])"
    using v g by (simp add: paraphrase_handler_def Let_def t)
  have differs: "res_json 200 (JObj [(js ''paraphrased'', JStr (js ''Hi, world''))]) \<noteq>
      res_json 200 (JObj [(js ''paraphrased'', JStr (js '' Hi, world ''))])"
    by (simp add: res_json_def js_def)
  show ?thesis
    using first padded_last(1) padded_onRequestPost_part_000 pages g server differs
    by (intro conjI) simp_all
qed

text \<open>
  C1, amended. For a request that the handler accepts, when every call succeeds and the replies
  parse, the handler issues exactly as many requests as it has stages (5, 4, 4, 4 and 6 for the
  Pages handlers, 1 for \<^verbatim>\<open>server.js\<close>) and answers 200 with the text of the last reply, trimmed:
  leading and trailing whitespace removed. The third handler of \<^verbatim>\<open>paraphrase.js\<close> alone does not
  trim and answers with the text of the last reply as it is. The replies parse when the
  stage-1 reply gives at least three candidates and, in the second handler of
  \<^verbatim>\<open>paraphrase.js\<close>, three numbered lines and a selection that reads 1, 2 or 3. \<^verbatim>\<open>server.js\<close>
  accepts a text of at least ten characters after trimming.
\<close>

theorem C1_fixed_calls_and_final_text:
  "(accepted kvs env \<and> (\<forall>n<5. succeeds (api n)) \<and>
    3 \<le> length (variations_of (returned (api 0))) \<longrightarrow>
      length (snd (onRequestPost api (Parsed (JObj kvs)) env)) = 5 \<and>
      fst (onRequestPost api (Parsed (JObj kvs)) env) = result (trim (raw_text (api 4)))) \<and>
   (accepted kvs env \<and> (\<forall>n<4. replied (api n)) \<and> [] \<notin> set (paraphrase_v2_variations api) \<and>
    paraphrase_v2_selectedNum api \<in> {Some 1, Some 2, Some 3} \<longrightarrow>
      length (snd (onRequestPost_v2 api (Parsed (JObj kvs)) env)) = 4 \<and>
      fst (onRequestPost_v2 api (Parsed (JObj kvs)) env) = result (trim (raw_text (api 3)))) \<and>
   (accepted kvs env \<and> (\<forall>n<4. delivers (api n)) \<and>
    3 \<le> length (variations_of (raw_text (api 0))) \<longrightarrow>
      length (snd (onRequestPost_v3 api (Parsed (JObj kvs)) env)) = 4 \<and>
      fst (onRequestPost_v3 api (Parsed (JObj kvs)) env) = result (raw_text (api 3))) \<and>
   (accepted kvs env \<and> (\<forall>n<4. succeeds (api n)) \<and>
    3 \<le> length (variations_of (returned (api 0))) \<longrightarrow>
      length (snd (onRequestPost_part_000 api (Parsed (JObj kvs)) env)) = 4 \<and>
      fst (onRequestPost_part_000 api (Parsed (JObj kvs)) env) = result (trim (raw_text (api 3)))) \<and>
   (accepted kvs env \<and> (\<forall>n<6. succeeds (api n)) \<and>
    3 \<le> length (variations_of (returned (api 0))) \<longrightarrow>
      length (snd (onRequestPost_part_001 api (Parsed (JObj kvs)) env)) = 6 \<and>
      fst (onRequestPost_part_001 api (Parsed (JObj kvs)) env) = result (trim (raw_text (api 5)))) \<and>
   (validateInput (map_of kvs (js ''text'')) = None \<and> sdk 0 = GenerateText t \<longrightarrow>
      paraphrase_handler sdk (Some (JObj kvs)) =
        (res_json 200 (JObj [(js ''paraphrased'', JStr (trim t))]),
         [server_prompt (trim (the_string (map_of kvs (js ''text''))))]))"
proof -
  have "paraphrase_handler sdk (Some (JObj kvs)) =
      (res_json 200 (JObj [(js ''paraphrased'', JStr (trim t))]),
       [server_prompt (trim (the_string (map_of kvs (js ''text''))))])"
    if "validateInput (map_of kvs (js ''text'')) = None" and "sdk 0 = GenerateText t"
    using that by (simp add: paraphrase_handler_def Let_def)
  then show ?thesis
    using onRequestPost_complete [of kvs env api] onRequestPost_v2_complete [of kvs env api]
      onRequestPost_v3_complete [of kvs env api] onRequestPost_part_000_complete [of kvs env api]
      onRequestPost_part_001_complete [of kvs env api]
    by (simp add: paraphrase_requests_def paraphrase_v2_requests_def paraphrase_v3_requests_def
        part_000_requests_def part_001_requests_def Let_def returned_def)
qed

text \<open>
  An instance of the amended C1, on the sample request and replies; the SDK text of
  \<^verbatim>\<open>server.js\<close> has a blank on each side.
\<close>

theorem C1_witness:
  "length (snd (onRequestPost sample_api (Parsed (JObj sample_body)) sample_env)) = 5 \<and>
   fst (onRequestPost sample_api (Parsed (JObj sample_body)) sample_env) = result (js ''five'') \<and>
   length (snd (onRequestPost_v2 numbered_api (Parsed (JObj sample_body)) sample_env)) = 4 \<and>
   fst (onRequestPost_v2 numbered_api (Parsed (JObj sample_body)) sample_env) = result (js ''toned'') \<and>
   length (snd (onRequestPost_v3 sample_api (Parsed (JObj sample_body)) sample_env)) = 4 \<and>
   fst (onRequestPost_v3 sample_api (Parsed (JObj sample_body)) sample_env) = result (js ''toned'') \<and>
   length (snd (onRequestPost_part_000 sample_api (Parsed (JObj sample_body)) sample_env)) = 4 \<and>
   fst (onRequestPost_part_000 sample_api (Parsed (JObj sample_body)) sample_env) = result (js ''toned'') \<and>
   length (snd (onRequestPost_part_001 sample_api (Parsed (JObj sample_body)) sample_env)) = 6 \<and>
   fst (onRequestPost_part_001 sample_api (Parsed (JObj sample_body)) sample_env) = result (js ''six'') \<and>
   paraphrase_handler (scripted_sdk [GenerateText (js '' Hi, world '')]) (Some (JObj sample_body)) =
     (res_json 200 (JObj [(js ''paraphrased'', JStr (js ''Hi, world''))]),
      [server_prompt (js ''Hello world'')])"
proof -
  have v: "validateInput (map_of sample_body (js ''text'')) = None"
    and g: "scripted_sdk [GenerateText (js '' Hi, world '')] 0 = GenerateText (js '' Hi, world '')"
    by (simp_all add: validateInput_def scripted_sdk_def trim_def is_whitespace_def js_def)
  have t: "trim (js '' Hi, world '') = js ''Hi, world''" "trim (js ''Hello world'') = js ''Hello world''"
    by (simp_all add: trim_def is_whitespace_def js_def)
  note a = C1_fixed_calls_and_final_text [of sample_body sample_env sample_api
      "scripted_sdk [GenerateText (js '' Hi, world '')]" "js '' Hi, world ''", folded returned_def]
  note b = C1_fixed_calls_and_final_text [of sample_body sample_env numbered_api
      "scripted_sdk [GenerateText (js '' Hi, world '')]" "js '' Hi, world ''", folded returned_def]
  show ?thesis
    using a b v g sample_accepted sample_parses numbered_parses
    unfolding sample_later numbered_later t sample_fields
    by blast
qed

lemma chain_facts:
  assumes "chained text candidates selected out (map prompt rs)" and "3 < length rs"
  shows "sublist text (prompt (rs ! 0)) \<and> sublist (candidates ! 0) (prompt (rs ! 1)) \<and>
     sublist selected (prompt (rs ! 2)) \<and> sublist (out 2) (prompt (rs ! 3))"
proof -
  obtain a b c d rest where rs: "rs = a # b # c # d # rest"
    using assms(2) by (cases rs; cases "tl rs"; cases "tl (tl rs)"; cases "tl (tl (tl rs))") auto
  show ?thesis
    using assms(1) unfolding rs chained_def by simp
qed

lemma sample_first_two:
  "returned (sample_api 0) = js ''A ||| B ||| C''" "returned (sample_api 1) = js ''2''"
  by (simp_all add: sample_evals)

text \<open>
  C2 as stated fails. In the sample run of \<^verbatim>\<open>part_000\<close> the stage-1 call returns \<^verbatim>\<open>A ||| B ||| C\<close>
  and the stage-2 call returns \<^verbatim>\<open>2\<close>; the stage-2 prompt does not hold the stage-1 output (it
  holds the three candidates cut out of it), and the stage-3 prompt does not hold the stage-2
  output (it holds the candidate that the output selects).
\<close>

theorem C2_counterexample:
  "status (fst (onRequestPost_part_000 sample_api (Parsed (JObj sample_body)) sample_env)) = 200 \<and>
   returned (sample_api 0) = js ''A ||| B ||| C'' \<and>
   \<not> sublist (returned (sample_api 0))
      (prompt (snd (onRequestPost_part_000 sample_api (Parsed (JObj sample_body)) sample_env) ! 1)) \<and>
   returned (sample_api 1) = js ''2'' \<and>
   \<not> sublist (returned (sample_api 1))
      (prompt (snd (onRequestPost_part_000 sample_api (Parsed (JObj sample_body)) sample_env) ! 2))"
proof -
  have p1: "prompt (snd (onRequestPost_part_000 sample_api (Parsed (JObj sample_body)) sample_env) ! 1) =
      part_000_stage2 [js ''A'', js ''B'', js ''C'']"
    by (simp add: sample_onRequestPost_part_000 part_000_requests_def Let_def sample_variations)
  have p2: "prompt (snd (onRequestPost_part_000 sample_api (Parsed (JObj sample_body)) sample_env) ! 2) =
      part_000_stage3 (js ''B'')"
    by (simp add: sample_onRequestPost_part_000 part_000_requests_def Let_def sample_variations
        sample_index)
  have "(0x7C :: 16 word) \<in> set (js ''A ||| B ||| C'')"
    by (simp add: js_def)
  moreover have "(0x7C :: 16 word) \<notin> set (part_000_stage2 [js ''A'', js ''B'', js ''C''])"
    by (simp add: part_000_stage2_def js_def)
  ultimately have n1: "\<not> sublist (js ''A ||| B ||| C'') (part_000_stage2 [js ''A'', js ''B'', js ''C''])"
    using set_mono_sublist by blast
  have "(0x32 :: 16 word) \<in> set (js ''2'')"
    by (simp add: js_def)
  moreover have "(0x32 :: 16 word) \<notin> set (part_000_stage3 (js ''B''))"
    by (simp add: part_000_stage3_def js_def)
  ultimately have n2: "\<not> sublist (js ''2'') (part_000_stage3 (js ''B''))"
    using set_mono_sublist by blast
  have "status (fst (onRequestPost_part_000 sample_api (Parsed (JObj sample_body)) sample_env)) = 200"
    by (simp add: sample_onRequestPost_part_000 status_result)
  then show ?thesis
    unfolding p1 p2 sample_first_two using n1 n2 by simp
qed

text \<open>
  C2, amended. In every multi-stage handler the prompts of a run form this chain: the first
  prompt holds the input text; the second holds the first three candidates parsed from the
  stage-1 output; the third holds the selected candidate, which is one of them; and every later
  prompt holds the text that the call before it returned. The calls are issued one after the
  other: each prompt is built from the results of the calls before it.
\<close>

theorem C2_prompts_are_chained:
  "(accepted kvs env \<longrightarrow>
      chained (the_string (map_of kvs (js ''text''))) (variations_of (returned (api 0)))
        (variations_of (returned (api 0)) ! index_of (returned (api 1)))
        (\<lambda>n. returned (api n)) (map prompt (snd (onRequestPost api (Parsed (JObj kvs)) env)))) \<and>
   (accepted kvs env \<longrightarrow>
      chained (the_string (map_of kvs (js ''text''))) (paraphrase_v2_variations api)
        (paraphrase_v2_variations api ! (nat (the (paraphrase_v2_selectedNum api)) - 1))
        (\<lambda>n. returned (api n)) (map prompt (snd (onRequestPost_v2 api (Parsed (JObj kvs)) env)))) \<and>
   (accepted kvs env \<longrightarrow>
      chained (the_string (map_of kvs (js ''text''))) (variations_of (raw_text (api 0)))
        (variations_of (raw_text (api 0)) ! index_of (raw_text (api 1)))
        (\<lambda>n. raw_text (api n)) (map prompt (snd (onRequestPost_v3 api (Parsed (JObj kvs)) env)))) \<and>
   (accepted kvs env \<longrightarrow>
      chained (the_string (map_of kvs (js ''text''))) (variations_of (returned (api 0)))
        (variations_of (returned (api 0)) ! index_of (returned (api 1)))
        (\<lambda>n. returned (api n)) (map prompt (snd (onRequestPost_part_000 api (Parsed (JObj kvs)) env)))) \<and>
   (accepted kvs env \<longrightarrow>
      chained (the_string (map_of kvs (js ''text''))) (variations_of (returned (api 0)))
        (variations_of (returned (api 0)) ! index_of (returned (api 1)))
        (\<lambda>n. returned (api n)) (map prompt (snd (onRequestPost_part_001 api (Parsed (JObj kvs)) env))))"
proof -
  have "chained (the_string (map_of kvs (js ''text''))) (variations_of (returned (api 0)))
      (variations_of (returned (api 0)) ! index_of (returned (api 1)))
      (\<lambda>n. returned (api n)) (map prompt (snd (onRequestPost api (Parsed (JObj kvs)) env)))"
    if "accepted kvs env"
    unfolding onRequestPost_accepted [OF that] snd_finish by (rule paraphrase_chained)
  moreover
  have "chained (the_string (map_of kvs (js ''text''))) (paraphrase_v2_variations api)
      (paraphrase_v2_variations api ! (nat (the (paraphrase_v2_selectedNum api)) - 1))
      (\<lambda>n. returned (api n)) (map prompt (snd (onRequestPost_v2 api (Parsed (JObj kvs)) env)))"
    if "accepted kvs env"
    unfolding onRequestPost_v2_accepted [OF that] snd_finish by (rule paraphrase_v2_chained)
  moreover
  have "chained (the_string (map_of kvs (js ''text''))) (variations_of (raw_text (api 0)))
      (variations_of (raw_text (api 0)) ! index_of (raw_text (api 1)))
      (\<lambda>n. raw_text (api n)) (map prompt (snd (onRequestPost_v3 api (Parsed (JObj kvs)) env)))"
    if "accepted kvs env"
    unfolding onRequestPost_v3_accepted [OF that] snd_finish by (rule paraphrase_v3_chained)
  moreover
  have "chained (the_string (map_of kvs (js ''text''))) (variations_of (returned (api 0)))
      (variations_of (returned (api 0)) ! index_of (returned (api 1)))
      (\<lambda>n. returned (api n)) (map prompt (snd (onRequestPost_part_000 api (Parsed (JObj kvs)) env)))"
    if "accepted kvs env"
    unfolding onRequestPost_part_000_accepted [OF that] snd_finish by (rule part_000_chained)
  moreover
  have "chained (the_string (map_of kvs (js ''text''))) (variations_of (returned (api 0)))
      (variations_of (returned (api 0)) ! index_of (returned (api 1)))
      (\<lambda>n. returned (api n)) (map prompt (snd (onRequestPost_part_001 api (Parsed (JObj kvs)) env)))"
    if "accepted kvs env"
    unfolding onRequestPost_part_001_accepted [OF that] snd_finish by (rule part_001_chained)
  ultimately show ?thesis
    by blast
qed

text \<open>An instance of the amended C2: the first four prompts of the sample runs.\<close>

theorem C2_witness:
  "sublist (js ''Hello world'') (prompt (snd (onRequestPost sample_api (Parsed (JObj sample_body)) sample_env) ! 0)) \<and>
   sublist (js ''A'') (prompt (snd (onRequestPost sample_api (Parsed (JObj sample_body)) sample_env) ! 1)) \<and>
   sublist (js ''B'') (prompt (snd (onRequestPost sample_api (Parsed (JObj sample_body)) sample_env) ! 2)) \<and>
   sublist (js ''refined'') (prompt (snd (onRequestPost sample_api (Parsed (JObj sample_body)) sample_env) ! 3)) \<and>
   sublist (js ''Hello world'') (prompt (snd (onRequestPost_v2 numbered_api (Parsed (JObj sample_body)) sample_env) ! 0)) \<and>
   sublist (js ''A'') (prompt (snd (onRequestPost_v2 numbered_api (Parsed (JObj sample_body)) sample_env) ! 1)) \<and>
   sublist (js ''B'') (prompt (snd (onRequestPost_v2 numbered_api (Parsed (JObj sample_body)) sample_env) ! 2)) \<and>
   sublist (js ''refined'') (prompt (snd (onRequestPost_v2 numbered_api (Parsed (JObj sample_body)) sample_env) ! 3)) \<and>
   sublist (js ''Hello world'') (prompt (snd (onRequestPost_v3 sample_api (Parsed (JObj sample_body)) sample_env) ! 0)) \<and>
   sublist (js ''A'') (prompt (snd (onRequestPost_v3 sample_api (Parsed (JObj sample_body)) sample_env) ! 1)) \<and>
   sublist (js ''B'') (prompt (snd (onRequestPost_v3 sample_api (Parsed (JObj sample_body)) sample_env) ! 2)) \<and>
   sublist (js ''refined'') (prompt (snd (onRequestPost_v3 sample_api (Parsed (JObj sample_body)) sample_env) ! 3)) \<and>
   sublist (js ''Hello world'') (prompt (snd (onRequestPost_part_000 sample_api (Parsed (JObj sample_body)) sample_env) ! 0)) \<and>
   sublist (js ''A'') (prompt (snd (onRequestPost_part_000 sample_api (Parsed (JObj sample_body)) sample_env) ! 1)) \<and>
   sublist (js ''B'') (prompt (snd (onRequestPost_part_000 sample_api (Parsed (JObj sample_body)) sample_env) ! 2)) \<and>
   sublist (js ''refined'') (prompt (snd (onRequestPost_part_000 sample_api (Parsed (JObj sample_body)) sample_env) ! 3)) \<and>
   sublist (js ''Hello world'') (prompt (snd (onRequestPost_part_001 sample_api (Parsed (JObj sample_body)) sample_env) ! 0)) \<and>
   sublist (js ''A'') (prompt (snd (onRequestPost_part_001 sample_api (Parsed (JObj sample_body)) sample_env) ! 1)) \<and>
   sublist (js ''B'') (prompt (snd (onRequestPost_part_001 sample_api (Parsed (JObj sample_body)) sample_env) ! 2)) \<and>
   sublist (js ''refined'') (prompt (snd (onRequestPost_part_001 sample_api (Parsed (JObj sample_body)) sample_env) ! 3))"
proof -
  note c = C2_prompts_are_chained [of sample_body sample_env sample_api]
  note n = C2_prompts_are_chained [of sample_body sample_env numbered_api]
  have long: "3 < length (snd (onRequestPost sample_api (Parsed (JObj sample_body)) sample_env))"
    "3 < length (snd (onRequestPost_v2 numbered_api (Parsed (JObj sample_body)) sample_env))"
    "3 < length (snd (onRequestPost_v3 sample_api (Parsed (JObj sample_body)) sample_env))"
    "3 < length (snd (onRequestPost_part_000 sample_api (Parsed (JObj sample_body)) sample_env))"
    "3 < length (snd (onRequestPost_part_001 sample_api (Parsed (JObj sample_body)) sample_env))"
    by (simp_all add: sample_onRequestPost_length sample_onRequestPost_v3_length
        sample_onRequestPost_part_000_length sample_onRequestPost_part_001_length
        sample_onRequestPost_v2 paraphrase_v2_requests_def Let_def)
  have ch: "chained (the_string (map_of sample_body (js ''text''))) (variations_of (returned (sample_api 0)))
      (variations_of (returned (sample_api 0)) ! index_of (returned (sample_api 1)))
      (\<lambda>n. returned (sample_api n)) (map prompt (snd (onRequestPost sample_api (Parsed (JObj sample_body)) sample_env)))"
    "chained (the_string (map_of sample_body (js ''text''))) (paraphrase_v2_variations numbered_api)
      (paraphrase_v2_variations numbered_api ! (nat (the (paraphrase_v2_selectedNum numbered_api)) - 1))
      (\<lambda>n. returned (numbered_api n)) (map prompt (snd (onRequestPost_v2 numbered_api (Parsed (JObj sample_body)) sample_env)))"
    "chained (the_string (map_of sample_body (js ''text''))) (variations_of (raw_text (sample_api 0)))
      (variations_of (raw_text (sample_api 0)) ! index_of (raw_text (sample_api 1)))
      (\<lambda>n. raw_text (sample_api n)) (map prompt (snd (onRequestPost_v3 sample_api (Parsed (JObj sample_body)) sample_env)))"
    "chained (the_string (map_of sample_body (js ''text''))) (variations_of (returned (sample_api 0)))
      (variations_of (returned (sample_api 0)) ! index_of (returned (sample_api 1)))
      (\<lambda>n. returned (sample_api n)) (map prompt (snd (onRequestPost_part_000 sample_api (Parsed (JObj sample_body)) sample_env)))"
    "chained (the_string (map_of sample_body (js ''text''))) (variations_of (returned (sample_api 0)))
      (variations_of (returned (sample_api 0)) ! index_of (returned (sample_api 1)))
      (\<lambda>n. returned (sample_api n)) (map prompt (snd (onRequestPost_part_001 sample_api (Parsed (JObj sample_body)) sample_env)))"
    using c n sample_accepted by blast+
  show ?thesis
    using chain_facts [OF ch(1) long(1)] chain_facts [OF ch(2) long(2)]
      chain_facts [OF ch(3) long(3)] chain_facts [OF ch(4) long(4)]
      chain_facts [OF ch(5) long(5)]
    by (simp add: sample_variations sample_variations_raw sample_index sample_index_raw
        numbered_variations numbered_selectedNum sample_later numbered_later)
qed

lemma toneless:
  "map_of toneless_body (js ''tone'') = None" "valid_text (map_of toneless_body (js ''text''))"
  by (simp_all add: valid_text_def js_def)

lemma standard_body_accepted:
  "accepted ((js ''tone'', JStr (js ''standard'')) # toneless_body) sample_env"
  by (simp add: accepted_def valid_text_def valid_tone_def allowedTones_def js_def)

text \<open>
  C4 as stated fails for the second handler of \<^verbatim>\<open>paraphrase.js\<close>, which destructures
  \<^verbatim>\<open>{ text, tone }\<close> without a default: a body with a valid text and no tone is answered with
  400 and no call, while the same body with the tone "standard" runs the pipeline to a 200.
\<close>

theorem C4_counterexample:
  "map_of toneless_body (js ''tone'') = None \<and>
   valid_text (map_of toneless_body (js ''text'')) \<and>
   onRequestPost_v2 numbered_api (Parsed (JObj toneless_body)) sample_env =
     (error_response ''Invalid tone: must be one of standard, simple, professional, academic'' 400, []) \<and>
   status (fst (onRequestPost_v2 numbered_api
     (Parsed (JObj ((js ''tone'', JStr (js ''standard'')) # toneless_body))) sample_env)) = 200"
  using onRequestPost_v2_needs_tone [OF toneless(2,1), of numbered_api sample_env]
    onRequestPost_v2_complete [OF standard_body_accepted numbered_parses] toneless
  by (simp add: status_result)

text \<open>
  C4, amended. In the first and the third handler of \<^verbatim>\<open>paraphrase.js\<close>, in \<^verbatim>\<open>part_000\<close> and in
  \<^verbatim>\<open>part_001\<close> the tone is optional: a request without a tone gets the response, and issues the
  requests, of the same request with the tone "standard", and with a valid text it is not
  answered with 400. The second handler of \<^verbatim>\<open>paraphrase.js\<close> requires the tone: it answers a
  request with a valid text and no tone with 400 "Invalid tone" and issues no request. The
  handler of \<^verbatim>\<open>server.js\<close> does not read the tone.
\<close>

theorem C4_tone_is_optional:
  "(map_of kvs (js ''tone'') = None \<longrightarrow>
      onRequestPost api (Parsed (JObj kvs)) env =
      onRequestPost api (Parsed (JObj ((js ''tone'', JStr (js ''standard'')) # kvs))) env \<and>
      (valid_text (map_of kvs (js ''text'')) \<longrightarrow> status (fst (onRequestPost api (Parsed (JObj kvs)) env)) \<noteq> 400)) \<and>
   (map_of kvs (js ''tone'') = None \<longrightarrow>
      onRequestPost_v3 api (Parsed (JObj kvs)) env =
      onRequestPost_v3 api (Parsed (JObj ((js ''tone'', JStr (js ''standard'')) # kvs))) env \<and>
      (valid_text (map_of kvs (js ''text'')) \<longrightarrow> status (fst (onRequestPost_v3 api (Parsed (JObj kvs)) env)) \<noteq> 400)) \<and>
   (map_of kvs (js ''tone'') = None \<longrightarrow>
      onRequestPost_part_000 api (Parsed (JObj kvs)) env =
      onRequestPost_part_000 api (Parsed (JObj ((js ''tone'', JStr (js ''standard'')) # kvs))) env \<and>
      (valid_text (map_of kvs (js ''text'')) \<longrightarrow> status (fst (onRequestPost_part_000 api (Parsed (JObj kvs)) env)) \<noteq> 400)) \<and>
   (map_of kvs (js ''tone'') = None \<longrightarrow>
      onRequestPost_part_001 api (Parsed (JObj kvs)) env =
      onRequestPost_part_001 api (Parsed (JObj ((js ''tone'', JStr (js ''standard'')) # kvs))) env \<and>
      (valid_text (map_of kvs (js ''text'')) \<longrightarrow> status (fst (onRequestPost_part_001 api (Parsed (JObj kvs)) env)) \<noteq> 400)) \<and>
   (map_of kvs (js ''tone'') = None \<and> valid_text (map_of kvs (js ''text'')) \<longrightarrow>
      onRequestPost_v2 api (Parsed (JObj kvs)) env =
        (error_response ''Invalid tone: must be one of standard, simple, professional, academic'' 400, [])) \<and>
   paraphrase_handler sdk (Some (JObj ((js ''tone'', v) # kvs))) = paraphrase_handler sdk (Some (JObj kvs))"
proof -
  have server: "paraphrase_handler sdk (Some (JObj ((js ''tone'', v) # kvs))) =
      paraphrase_handler sdk (Some (JObj kvs))"
    by (simp add: paraphrase_handler_def text_is_not_tone)
  have standard: "valid_tone (Some (JStr (js ''standard'')))"
    by (simp add: valid_tone_def standard_allowed)
  have "status (fst (onRequestPost api (Parsed (JObj kvs)) env)) \<noteq> 400"
    if "map_of kvs (js ''tone'') = None" and "valid_text (map_of kvs (js ''text''))"
    using onRequestPost_not_rejected [OF that(2) _ standard, of api env] that(1) by simp
  moreover
  have "status (fst (onRequestPost_v3 api (Parsed (JObj kvs)) env)) \<noteq> 400"
    if "map_of kvs (js ''tone'') = None" and "valid_text (map_of kvs (js ''text''))"
    using onRequestPost_v3_not_rejected [OF that(2) _ standard, of api env] that(1) by simp
  moreover
  have "status (fst (onRequestPost_part_000 api (Parsed (JObj kvs)) env)) \<noteq> 400"
    if "map_of kvs (js ''tone'') = None" and "valid_text (map_of kvs (js ''text''))"
    using onRequestPost_part_000_not_rejected [OF that(2) _ standard, of api env] that(1) by simp
  moreover
  have "status (fst (onRequestPost_part_001 api (Parsed (JObj kvs)) env)) \<noteq> 400"
    if "map_of kvs (js ''tone'') = None" and "valid_text (map_of kvs (js ''text''))"
    using onRequestPost_part_001_not_rejected [OF that(2) _ standard, of api env] that(1) by simp
  moreover
  note onRequestPost_tone_default [of kvs api env] onRequestPost_v3_tone_default [of kvs api env]
    onRequestPost_part_000_tone_default [of kvs api env]
    onRequestPost_part_001_tone_default [of kvs api env]
    onRequestPost_v2_needs_tone [of kvs api env]
  ultimately show ?thesis
    using server by blast
qed

text \<open>An instance of the amended C4, on a body with a text and no tone.\<close>

theorem C4_witness:
  "onRequestPost sample_api (Parsed (JObj toneless_body)) sample_env =
     onRequestPost sample_api (Parsed (JObj ((js ''tone'', JStr (js ''standard'')) # toneless_body))) sample_env \<and>
   status (fst (onRequestPost sample_api (Parsed (JObj toneless_body)) sample_env)) \<noteq> 400 \<and>
   onRequestPost_v3 sample_api (Parsed (JObj toneless_body)) sample_env =
     onRequestPost_v3 sample_api (Parsed (JObj ((js ''tone'', JStr (js ''standard'')) # toneless_body))) sample_env \<and>
   status (fst (onRequestPost_v3 sample_api (Parsed (JObj toneless_body)) sample_env)) \<noteq> 400 \<and>
   onRequestPost_part_000 sample_api (Parsed (JObj toneless_body)) sample_env =
     onRequestPost_part_000 sample_api (Parsed (JObj ((js ''tone'', JStr (js ''standard'')) # toneless_body))) sample_env \<and>
   status (fst (onRequestPost_part_000 sample_api (Parsed (JObj toneless_body)) sample_env)) \<noteq> 400 \<and>
   onRequestPost_part_001 sample_api (Parsed (JObj toneless_body)) sample_env =
     onRequestPost_part_001 sample_api (Parsed (JObj ((js ''tone'', JStr (js ''standard'')) # toneless_body))) sample_env \<and>
   status (fst (onRequestPost_part_001 sample_api (Parsed (JObj toneless_body)) sample_env)) \<noteq> 400 \<and>
   onRequestPost_v2 sample_api (Parsed (JObj toneless_body)) sample_env =
     (error_response ''Invalid tone: must be one of standard, simple, professional, academic'' 400, [])"
  using C4_tone_is_optional [of toneless_body sample_api sample_env] toneless
  by blast








end
